theory Spec2Isabelle
  imports Complex_Main "HOL-Library.Word"
begin

section \<open>Numbers and vectors\<close>

text \<open>
  The C \<open>float\<close> and \<open>double\<close> values of the sources are modelled as \<^typ>\<open>real\<close>: the ideal
  arithmetic that the IEEE operations round. Equality of two reals stands for the
  \<open>memcmp\<close> and \<open>==\<close> comparisons of the sources. A \<open>float[2]\<close> is a pair, a \<open>float[3]\<close> a
  triple, a \<open>float[4]\<close> a quadruple.
\<close>

type_synonym v2 = "real \<times> real"
type_synonym v3 = "real \<times> real \<times> real"
type_synonym v4 = "real \<times> real \<times> real \<times> real"

text \<open>
  The helpers of \<open>BLI_math_vector\<close> that the curve-draw operator calls. The header is not
  among the sources; each helper is the componentwise operation its name says.
\<close>

definition zero_v3 :: v3 where
  "zero_v3 = (0, 0, 0)"

definition is_zero_v3 :: "v3 \<Rightarrow> bool" where
  "is_zero_v3 v = (case v of (x, y, z) \<Rightarrow> x = 0 \<and> y = 0 \<and> z = 0)"

definition add_v3_v3 :: "v3 \<Rightarrow> v3 \<Rightarrow> v3" where
  "add_v3_v3 r a = (case (r, a) of ((r0, r1, r2), (a0, a1, a2)) \<Rightarrow> (r0 + a0, r1 + a1, r2 + a2))"

definition madd_v3_v3fl :: "v3 \<Rightarrow> v3 \<Rightarrow> real \<Rightarrow> v3" where
  "madd_v3_v3fl r a f =
     (case (r, a) of ((r0, r1, r2), (a0, a1, a2)) \<Rightarrow> (r0 + a0 * f, r1 + a1 * f, r2 + a2 * f))"

definition square_f :: "real \<Rightarrow> real" where
  "square_f a = a * a"

definition len_squared_v2v2 :: "v2 \<Rightarrow> v2 \<Rightarrow> real" where
  "len_squared_v2v2 a b =
     (case (a, b) of ((a0, a1), (b0, b1)) \<Rightarrow> (b0 - a0) * (b0 - a0) + (b1 - a1) * (b1 - a1))"

definition len_v2v2 :: "v2 \<Rightarrow> v2 \<Rightarrow> real" where
  "len_v2v2 a b = sqrt (len_squared_v2v2 a b)"

definition len_v3v3 :: "v3 \<Rightarrow> v3 \<Rightarrow> real" where
  "len_v3v3 a b =
     (case (a, b) of ((a0, a1, a2), (b0, b1, b2)) \<Rightarrow>
        sqrt ((b0 - a0) * (b0 - a0) + (b1 - a1) * (b1 - a1) + (b2 - a2) * (b2 - a2)))"

text \<open>
  Modelled from the spec: \<open>interp_v2_v2v2\<close> and \<open>interp_v3_v3v3\<close> are not under src/. The
  spec has the substep sampler use linear interpolation between the previous committed
  sample (at parameter 0) and the new one (at parameter 1).
\<close>

definition interp_v2_v2v2 :: "v2 \<Rightarrow> v2 \<Rightarrow> real \<Rightarrow> v2" where
  "interp_v2_v2v2 a b t =
     (case (a, b) of ((a0, a1), (b0, b1)) \<Rightarrow> ((1 - t) * a0 + t * b0, (1 - t) * a1 + t * b1))"

definition interp_v3_v3v3 :: "v3 \<Rightarrow> v3 \<Rightarrow> real \<Rightarrow> v3" where
  "interp_v3_v3v3 a b t =
     (case (a, b) of ((a0, a1, a2), (b0, b1, b2)) \<Rightarrow>
        ((1 - t) * a0 + t * b0, (1 - t) * a1 + t * b1, (1 - t) * a2 + t * b2))"

section \<open>The curve-draw operator: data\<close>

text \<open>\<open>struct StrokeElem\<close>: one recorded sample of the stroke.\<close>

record StrokeElem =
  mval :: v2
  location_world :: v3
  location_local :: v3
  normal_world :: v3
  normal_local :: v3
  pressure :: real

text \<open>What \<open>BLI_mempool_calloc\<close> hands out: a sample with every field zero.\<close>

definition StrokeElem_calloc :: StrokeElem where
  "StrokeElem_calloc =
     \<lparr>mval = (0, 0), location_world = zero_v3, location_local = zero_v3,
      normal_world = zero_v3, normal_local = zero_v3, pressure = 0\<rparr>"

datatype curve_type = CU_POLY | CU_BEZIER

text \<open>
  \<open>struct ViewDepths\<close>, the cached depth buffer. Its declaration is not among the sources:
  the width and height are unsigned counts, the buffer is read through
  \<open>ED_view3d_depth_read_cached\<close> (the value it leaves in \<open>depth_fl\<close>) and
  \<open>ED_view3d_depth_read_cached_normal\<close> (\<open>None\<close> when it returns false).
\<close>

record ViewDepths =
  depths_w :: nat
  depths_h :: nat
  depth_range :: "real \<times> real"
  depth_read_cached :: "32 word \<times> 32 word \<Rightarrow> real"
  depth_read_cached_normal :: "32 word \<times> 32 word \<Rightarrow> v3 option"

text \<open>
  \<open>struct CurveDrawData\<close>. The nested structs \<open>project\<close>, \<open>sample\<close>, \<open>radius\<close> and \<open>prev\<close>
  are flattened with their name as a prefix. \<open>prev.selem\<close> points at the last sample of
  the pool, which is never written again while it is pointed at, so the model keeps a copy.
  The memory pool is the list of its elements in allocation order, the order in which
  \<open>BLI_mempool_iterstep\<close> walks them.
\<close>

record CurveDrawData =
  cdd_curve_type :: curve_type
  project_use_plane :: bool
  project_plane :: v4
  project_use_depth :: bool
  project_use_offset :: bool
  project_offset :: v3
  project_surface_offset :: real
  project_use_surface_offset_absolute :: bool
  sample_use_substeps :: bool
  radius_min :: real
  radius_max :: real
  radius_range :: real
  prev_mval :: v2
  prev_location_world :: v3
  prev_location_world_valid :: v3
  prev_selem :: "StrokeElem option"
  depths :: "ViewDepths option"
  stroke_elem_pool :: "StrokeElem list"

text \<open>
  The part of \<open>ViewContext vc\<close> that the sample functions read, with the viewport
  functions they call on it taken as parameters (none of them is among the sources):
  \<^item> \<open>bevel_radius\<close> is \<open>cu->bevel_radius\<close> of the edited curve \<open>vc.obedit->data\<close>;
  \<^item> \<open>object_to_world\<close> and \<open>world_to_object\<close> are \<open>mul_v3_m4v3\<close> with the object's matrix
    and with the matrix that \<open>invert_m4_m4\<close> stored as its inverse;
  \<^item> \<open>object_to_world_transposed\<close> is \<open>mul_transposed_mat3_m4_v3\<close> with the object's matrix;
  \<^item> \<open>win_to_3d_on_plane\<close>, \<open>depth_unproject_v3\<close> and \<open>win_to_3d\<close> are the \<open>ED_view3d_*\<close>
    functions of these names, \<open>None\<close> standing for a false return;
  \<^item> \<open>normalize_v3\<close> and \<open>interpf\<close> are the \<open>BLI_math\<close> functions of these names.
\<close>

record ViewContext =
  bevel_radius :: real
  object_to_world :: "v3 \<Rightarrow> v3"
  world_to_object :: "v3 \<Rightarrow> v3"
  object_to_world_transposed :: "v3 \<Rightarrow> v3"
  win_to_3d_on_plane :: "v4 \<Rightarrow> v2 \<Rightarrow> v3 option"
  depth_unproject_v3 :: "32 word \<times> 32 word \<Rightarrow> real \<Rightarrow> v3 option"
  win_to_3d :: "v3 \<Rightarrow> v2 \<Rightarrow> v3"
  normalize_v3 :: "v3 \<Rightarrow> v3"
  interpf :: "real \<Rightarrow> real \<Rightarrow> real \<Rightarrow> real"

section \<open>Radius from pressure\<close>

definition stroke_elem_radius_from_pressure :: "ViewContext \<Rightarrow> CurveDrawData \<Rightarrow> real \<Rightarrow> real" where
  "stroke_elem_radius_from_pressure vc cdd p = ((p * radius_range cdd) + radius_min cdd) * bevel_radius vc"

definition stroke_elem_radius :: "ViewContext \<Rightarrow> CurveDrawData \<Rightarrow> StrokeElem \<Rightarrow> real" where
  "stroke_elem_radius vc cdd selem = stroke_elem_radius_from_pressure vc cdd (pressure selem)"

definition stroke_elem_pressure_set :: "ViewContext \<Rightarrow> CurveDrawData \<Rightarrow> StrokeElem \<Rightarrow> real \<Rightarrow> StrokeElem" where
  "stroke_elem_pressure_set vc cdd selem p =
     (if project_surface_offset cdd \<noteq> 0 \<and> \<not> project_use_surface_offset_absolute cdd \<and>
         \<not> is_zero_v3 (normal_local selem)
      then
        let adjust = stroke_elem_radius_from_pressure vc cdd p -
                     stroke_elem_radius_from_pressure vc cdd (pressure selem);
            local = madd_v3_v3fl (location_local selem) (normal_local selem) adjust
        in selem\<lparr>location_local := local, location_world := object_to_world vc local, pressure := p\<rparr>
      else selem\<lparr>pressure := p\<rparr>)"

definition stroke_elem_interp :: "ViewContext \<Rightarrow> StrokeElem \<Rightarrow> StrokeElem \<Rightarrow> StrokeElem \<Rightarrow> real \<Rightarrow> StrokeElem" where
  "stroke_elem_interp vc selem_out selem_a selem_b t =
     selem_out\<lparr>mval := interp_v2_v2v2 (mval selem_a) (mval selem_b) t,
       location_world := interp_v3_v3v3 (location_world selem_a) (location_world selem_b) t,
       location_local := interp_v3_v3v3 (location_local selem_a) (location_local selem_b) t,
       pressure := interpf vc (pressure selem_a) (pressure selem_b) t\<rparr>"

section \<open>Projecting a sample\<close>

text \<open>
  \<open>stroke_elem_project\<close> returns false or returns true with \<open>r_location_world\<close> and
  \<open>r_normal_world\<close> written; the model returns \<open>None\<close> or \<open>Some\<close> of the two vectors. On success
  the normal is always written: zeroed in both modes, then replaced by the sampled surface
  normal when the surface offset applies. The caller that passes a null
  \<open>r_normal_world\<close> ignores the second component. \<open>mval_i\<close> is a pair of C \<open>int\<close>s, kept as
  32-bit words: \<open>uint(mval_i[0])\<close> reads the same bits unsigned.
\<close>

definition stroke_elem_project ::
    "ViewContext \<Rightarrow> CurveDrawData \<Rightarrow> 32 word \<times> 32 word \<Rightarrow> v2 \<Rightarrow> real \<Rightarrow> real \<Rightarrow> (v3 \<times> v3) option" where
  "stroke_elem_project vc cdd mval_i mval_fl surface_offset radius =
     (let hit =
        (if project_use_plane cdd then
           (case win_to_3d_on_plane vc (project_plane cdd) mval_fl of
              None \<Rightarrow> None
            | Some loc \<Rightarrow> Some (loc, zero_v3))
         else
           (case depths cdd of
              None \<Rightarrow> None
            | Some d \<Rightarrow>
                if unat (fst mval_i) < depths_w d \<and> unat (snd mval_i) < depths_h d then
                  let depth = depth_read_cached d mval_i in
                  if depth > fst (depth_range d) \<and> depth < snd (depth_range d) then
                    (case depth_unproject_v3 vc mval_i depth of
                       None \<Rightarrow> None
                     | Some loc \<Rightarrow>
                         if surface_offset \<noteq> 0 then
                           let offset = (if project_use_surface_offset_absolute cdd then 1 else radius) in
                           (case depth_read_cached_normal d mval_i of
                              None \<Rightarrow> Some (loc, zero_v3)
                            | Some normal \<Rightarrow>
                                Some (madd_v3_v3fl loc normal (offset * surface_offset), normal))
                         else Some (loc, zero_v3))
                  else None
                else None))
      in case hit of
           None \<Rightarrow> None
         | Some (loc, no) \<Rightarrow>
             Some (if project_use_offset cdd then add_v3_v3 loc (project_offset cdd) else loc, no))"

text \<open>
  \<open>stroke_elem_project_fallback\<close> writes four vectors and returns whether the depth was
  found. When the projection fails \<open>r_normal_world\<close> is not written, so its value on entry
  (\<open>normal_world_in\<close>) decides the local normal. The result is
  \<open>(is_depth_found, location_world, location_local, normal_world, normal_local)\<close>.
\<close>

definition stroke_elem_project_fallback ::
    "ViewContext \<Rightarrow> CurveDrawData \<Rightarrow> 32 word \<times> 32 word \<Rightarrow> v2 \<Rightarrow> real \<Rightarrow> real \<Rightarrow> v3 \<Rightarrow> v3 \<Rightarrow>
     bool \<times> v3 \<times> v3 \<times> v3 \<times> v3" where
  "stroke_elem_project_fallback vc cdd mval_i mval_fl surface_offset radius
       location_fallback_depth normal_world_in =
     (let (is_depth_found, r_location_world, r_normal_world) =
            (case stroke_elem_project vc cdd mval_i mval_fl surface_offset radius of
               Some (loc, no) \<Rightarrow> (True, loc, no)
             | None \<Rightarrow> (False, win_to_3d vc location_fallback_depth mval_fl, normal_world_in));
          r_location_local = world_to_object vc r_location_world;
          r_normal_local =
            (if \<not> is_zero_v3 r_normal_world
             then normalize_v3 vc (object_to_world_transposed vc r_normal_world)
             else zero_v3)
      in (is_depth_found, r_location_world, r_location_local, r_normal_world, r_normal_local))"

text \<open>
  The conversion \<open>int(selem->mval[0])\<close> truncates towards zero. The screen coordinates of
  a stroke are far inside the range of \<open>int\<close>; outside it the C conversion is undefined and
  the model wraps.
\<close>

definition int_of_float :: "real \<Rightarrow> 32 word" where
  "int_of_float x = word_of_int (if 0 \<le> x then \<lfloor>x\<rfloor> else \<lceil>x\<rceil>)"

definition stroke_elem_project_fallback_elem ::
    "ViewContext \<Rightarrow> CurveDrawData \<Rightarrow> v3 \<Rightarrow> StrokeElem \<Rightarrow> bool \<times> StrokeElem" where
  "stroke_elem_project_fallback_elem vc cdd location_fallback_depth selem =
     (let mval_i = (int_of_float (fst (mval selem)), int_of_float (snd (mval selem)));
          radius = stroke_elem_radius vc cdd selem;
          (is_depth_found, w, l, nw, nl) =
            stroke_elem_project_fallback vc cdd mval_i (mval selem) (project_surface_offset cdd)
              radius location_fallback_depth (normal_world selem)
      in (is_depth_found,
          selem\<lparr>location_world := w, location_local := l, normal_world := nw, normal_local := nl\<rparr>))"

section \<open>Adding an input event to the stroke\<close>

text \<open>
  The fields of \<open>wmEvent\<close> that \<open>curve_draw_event_add\<close> reads: the integer cursor position
  and the tablet pressure.
\<close>

record wmEvent =
  event_mval :: "int \<times> int"
  tablet_pressure :: real

definition STROKE_SAMPLE_DIST_MIN_PX :: nat where
  "STROKE_SAMPLE_DIST_MIN_PX = 1"

definition STROKE_SAMPLE_DIST_MAX_PX :: nat where
  "STROKE_SAMPLE_DIST_MAX_PX = 3"

definition STROKE_CYCLIC_DIST_PX :: nat where
  "STROKE_CYCLIC_DIST_PX = 8"

text \<open>
  One turn of the substep loop, for the counter \<open>i\<close>. The state is the operator data, the
  element \<open>selem_new_last\<close> that the turn fills, and the substeps finished so far. The turn
  interpolates into the element, projects it again, updates the fallback depth when only
  the substep found a depth, and takes a fresh zeroed element from the pool for the next
  turn.
\<close>

definition substep ::
    "ViewContext \<Rightarrow> bool \<Rightarrow> StrokeElem \<Rightarrow> StrokeElem \<Rightarrow> nat \<Rightarrow> nat \<Rightarrow>
     CurveDrawData \<times> StrokeElem \<times> StrokeElem list \<Rightarrow> CurveDrawData \<times> StrokeElem \<times> StrokeElem list" where
  "substep vc is_depth_found selem_prev selem_target n i st =
     (case st of (cdd, selem_new_last, substeps) \<Rightarrow>
        let selem_new = stroke_elem_interp vc selem_new_last selem_prev selem_target (real i / real n);
            (is_depth_found_substep, selem_new') =
              stroke_elem_project_fallback_elem vc cdd (prev_location_world_valid cdd) selem_new;
            cdd' = (if is_depth_found = False \<and> is_depth_found_substep
                    then cdd\<lparr>prev_location_world_valid := location_world selem_new'\<rparr> else cdd)
        in (cdd', StrokeElem_calloc, substeps @ [selem_new']))"

text \<open>
  \<open>curve_draw_event_add\<close>. The new element is appended to the pool; with substeps the
  element first allocated receives the first substep, each later allocation the next one,
  and the last allocation the copy \<open>selem_target\<close> of the projected input sample, so the
  pool grows by the substeps followed by the target.
\<close>

definition curve_draw_event_add :: "ViewContext \<Rightarrow> CurveDrawData \<Rightarrow> wmEvent \<Rightarrow> CurveDrawData" where
  "curve_draw_event_add vc cdd event =
     (let selem0 = StrokeElem_calloc\<lparr>mval := (real_of_int (fst (event_mval event)),
                                               real_of_int (snd (event_mval event))),
                                      pressure := tablet_pressure event\<rparr>;
          (is_depth_found, selem) =
            stroke_elem_project_fallback_elem vc cdd (prev_location_world_valid cdd) selem0;
          cdd1 = (if is_depth_found
                  then cdd\<lparr>prev_location_world_valid := location_world selem\<rparr> else cdd);
          cdd2 = cdd1\<lparr>prev_location_world := location_world selem\<rparr>;
          len_sq = len_squared_v2v2 (prev_mval cdd2) (mval selem);
          cdd3 = cdd2\<lparr>prev_mval := mval selem\<rparr>
      in case prev_selem cdd3 of
           Some selem_prev \<Rightarrow>
             if sample_use_substeps cdd3 then
               let selem_target = selem;
                   (cdd4, selem_new_last, substeps) =
                     (if len_sq \<ge> square_f (real STROKE_SAMPLE_DIST_MAX_PX) then
                        let n = nat \<lceil>sqrt len_sq\<rceil> div STROKE_SAMPLE_DIST_MAX_PX
                        in fold (substep vc is_depth_found selem_prev selem_target n) [1..<n]
                             (cdd3, selem, [])
                      else (cdd3, selem, []))
               in cdd4\<lparr>stroke_elem_pool := stroke_elem_pool cdd4 @ substeps @ [selem_target],
                        prev_selem := Some selem_target\<rparr>
             else cdd3\<lparr>stroke_elem_pool := stroke_elem_pool cdd3 @ [selem],
                        prev_selem := Some selem\<rparr>
         | None \<Rightarrow> cdd3\<lparr>stroke_elem_pool := stroke_elem_pool cdd3 @ [selem],
                          prev_selem := Some selem\<rparr>)"

section \<open>Finishing the stroke: data\<close>

text \<open>
  The fields of \<open>CurvePaintSettings\<close> that the operator reads. The bits of \<open>flag\<close> are the
  elements of a set.
\<close>

datatype fit_method = CURVE_PAINT_FIT_METHOD_REFIT | CURVE_PAINT_FIT_METHOD_SPLIT

datatype curve_paint_flag =
    CURVE_PAINT_FLAG_CORNERS_DETECT
  | CURVE_PAINT_FLAG_PRESSURE_RADIUS
  | CURVE_PAINT_FLAG_DEPTH_STROKE_ENDPOINTS
  | CURVE_PAINT_FLAG_DEPTH_STROKE_OFFSET_ABS
  | CURVE_PAINT_FLAG_DEPTH_ONLY_SELECTED

record CurvePaintSettings =
  cps_curve_type :: curve_type
  cps_flag :: "curve_paint_flag set"
  cps_fit_method :: fit_method
  cps_error_threshold :: real
  cps_corner_angle :: real
  cps_radius_min :: real
  cps_radius_max :: real
  cps_radius_taper_start :: real
  cps_radius_taper_end :: real
  cps_surface_offset :: real

text \<open>
  The operator: its RNA properties (\<open>None\<close> while a property is not set) and its custom
  data. An element of the \<open>stroke\<close> collection holds a cursor position, a world location and
  a pressure. The getters return the default that \<open>CURVE_OT_draw\<close> registers when the
  property is not set.
\<close>

record OperatorStrokeElement =
  ose_mouse :: v2
  ose_location :: v3
  ose_pressure :: real

record wmOperator =
  op_fit_method :: "fit_method option"
  op_error_threshold :: "real option"
  op_corner_angle :: "real option"
  op_use_cyclic :: "bool option"
  op_stroke :: "OperatorStrokeElement list"
  customdata :: "CurveDrawData option"

definition RNA_fit_method :: "wmOperator \<Rightarrow> fit_method" where
  "RNA_fit_method op = (case op_fit_method op of Some m \<Rightarrow> m | None \<Rightarrow> CURVE_PAINT_FIT_METHOD_REFIT)"

definition RNA_error_threshold :: "wmOperator \<Rightarrow> real" where
  "RNA_error_threshold op = (case op_error_threshold op of Some e \<Rightarrow> e | None \<Rightarrow> 0)"

definition RNA_corner_angle :: "wmOperator \<Rightarrow> real" where
  "RNA_corner_angle op = (case op_corner_angle op of Some a \<Rightarrow> a | None \<Rightarrow> 70 * pi / 180)"

definition RNA_use_cyclic :: "wmOperator \<Rightarrow> bool" where
  "RNA_use_cyclic op = (case op_use_cyclic op of Some c \<Rightarrow> c | None \<Rightarrow> True)"

text \<open>
  The curve being edited: the fields of \<open>Curve\<close> that the operator reads, its list of
  splines \<open>nurblist\<close> and the active vertex. A spline \<open>Nurb\<close> holds either an array of
  \<open>BezTriple\<close> or an array of \<open>BPoint\<close>; a null array is \<open>None\<close>.
\<close>

datatype handle_type = HD_FREE | HD_AUTO | HD_VECT | HD_ALIGN

definition SELECT :: "8 word" where
  "SELECT = 1"

record BezTriple =
  bezt_vec :: "v3 \<times> v3 \<times> v3"
  bezt_radius :: real
  h1 :: handle_type
  h2 :: handle_type
  f1 :: "8 word"
  f2 :: "8 word"
  f3 :: "8 word"

record BPoint =
  bp_vec :: v4
  bp_radius :: real
  bp_f1 :: "8 word"

datatype nurb_flag = CU_SMOOTH
datatype nurb_flagu = CU_NURB_CYCLIC

record Nurb =
  nu_type :: curve_type
  pntsu :: int
  pntsv :: int
  resolu :: int
  resolv :: int
  orderu :: int
  orderv :: int
  nu_flag :: "nurb_flag set"
  flagu :: "nurb_flagu set"
  bezt :: "BezTriple list option"
  bp :: "BPoint list option"

text \<open>What \<open>MEM_callocN<Nurb>\<close> returns. The zero of \<open>nu->type\<close> is \<open>CU_POLY\<close>.\<close>

definition Nurb_calloc :: Nurb where
  "Nurb_calloc =
     \<lparr>nu_type = CU_POLY, pntsu = 0, pntsv = 0, resolu = 0, resolv = 0, orderu = 0, orderv = 0,
      nu_flag = {}, flagu = {}, bezt = None, bp = None\<rparr>"

text \<open>An element of a zeroed \<open>BezTriple\<close> or \<open>BPoint\<close> array. The zero handle type is \<open>HD_FREE\<close>.\<close>

definition BezTriple_calloc :: BezTriple where
  "BezTriple_calloc =
     \<lparr>bezt_vec = (zero_v3, zero_v3, zero_v3), bezt_radius = 0, h1 = HD_FREE, h2 = HD_FREE,
      f1 = 0, f2 = 0, f3 = 0\<rparr>"

definition BPoint_calloc :: BPoint where
  "BPoint_calloc = \<lparr>bp_vec = (0, 0, 0, 0), bp_radius = 0, bp_f1 = 0\<rparr>"

record Curve =
  cu_is_3d :: bool
  cu_resolu :: int
  cu_resolv :: int
  nurblist :: "Nurb list"
  actvert :: int

text \<open>
  The curve-fitting library \<open>curve_fit_nd\<close> is outside the sources and is taken as a
  parameter. The array \<open>coords\<close> of \<open>stroke_len * dims\<close> floats is the list of its
  \<open>stroke_len\<close> entries of \<open>dims\<close> floats each. A fit returns its status and what it left
  in its output pointers: \<open>cubic_spline\<close> as the list of its \<open>cubic_spline_len\<close> entries,
  each the left handle, the point and the right handle of \<open>dims\<close> floats, and
  \<open>corners_index\<close>, \<open>None\<close> when the pointer stays null.
\<close>

datatype fit_flag = CURVE_FIT_CALC_HIGH_QUALIY | CURVE_FIT_CALC_CYCLIC

record fit_output =
  fit_result :: int
  cubic_spline :: "(real list \<times> real list \<times> real list) list"
  corners_index :: "nat list option"

record curve_fit_nd =
  curve_fit_corners_detect_fl ::
    "real list list \<Rightarrow> nat \<Rightarrow> real \<Rightarrow> real \<Rightarrow> nat \<Rightarrow> real \<Rightarrow> nat list option"
  curve_fit_cubic_to_points_fl ::
    "real list list \<Rightarrow> nat \<Rightarrow> real \<Rightarrow> fit_flag set \<Rightarrow> nat list option \<Rightarrow> fit_output"
  curve_fit_cubic_to_points_refit_fl ::
    "real list list \<Rightarrow> nat \<Rightarrow> real \<Rightarrow> fit_flag set \<Rightarrow> real \<Rightarrow> fit_output"

text \<open>
  The kernel functions that \<open>curve_draw_exec\<close> calls on the splines, taken as parameters:
  \<open>ED_curve_deselect_all_multi\<close> on the existing splines, \<open>BKE_nurb_handles_calc\<close> and
  \<open>BKE_nurb_knot_calc_u\<close> on the new one.
\<close>

record curve_kernel =
  ED_curve_deselect_all_multi :: "Nurb list \<Rightarrow> Nurb list"
  BKE_nurb_handles_calc :: "Nurb \<Rightarrow> Nurb"
  BKE_nurb_knot_calc_u :: "Nurb \<Rightarrow> Nurb"

datatype wmOperatorStatus = OPERATOR_CANCELLED | OPERATOR_FINISHED | OPERATOR_RUNNING_MODAL

section \<open>Initialising the operator data\<close>

definition CurveDrawData_calloc :: CurveDrawData where
  "CurveDrawData_calloc =
     \<lparr>cdd_curve_type = CU_POLY, project_use_plane = False, project_plane = (0, 0, 0, 0),
      project_use_depth = False, project_use_offset = False, project_offset = zero_v3,
      project_surface_offset = 0, project_use_surface_offset_absolute = False,
      sample_use_substeps = False, radius_min = 0, radius_max = 0, radius_range = 0,
      prev_mval = (0, 0), prev_location_world = zero_v3, prev_location_world_valid = zero_v3,
      prev_selem = None, depths = None, stroke_elem_pool = []\<rparr>"

text \<open>
  \<open>curve_draw_init\<close> returns false (\<open>None\<close>) when invoked without a 3D viewport
  (\<open>viewport_ok\<close> stands for the test of the view context) or executed with an empty
  \<open>stroke\<close> collection.
\<close>

definition curve_draw_init :: "CurvePaintSettings \<Rightarrow> wmOperator \<Rightarrow> bool \<Rightarrow> bool \<Rightarrow> CurveDrawData option" where
  "curve_draw_init cps op is_invoke viewport_ok =
     (if (if is_invoke then \<not> viewport_ok else op_stroke op = []) then None
      else Some (CurveDrawData_calloc
        \<lparr>cdd_curve_type := cps_curve_type cps,
         project_surface_offset := cps_surface_offset cps,
         project_use_surface_offset_absolute :=
           (CURVE_PAINT_FLAG_DEPTH_STROKE_OFFSET_ABS \<in> cps_flag cps),
         radius_min := cps_radius_min cps,
         radius_max := cps_radius_max cps,
         radius_range := cps_radius_max cps - cps_radius_min cps,
         stroke_elem_pool := []\<rparr>))"

definition curve_draw_stroke_from_operator_elem :: "ViewContext \<Rightarrow> OperatorStrokeElement \<Rightarrow> StrokeElem" where
  "curve_draw_stroke_from_operator_elem vc itemptr =
     StrokeElem_calloc\<lparr>mval := ose_mouse itemptr, location_world := ose_location itemptr,
       location_local := world_to_object vc (ose_location itemptr),
       pressure := ose_pressure itemptr\<rparr>"

definition curve_draw_stroke_from_operator :: "ViewContext \<Rightarrow> wmOperator \<Rightarrow> StrokeElem list" where
  "curve_draw_stroke_from_operator vc op = map (curve_draw_stroke_from_operator_elem vc) (op_stroke op)"

section \<open>Finishing the stroke: the spline\<close>

text \<open>
  The entry of \<open>coords\<close> for one sample: its local position and, when the radius channel is
  in use (\<open>coords_indices.radius = 3\<close>, \<open>dims = 4\<close>), its pressure.
\<close>

definition coords_entry :: "bool \<Rightarrow> StrokeElem \<Rightarrow> real list" where
  "coords_entry use_pressure_radius selem =
     (case location_local selem of (x, y, z) \<Rightarrow>
        [x, y, z] @ (if use_pressure_radius then [pressure selem] else []))"

text \<open>
  The loop that fills \<open>coords\<close>. \<open>co\<close> is the list of the entries below the write pointer.
  An entry equal to the one before it (\<open>memcmp\<close> over \<open>dims\<close> floats) is written and then
  dropped by stepping the pointer back, which also takes one off \<open>stroke_len\<close>; so
  \<open>stroke_len\<close> ends as the length of the result.
\<close>

fun coords_fill :: "bool \<Rightarrow> StrokeElem list \<Rightarrow> real list list \<Rightarrow> real list list" where
  "coords_fill use_pressure_radius [] co = co"
| "coords_fill use_pressure_radius (selem # pool) co =
     (let entry = coords_entry use_pressure_radius selem in
      if co \<noteq> [] \<and> entry = last co then coords_fill use_pressure_radius pool co
      else coords_fill use_pressure_radius pool (co @ [entry]))"

text \<open>\<open>copy_v3_v3\<close> from a pointer into a float array: the first three floats.\<close>

definition v3_of :: "real list \<Rightarrow> v3" where
  "v3_of co = (co ! 0, co ! 1, co ! 2)"

definition bezt_of_cubic :: "CurveDrawData \<Rightarrow> real \<Rightarrow> bool \<Rightarrow> real list \<times> real list \<times> real list \<Rightarrow> BezTriple" where
  "bezt_of_cubic cdd radius_max_c use_pressure_radius k =
     (case k of (handle_l, pt, handle_r) \<Rightarrow>
        BezTriple_calloc
          \<lparr>bezt_vec := (v3_of handle_l, v3_of pt, v3_of handle_r),
           bezt_radius := (if use_pressure_radius
                           then (pt ! 3 * radius_range cdd) + radius_min cdd else radius_max_c),
           h1 := HD_ALIGN, h2 := HD_ALIGN, f1 := SELECT, f2 := SELECT, f3 := SELECT\<rparr>)"

text \<open>
  The second pass over the fitted points: the entries \<open>i_start \<le> i < i_end\<close> of
  \<open>corners_index\<close>, and the write of \<open>HD_FREE\<close> at each. A corner index beyond the array
  would write outside \<open>nu->bezt\<close>; the model stops with \<open>None\<close> there.
\<close>

definition corners_range :: "fit_flag set \<Rightarrow> nat list \<Rightarrow> nat list" where
  "corners_range calc_flag ci =
     (let (i_start, i_end) =
            (if length ci \<ge> 2 \<and> CURVE_FIT_CALC_CYCLIC \<notin> calc_flag
             then (0 + 1, length ci - 1) else (0, length ci))
      in take (i_end - i_start) (drop i_start ci))"

fun set_free :: "nat list \<Rightarrow> BezTriple list \<Rightarrow> BezTriple list option" where
  "set_free [] bs = Some bs"
| "set_free (c # cs) bs =
     (if c < length bs then set_free cs (bs[c := (bs ! c)\<lparr>h1 := HD_FREE, h2 := HD_FREE\<rparr>])
      else None)"

text \<open>
  The Bezier branch of \<open>curve_draw_exec\<close>, first part: from the allocation of \<open>coords\<close> to
  the fit call. The result is \<open>calc_flag\<close> and what the fit call returned.
\<close>

definition curve_draw_exec_fit ::
    "curve_fit_nd \<Rightarrow> wmOperator \<Rightarrow> CurveDrawData \<Rightarrow> bool \<Rightarrow> fit_flag set \<times> fit_output" where
  "curve_draw_exec_fit lib op cdd use_pressure_radius =
     (let dims = (if use_pressure_radius then 4 else 3);
          fit_method = RNA_fit_method op;
          error_threshold = RNA_error_threshold op;
          corner_angle = RNA_corner_angle op;
          use_cyclic = RNA_use_cyclic op;
          coords = coords_fill use_pressure_radius (stroke_elem_pool cdd) [];
          stroke_len = length coords;
          corners =
            (if fit_method = CURVE_PAINT_FIT_METHOD_SPLIT \<and> corner_angle < pi
             then curve_fit_corners_detect_fl lib coords dims (error_threshold / 8)
                    (error_threshold * 2) 16 corner_angle
             else None);
          calc_flag = {CURVE_FIT_CALC_HIGH_QUALIY} \<union>
            (if stroke_len > 2 \<and> use_cyclic then {CURVE_FIT_CALC_CYCLIC} else {})
      in (calc_flag,
          if fit_method = CURVE_PAINT_FIT_METHOD_REFIT
          then curve_fit_cubic_to_points_refit_fl lib coords dims error_threshold calc_flag
                 corner_angle
          else curve_fit_cubic_to_points_fl lib coords dims error_threshold calc_flag corners))"

text \<open>
  Second part: the spline \<open>nu\<close> built from the fit, as it stands before
  \<open>BKE_nurb_handles_calc\<close>. Only the status 0 builds points.
\<close>

definition curve_draw_exec_bezier ::
    "curve_fit_nd \<Rightarrow> CurvePaintSettings \<Rightarrow> wmOperator \<Rightarrow> CurveDrawData \<Rightarrow> bool \<Rightarrow> Nurb \<Rightarrow> Nurb option" where
  "curve_draw_exec_bezier lib cps op cdd use_pressure_radius nu0 =
     (let nu = nu0\<lparr>nu_type := CU_BEZIER\<rparr>;
          (calc_flag, out) = curve_draw_exec_fit lib op cdd use_pressure_radius
      in if fit_result out = 0 then
           let bezts = map (bezt_of_cubic cdd (cps_radius_max cps) use_pressure_radius)
                         (cubic_spline out);
               second_pass = (case corners_index out of
                                None \<Rightarrow> Some bezts
                              | Some ci \<Rightarrow> set_free (corners_range calc_flag ci) bezts)
           in map_option
                (\<lambda>bezts'. nu\<lparr>pntsu := int (length (cubic_spline out)), bezt := Some bezts',
                              flagu := (if CURVE_FIT_CALC_CYCLIC \<in> calc_flag
                                        then flagu nu \<union> {CU_NURB_CYCLIC} else flagu nu)\<rparr>)
                second_pass
         else Some nu)"

text \<open>The poly branch, up to the spline as it stands before \<open>BKE_nurb_knot_calc_u\<close>.\<close>

definition bp_of_selem :: "CurvePaintSettings \<Rightarrow> bool \<Rightarrow> bool \<Rightarrow> StrokeElem \<Rightarrow> BPoint" where
  "bp_of_selem cps is_3d use_pressure_radius selem =
     (case location_local selem of (x, y, z) \<Rightarrow>
        BPoint_calloc
          \<lparr>bp_vec := (x, y, if is_3d then z else 0, 1),
           bp_radius := (if use_pressure_radius
                         then (pressure selem * (cps_radius_max cps - cps_radius_min cps)) +
                              cps_radius_min cps
                         else cps_radius_max cps),
           bp_f1 := SELECT\<rparr>)"

definition curve_draw_exec_poly ::
    "CurvePaintSettings \<Rightarrow> Curve \<Rightarrow> CurveDrawData \<Rightarrow> bool \<Rightarrow> Nurb \<Rightarrow> Nurb" where
  "curve_draw_exec_poly cps cu cdd use_pressure_radius nu =
     nu\<lparr>pntsu := int (length (stroke_elem_pool cdd)), pntsv := 1, nu_type := CU_POLY,
        bp := Some (map (bp_of_selem cps (cu_is_3d cu) use_pressure_radius) (stroke_elem_pool cdd)),
        resolu := cu_resolu cu, resolv := 1, orderu := 4, orderv := 1\<rparr>"

text \<open>
  The operator data that \<open>curve_draw_exec\<close> works on: the custom data, initialised first
  when the operator has none (\<open>None\<close> when that fails), with the stroke loaded from the
  operator's \<open>stroke\<close> collection when the pool is empty.
\<close>

definition curve_draw_exec_data :: "ViewContext \<Rightarrow> CurvePaintSettings \<Rightarrow> wmOperator \<Rightarrow> CurveDrawData option" where
  "curve_draw_exec_data vc cps op =
     map_option
       (\<lambda>cdd. if stroke_elem_pool cdd = []
              then cdd\<lparr>stroke_elem_pool := curve_draw_stroke_from_operator vc op\<rparr> else cdd)
       (case customdata op of
          None \<Rightarrow> curve_draw_init cps op False True
        | Some cdd \<Rightarrow> Some cdd)"

definition use_pressure_radius :: "CurvePaintSettings \<Rightarrow> bool" where
  "use_pressure_radius cps =
     (CURVE_PAINT_FLAG_PRESSURE_RADIUS \<in> cps_flag cps \<or>
      (cps_radius_taper_start cps \<noteq> 0 \<or> cps_radius_taper_end cps \<noteq> 0))"

text \<open>The spline \<open>nu\<close> as \<open>curve_draw_exec\<close> sets it up before the branch on the curve type.\<close>

definition nu_init :: "Curve \<Rightarrow> Nurb" where
  "nu_init cu =
     Nurb_calloc\<lparr>pntsv := 0, resolu := cu_resolu cu, resolv := cu_resolv cu,
       nu_flag := nu_flag Nurb_calloc \<union> {CU_SMOOTH}\<rparr>"

text \<open>
  \<open>curve_draw_exec\<close>. The result is \<open>None\<close> only for the out-of-bounds write described at
  \<open>set_free\<close>. Otherwise it is the operator status and the edited curve: cancelled with the
  curve untouched when the initialisation fails, else finished with the existing splines
  deselected and the new spline added at the tail of the list.
\<close>

definition curve_draw_exec ::
    "ViewContext \<Rightarrow> curve_fit_nd \<Rightarrow> curve_kernel \<Rightarrow> CurvePaintSettings \<Rightarrow> wmOperator \<Rightarrow> Curve \<Rightarrow>
     (wmOperatorStatus \<times> Curve) option" where
  "curve_draw_exec vc lib ker cps op cu =
     (case curve_draw_exec_data vc cps op of
        None \<Rightarrow> Some (OPERATOR_CANCELLED, cu)
      | Some cdd \<Rightarrow>
          let nurblist1 = ED_curve_deselect_all_multi ker (nurblist cu);
              nu = nu_init cu;
              built =
                (if cdd_curve_type cdd = CU_BEZIER
                 then map_option (BKE_nurb_handles_calc ker)
                        (curve_draw_exec_bezier lib cps op cdd (use_pressure_radius cps) nu)
                 else Some (BKE_nurb_knot_calc_u ker
                        (curve_draw_exec_poly cps cu cdd (use_pressure_radius cps) nu)))
          in map_option
               (\<lambda>nu'. (OPERATOR_FINISHED,
                       cu\<lparr>nurblist := nurblist1 @ [nu'], actvert := pntsu nu' - 1\<rparr>))
               built)"

section \<open>Tapering the radius\<close>

text \<open>
  The taper block of \<open>curve_draw_exec_precalc\<close>. (The first part of that function fills
  in operator properties that are not set and writes no sample.)

  \<open>stroke_lengths\<close> is the loop that accumulates \<open>len_3d\<close> over the pool and stores it in
  \<open>lengths[i]\<close> for \<open>i \<ge> 1\<close>; \<open>lengths[0]\<close> is 0.
\<close>

fun stroke_lengths :: "real \<Rightarrow> StrokeElem \<Rightarrow> StrokeElem list \<Rightarrow> real list" where
  "stroke_lengths len_3d selem_prev [] = []"
| "stroke_lengths len_3d selem_prev (selem # pool) =
     (let len_3d_segment = len_v3v3 (location_local selem) (location_local selem_prev);
          len_3d' = len_3d + len_3d_segment
      in len_3d' # stroke_lengths len_3d' selem pool)"

text \<open>
  The first taper loop runs \<open>i\<close> upwards from 0 while \<open>lengths[i] < len_taper_max\<close>; its
  argument pairs each length with its sample, in pool order. It stops at the first sample
  that fails the test and leaves the rest as they are.
\<close>

fun taper_start_loop :: "ViewContext \<Rightarrow> CurveDrawData \<Rightarrow> real \<Rightarrow> (real \<times> StrokeElem) list \<Rightarrow> StrokeElem list" where
  "taper_start_loop vc cdd len_taper_max [] = []"
| "taper_start_loop vc cdd len_taper_max ((len, selem) # rest) =
     (if len < len_taper_max then
        (let pressure_new = pressure selem * (len / len_taper_max)
         in stroke_elem_pressure_set vc cdd selem pressure_new #
            taper_start_loop vc cdd len_taper_max rest)
      else selem # map snd rest)"

text \<open>
  The second taper loop runs \<open>i\<close> downwards from \<open>stroke_len - 1\<close> while \<open>i > 0\<close> and
  \<open>lengths[i] > len_taper_min\<close>; its argument lists the pairs of the indices
  \<open>stroke_len - 1\<close> down to 1 in that order.
\<close>

fun taper_end_loop :: "ViewContext \<Rightarrow> CurveDrawData \<Rightarrow> real \<Rightarrow> real \<Rightarrow> real \<Rightarrow> (real \<times> StrokeElem) list \<Rightarrow> StrokeElem list" where
  "taper_end_loop vc cdd len_3d len_taper_max len_taper_min [] = []"
| "taper_end_loop vc cdd len_3d len_taper_max len_taper_min ((len, selem) # rest) =
     (if len > len_taper_min then
        (let pressure_new = pressure selem * ((len_3d - len) / len_taper_max)
         in stroke_elem_pressure_set vc cdd selem pressure_new #
            taper_end_loop vc cdd len_3d len_taper_max len_taper_min rest)
      else selem # map snd rest)"

text \<open>
  The result is the pool after the block. With an empty pool the block would write
  \<open>lengths[0]\<close> into an array of no elements: \<open>None\<close>.
\<close>

definition curve_draw_exec_precalc_taper ::
    "ViewContext \<Rightarrow> CurvePaintSettings \<Rightarrow> CurveDrawData \<Rightarrow> CurveDrawData option" where
  "curve_draw_exec_precalc_taper vc cps cdd =
     (if cps_radius_taper_start cps \<noteq> 0 \<or> cps_radius_taper_end cps \<noteq> 0 then
        (case stroke_elem_pool cdd of
           [] \<Rightarrow> None
         | selem_first # pool \<Rightarrow>
             let lengths = 0 # stroke_lengths 0 selem_first pool;
                 len_3d = last lengths;
                 pool1 =
                   (if cps_radius_taper_start cps \<noteq> 0 then
                      taper_start_loop vc cdd (cps_radius_taper_start cps * len_3d)
                        (zip lengths (stroke_elem_pool cdd))
                    else stroke_elem_pool cdd);
                 pool2 =
                   (if cps_radius_taper_end cps \<noteq> 0 then
                      (let len_taper_max = cps_radius_taper_end cps * len_3d;
                           len_taper_min = len_3d - len_taper_max
                       in hd pool1 #
                          rev (taper_end_loop vc cdd len_3d len_taper_max len_taper_min
                                 (rev (tl (zip lengths pool1)))))
                    else pool1)
             in Some (cdd\<lparr>stroke_elem_pool := pool2\<rparr>))
      else Some cdd)"

section \<open>Transforming geometry\<close>

text \<open>
  A \<open>float4x4\<close> is its four columns \<open>x\<close>, \<open>y\<close>, \<open>z\<close> and \<open>w\<close> of four floats each;
  \<open>x_axis()\<close>, \<open>y_axis()\<close>, \<open>z_axis()\<close> and \<open>location()\<close> are the first three floats of
  these columns. A \<open>float3x3\<close> is its three columns.
\<close>

type_synonym float3 = v3
type_synonym float4x4 = "v4 \<times> v4 \<times> v4 \<times> v4"
type_synonym float3x3 = "v3 \<times> v3 \<times> v3"

definition float4x4_identity :: float4x4 where
  "float4x4_identity = ((1, 0, 0, 0), (0, 1, 0, 0), (0, 0, 1, 0), (0, 0, 0, 1))"

definition xyz :: "v4 \<Rightarrow> float3" where
  "xyz c = (case c of (x, y, z, w) \<Rightarrow> (x, y, z))"

definition set_xyz :: "v4 \<Rightarrow> float3 \<Rightarrow> v4" where
  "set_xyz c v = (case (c, v) of ((cx, cy, cz, w), (x, y, z)) \<Rightarrow> (x, y, z, w))"

definition x_axis :: "float4x4 \<Rightarrow> float3" where
  "x_axis m = (case m of (x, y, z, w) \<Rightarrow> xyz x)"

definition y_axis :: "float4x4 \<Rightarrow> float3" where
  "y_axis m = (case m of (x, y, z, w) \<Rightarrow> xyz y)"

definition z_axis :: "float4x4 \<Rightarrow> float3" where
  "z_axis m = (case m of (x, y, z, w) \<Rightarrow> xyz z)"


definition set_axes :: "float4x4 \<Rightarrow> float3 \<Rightarrow> float3 \<Rightarrow> float3 \<Rightarrow> float4x4" where
  "set_axes m a b c = (case m of (x, y, z, w) \<Rightarrow> (set_xyz x a, set_xyz y b, set_xyz z c, w))"

definition add_location :: "float4x4 \<Rightarrow> float3 \<Rightarrow> float4x4" where
  "add_location m t = (case m of (x, y, z, w) \<Rightarrow> (x, y, z, set_xyz w (add_v3_v3 (xyz w) t)))"

definition from_location :: "float3 \<Rightarrow> float4x4" where
  "from_location t = (case float4x4_identity of (x, y, z, w) \<Rightarrow> (x, y, z, set_xyz w t))"

definition copy_m3_m4 :: "float4x4 \<Rightarrow> float3x3" where
  "copy_m3_m4 m = (case m of (x, y, z, w) \<Rightarrow> (xyz x, xyz y, xyz z))"

definition is_zero :: "float3 \<Rightarrow> bool" where
  "is_zero v = (case v of (x, y, z) \<Rightarrow> x = 0 \<and> y = 0 \<and> z = 0)"

text \<open>
  Modelled from the spec: \<open>math::determinant\<close> and \<open>math::normalize\<close> are not under src/.
  The spec has the transform code judge the combined matrix by its determinant and replace
  the basis vectors of a degenerate one by the normalized (unit-length) existing axes: the
  determinant of the 4 by 4 matrix, written out by expansion along the fourth row, and the
  vector divided by its Euclidean length. The zero vector has no direction; the model
  returns it as it is.
\<close>

definition determinant3 :: "v3 \<Rightarrow> v3 \<Rightarrow> v3 \<Rightarrow> real" where
  "determinant3 a b c =
     (case (a, b, c) of ((a0, a1, a2), (b0, b1, b2), (c0, c1, c2)) \<Rightarrow>
        a0 * (b1 * c2 - b2 * c1) - b0 * (a1 * c2 - a2 * c1) + c0 * (a1 * b2 - a2 * b1))"

definition determinant :: "float4x4 \<Rightarrow> real" where
  "determinant m =
     (case m of ((x0, x1, x2, x3), (y0, y1, y2, y3), (z0, z1, z2, z3), (w0, w1, w2, w3)) \<Rightarrow>
        - x3 * determinant3 (y0, y1, y2) (z0, z1, z2) (w0, w1, w2)
        + y3 * determinant3 (x0, x1, x2) (z0, z1, z2) (w0, w1, w2)
        - z3 * determinant3 (x0, x1, x2) (y0, y1, y2) (w0, w1, w2)
        + w3 * determinant3 (x0, x1, x2) (y0, y1, y2) (z0, z1, z2))"

definition length_f3 :: "float3 \<Rightarrow> real" where
  "length_f3 v = (case v of (x, y, z) \<Rightarrow> sqrt (x * x + y * y + z * z))"

definition normalize :: "float3 \<Rightarrow> float3" where
  "normalize v =
     (if length_f3 v = 0 then v
      else (case v of (x, y, z) \<Rightarrow> (x / length_f3 v, y / length_f3 v, z / length_f3 v)))"

text \<open>
  The other functions of the math library that the transform code calls and that are not
  among the sources, taken as parameters: the matrix products and
  \<open>math::transform_point\<close>.
\<close>

record math_lib =
  mul_m4 :: "float4x4 \<Rightarrow> float4x4 \<Rightarrow> float4x4"
  mul_m3 :: "float3x3 \<Rightarrow> float3x3 \<Rightarrow> float3x3"
  transform_point :: "float4x4 \<Rightarrow> float3 \<Rightarrow> float3"

definition translate_positions :: "float3 list \<Rightarrow> float3 \<Rightarrow> float3 list" where
  "translate_positions positions translation = map (\<lambda>position. add_v3_v3 position translation) positions"

definition transform_positions :: "math_lib \<Rightarrow> float3 list \<Rightarrow> float4x4 \<Rightarrow> float3 list" where
  "transform_positions ml positions matrix = map (transform_point ml matrix) positions"

text \<open>
  A point cloud: its \<open>position\<close> attribute and its cache of bounds (\<open>None\<close> while not
  cached). Writing the attribute leaves the cache not cached.
\<close>

record PointCloud =
  pc_position :: "float3 list"
  bounds_cache :: "(float3 \<times> float3) option"

definition translate_pointcloud :: "PointCloud \<Rightarrow> float3 \<Rightarrow> PointCloud" where
  "translate_pointcloud pointcloud translation =
     (if is_zero translation then pointcloud
      else
        let bounds = bounds_cache pointcloud
        in pointcloud
             \<lparr>pc_position := translate_positions (pc_position pointcloud) translation,
              bounds_cache :=
                (case bounds of
                   None \<Rightarrow> None
                 | Some (bmin, bmax) \<Rightarrow>
                     Some (add_v3_v3 bmin translation, add_v3_v3 bmax translation))\<rparr>)"

definition transform_pointcloud :: "math_lib \<Rightarrow> PointCloud \<Rightarrow> float4x4 \<Rightarrow> PointCloud" where
  "transform_pointcloud ml pointcloud transform =
     pointcloud\<lparr>pc_position := transform_positions ml (pc_position pointcloud) transform,
                bounds_cache := None\<rparr>"

text \<open>A grease pencil object is the list of the local transforms of its layers.\<close>

definition translate_greasepencil :: "float4x4 list \<Rightarrow> float3 \<Rightarrow> float4x4 list" where
  "translate_greasepencil layers translation =
     map (\<lambda>local_transform. add_location local_transform translation) layers"

definition transform_greasepencil :: "math_lib \<Rightarrow> float4x4 list \<Rightarrow> float4x4 \<Rightarrow> float4x4 list" where
  "transform_greasepencil ml layers transform =
     map (\<lambda>local_transform. mul_m4 ml transform local_transform) layers"

text \<open>Instances are the list of their transforms.\<close>

definition translate_instances :: "float4x4 list \<Rightarrow> float3 \<Rightarrow> float4x4 list" where
  "translate_instances transforms translation =
     map (\<lambda>instance_transform. add_location instance_transform translation) transforms"

definition transform_instances :: "math_lib \<Rightarrow> float4x4 list \<Rightarrow> float4x4 \<Rightarrow> float4x4 list" where
  "transform_instances ml transforms transform =
     map (\<lambda>instance_transform. mul_m4 ml transform instance_transform) transforms"

text \<open>
  Volumes (the build with OpenVDB). A volume is the list of its grids. The grid type and
  the grid functions are not among the sources and are parameters:
  \<open>get_transform_matrix\<close>, \<open>set_transform_matrix\<close> (\<open>None\<close> when it throws), \<open>clear_tree\<close> and
  \<open>BKE_volume_grid_determinant_valid\<close>.
\<close>

record 'g volume_lib =
  get_transform_matrix :: "'g \<Rightarrow> float4x4"
  set_transform_matrix :: "'g \<Rightarrow> float4x4 \<Rightarrow> 'g option"
  clear_tree :: "'g \<Rightarrow> 'g"
  BKE_volume_grid_determinant_valid :: "real \<Rightarrow> bool"

record TransformGeometryErrors =
  volume_too_small :: bool
  bad_volume_transform :: bool

definition TransformGeometryErrors_init :: TransformGeometryErrors where
  "TransformGeometryErrors_init = \<lparr>volume_too_small = False, bad_volume_transform = False\<rparr>"

text \<open>
  One turn of the loop of \<open>transform_volume\<close>, for one grid: the errors and the grid after
  it. When \<open>set_transform_matrix\<close> throws, the grid keeps what was done to it before.
\<close>

definition transform_volume_grid ::
    "math_lib \<Rightarrow> 'g volume_lib \<Rightarrow> float4x4 \<Rightarrow> TransformGeometryErrors \<Rightarrow> 'g \<Rightarrow> TransformGeometryErrors \<times> 'g" where
  "transform_volume_grid ml vl transform r_errors volume_grid =
     (let grid_matrix = mul_m4 ml transform (get_transform_matrix vl volume_grid);
          det = determinant grid_matrix;
          (errors1, grid1, grid_matrix1) =
            (if \<not> BKE_volume_grid_determinant_valid vl det then
               (r_errors\<lparr>volume_too_small := True\<rparr>,
                clear_tree vl volume_grid,
                if det = 0 then set_axes grid_matrix (1, 0, 0) (0, 1, 0) (0, 0, 1)
                else set_axes grid_matrix (normalize (x_axis grid_matrix))
                       (normalize (y_axis grid_matrix)) (normalize (z_axis grid_matrix)))
             else (r_errors, volume_grid, grid_matrix))
      in case set_transform_matrix vl grid1 grid_matrix1 of
           Some grid2 \<Rightarrow> (errors1, grid2)
         | None \<Rightarrow> (errors1\<lparr>bad_volume_transform := True\<rparr>, grid1))"

fun transform_volume ::
    "math_lib \<Rightarrow> 'g volume_lib \<Rightarrow> 'g list \<Rightarrow> float4x4 \<Rightarrow> TransformGeometryErrors \<Rightarrow> TransformGeometryErrors \<times> 'g list" where
  "transform_volume ml vl [] transform r_errors = (r_errors, [])"
| "transform_volume ml vl (volume_grid # grids) transform r_errors =
     (case transform_volume_grid ml vl transform r_errors volume_grid of
        (errors1, grid') \<Rightarrow>
          (case transform_volume ml vl grids transform errors1 of
             (errors2, grids') \<Rightarrow> (errors2, grid' # grids')))"

definition translate_volume :: "math_lib \<Rightarrow> 'g volume_lib \<Rightarrow> 'g list \<Rightarrow> float3 \<Rightarrow> 'g list" where
  "translate_volume ml vl volume translation =
     snd (transform_volume ml vl volume (from_location translation) TransformGeometryErrors_init)"

text \<open>
  Edit hints. The hints of a curves object hold optional positions, optional deformation
  matrices and the number of points of the original curves; the hints of a grease pencil
  object hold an optional list of drawing hints of the same shape; gizmo hints are the
  list of the gizmo transforms.
\<close>

record CurvesEditHints =
  positions :: "float3 list option"
  deform_mats :: "float3x3 list option"
  point_num :: nat

definition transform_curve_edit_hints :: "math_lib \<Rightarrow> CurvesEditHints \<Rightarrow> float4x4 \<Rightarrow> CurvesEditHints" where
  "transform_curve_edit_hints ml edit_hints transform =
     (let deform_mat = copy_m3_m4 transform
      in edit_hints
           \<lparr>positions := map_option (\<lambda>p. transform_positions ml p transform) (positions edit_hints),
            deform_mats :=
              (case deform_mats edit_hints of
                 Some mats \<Rightarrow> Some (map (\<lambda>m. mul_m3 ml deform_mat m) mats)
               | None \<Rightarrow> Some (replicate (point_num edit_hints) deform_mat))\<rparr>)"

definition transform_grease_pencil_edit_hints ::
    "math_lib \<Rightarrow> CurvesEditHints list option \<Rightarrow> float4x4 \<Rightarrow> CurvesEditHints list option" where
  "transform_grease_pencil_edit_hints ml drawing_hints transform =
     (case drawing_hints of
        None \<Rightarrow> None
      | Some hints \<Rightarrow> Some (map (\<lambda>h. transform_curve_edit_hints ml h transform) hints))"

definition transform_gizmo_edit_hints :: "math_lib \<Rightarrow> float4x4 list \<Rightarrow> float4x4 \<Rightarrow> float4x4 list" where
  "transform_gizmo_edit_hints ml gizmo_transforms transform =
     map (\<lambda>m. mul_m4 ml transform m) gizmo_transforms"

definition translate_curve_edit_hints :: "CurvesEditHints \<Rightarrow> float3 \<Rightarrow> CurvesEditHints" where
  "translate_curve_edit_hints edit_hints translation =
     edit_hints\<lparr>positions := map_option (\<lambda>p. translate_positions p translation) (positions edit_hints)\<rparr>"

definition translate_gizmos_edit_hints :: "float4x4 list \<Rightarrow> float3 \<Rightarrow> float4x4 list" where
  "translate_gizmos_edit_hints gizmo_transforms translation =
     map (\<lambda>m. add_location m translation) gizmo_transforms"

text \<open>
  A geometry set: each component is present or not (\<open>get_*_for_write\<close> returns null for a
  missing one). The curves and mesh types and their translate and transform functions are
  not among the sources and are parameters.
\<close>

record ('c, 'm) geometry_lib =
  curves_translate :: "'c \<Rightarrow> float3 \<Rightarrow> 'c"
  curves_transform :: "'c \<Rightarrow> float4x4 \<Rightarrow> 'c"
  mesh_translate :: "'m \<Rightarrow> float3 \<Rightarrow> 'm"
  mesh_transform :: "'m \<Rightarrow> float4x4 \<Rightarrow> 'm"

record ('c, 'm, 'g) GeometrySet =
  gs_curves :: "'c option"
  gs_mesh :: "'m option"
  gs_pointcloud :: "PointCloud option"
  gs_grease_pencil :: "float4x4 list option"
  gs_volume :: "'g list option"
  gs_instances :: "float4x4 list option"
  gs_curve_edit_hints :: "CurvesEditHints option"
  gs_grease_pencil_edit_hints :: "CurvesEditHints list option option"
  gs_gizmo_edit_hints :: "float4x4 list option"

definition translate_geometry ::
    "math_lib \<Rightarrow> 'g volume_lib \<Rightarrow> ('c, 'm) geometry_lib \<Rightarrow> ('c, 'm, 'g) GeometrySet \<Rightarrow> float3 \<Rightarrow>
     ('c, 'm, 'g) GeometrySet" where
  "translate_geometry ml vl gl geometry translation =
     (if is_zero translation then geometry
      else geometry
        \<lparr>gs_curves := map_option (\<lambda>c. curves_translate gl c translation) (gs_curves geometry),
         gs_mesh := map_option (\<lambda>m. mesh_translate gl m translation) (gs_mesh geometry),
         gs_pointcloud :=
           map_option (\<lambda>p. translate_pointcloud p translation) (gs_pointcloud geometry),
         gs_grease_pencil :=
           map_option (\<lambda>l. translate_greasepencil l translation) (gs_grease_pencil geometry),
         gs_volume := map_option (\<lambda>v. translate_volume ml vl v translation) (gs_volume geometry),
         gs_instances :=
           map_option (\<lambda>i. translate_instances i translation) (gs_instances geometry),
         gs_curve_edit_hints :=
           map_option (\<lambda>h. translate_curve_edit_hints h translation) (gs_curve_edit_hints geometry),
         gs_gizmo_edit_hints :=
           map_option (\<lambda>h. translate_gizmos_edit_hints h translation)
             (gs_gizmo_edit_hints geometry)\<rparr>)"

text \<open>
  \<open>transform_geometry\<close> changes the geometry set in place and returns the optional error
  record; the model returns both.
\<close>

definition transform_geometry ::
    "math_lib \<Rightarrow> 'g volume_lib \<Rightarrow> ('c, 'm) geometry_lib \<Rightarrow> ('c, 'm, 'g) GeometrySet \<Rightarrow> float4x4 \<Rightarrow>
     ('c, 'm, 'g) GeometrySet \<times> TransformGeometryErrors option" where
  "transform_geometry ml vl gl geometry transform =
     (if transform = float4x4_identity then (geometry, None)
      else
        let (errors, volume') =
              (case gs_volume geometry of
                 None \<Rightarrow> (TransformGeometryErrors_init, None)
               | Some volume \<Rightarrow>
                   (case transform_volume ml vl volume transform TransformGeometryErrors_init of
                      (errors1, grids') \<Rightarrow> (errors1, Some grids')));
            geometry' = geometry
              \<lparr>gs_curves := map_option (\<lambda>c. curves_transform gl c transform) (gs_curves geometry),
               gs_mesh := map_option (\<lambda>m. mesh_transform gl m transform) (gs_mesh geometry),
               gs_pointcloud :=
                 map_option (\<lambda>p. transform_pointcloud ml p transform) (gs_pointcloud geometry),
               gs_grease_pencil :=
                 map_option (\<lambda>l. transform_greasepencil ml l transform) (gs_grease_pencil geometry),
               gs_volume := volume',
               gs_instances :=
                 map_option (\<lambda>i. transform_instances ml i transform) (gs_instances geometry),
               gs_curve_edit_hints :=
                 map_option (\<lambda>h. transform_curve_edit_hints ml h transform)
                   (gs_curve_edit_hints geometry),
               gs_grease_pencil_edit_hints :=
                 map_option (\<lambda>h. transform_grease_pencil_edit_hints ml h transform)
                   (gs_grease_pencil_edit_hints geometry),
               gs_gizmo_edit_hints :=
                 map_option (\<lambda>h. transform_gizmo_edit_hints ml h transform)
                   (gs_gizmo_edit_hints geometry)\<rparr>
        in (geometry', if volume_too_small errors then Some errors else None))"

section \<open>The claims' own words\<close>

text \<open>
  The corner indices that are tagged free, as the claim on the handle types words it: all
  the returned corner indices, less the first and the last exactly when the fit was not
  cyclic and returned at least two. To be compared with \<open>corners_range\<close>.
\<close>

definition free_corners :: "fit_flag set \<Rightarrow> nat list option \<Rightarrow> nat list" where
  "free_corners calc_flag corners =
     (case corners of
        None \<Rightarrow> []
      | Some ci \<Rightarrow>
          if CURVE_FIT_CALC_CYCLIC \<notin> calc_flag \<and> 2 \<le> length ci then butlast (tl ci) else ci)"

text \<open>
  The invariant of a stored sample, as the claim on local and world positions words it:
  the world position is the object-to-world transform applied to the local position.
\<close>

definition world_local_consistent :: "ViewContext \<Rightarrow> StrokeElem \<Rightarrow> bool" where
  "world_local_consistent vc selem = (location_world selem = object_to_world vc (location_local selem))"

text \<open>
  The cumulative 3D arc length \<open>L(i)\<close> of the taper claim, in the claim's words: the sum
  of the distances between the local positions of consecutive samples up to sample \<open>i\<close>.
  To be compared with the array \<open>lengths\<close> that \<open>stroke_lengths\<close> fills.
\<close>

definition arc_length :: "StrokeElem list \<Rightarrow> nat \<Rightarrow> real" where
  "arc_length pool i =
     (\<Sum>k < i. len_v3v3 (location_local (pool ! Suc k)) (location_local (pool ! k)))"

text \<open>
  What the substep loop leaves in the pool for the parameter \<open>t\<close>: a sample interpolated
  between the previous sample and the target and then projected again.
\<close>

definition is_substep :: "ViewContext \<Rightarrow> StrokeElem \<Rightarrow> StrokeElem \<Rightarrow> real \<Rightarrow> StrokeElem \<Rightarrow> bool" where
  "is_substep vc prev target t x =
     (\<exists>c fb s. x = snd (stroke_elem_project_fallback_elem vc c fb (stroke_elem_interp vc s prev target t)))"

text \<open>
  The feature vector of a sample, as the claim on duplicate samples words it: the position
  and, when the pressure channel is in use, the pressure. To be compared with
  \<open>coords_entry\<close>.
\<close>

definition feature_vector :: "bool \<Rightarrow> StrokeElem \<Rightarrow> real list" where
  "feature_vector with_pressure selem =
     [fst (location_local selem), fst (snd (location_local selem)),
      snd (snd (location_local selem))] @
     (if with_pressure then [pressure selem] else [])"

text \<open>
  The feature vectors of a stroke with every run of equal adjacent vectors coalesced into
  one. To be compared with the array that \<open>coords_fill\<close> builds.
\<close>

definition coalesced :: "bool \<Rightarrow> StrokeElem list \<Rightarrow> real list list" where
  "coalesced with_pressure pool = remdups_adj (map (feature_vector with_pressure) pool)"

text \<open>
  The projection that decides a stored sample: the call of \<open>stroke_elem_project\<close> that
  \<open>stroke_elem_project_fallback_elem\<close> makes for it, and whether it finds a depth.
\<close>

definition sample_projection :: "ViewContext \<Rightarrow> CurveDrawData \<Rightarrow> StrokeElem \<Rightarrow> (v3 \<times> v3) option" where
  "sample_projection vc cdd selem =
     stroke_elem_project vc cdd (int_of_float (fst (mval selem)), int_of_float (snd (mval selem)))
       (mval selem) (project_surface_offset cdd) (stroke_elem_radius vc cdd selem)"

definition depth_found :: "ViewContext \<Rightarrow> CurveDrawData \<Rightarrow> StrokeElem \<Rightarrow> bool" where
  "depth_found vc cdd selem = (sample_projection vc cdd selem \<noteq> None)"

text \<open>
  The last known valid world location, as the claim on the fallback words it: along a list
  of samples, the world position of the last sample whose projection succeeded, and \<open>v\<close>
  when there is none.
\<close>

fun last_valid :: "ViewContext \<Rightarrow> CurveDrawData \<Rightarrow> v3 \<Rightarrow> StrokeElem list \<Rightarrow> v3" where
  "last_valid vc cdd v [] = v"
| "last_valid vc cdd v (selem # rest) =
     last_valid vc cdd
       (if depth_found vc cdd selem then location_world selem else v) rest"

text \<open>
  Every sample of a list is resolved: its world position is the projected one when its
  projection succeeds and otherwise \<open>ED_view3d_win_to_3d\<close> of its screen position at the
  fallback location \<open>v\<close>, and its local position is obtained from the world position. With
  \<open>track\<close> the fallback location follows the samples: after a sample whose projection
  succeeded it is that sample's world position.
\<close>

fun resolved_at_last_valid ::
    "ViewContext \<Rightarrow> CurveDrawData \<Rightarrow> bool \<Rightarrow> v3 \<Rightarrow> StrokeElem list \<Rightarrow> bool" where
  "resolved_at_last_valid vc cdd track v [] = True"
| "resolved_at_last_valid vc cdd track v (selem # rest) =
     (location_world selem =
        (case sample_projection vc cdd selem of
           Some (loc, no) \<Rightarrow> loc
         | None \<Rightarrow> win_to_3d vc v (mval selem)) \<and>
      location_local selem = world_to_object vc (location_world selem) \<and>
      resolved_at_last_valid vc cdd track
        (if track \<and> depth_found vc cdd selem then location_world selem else v) rest)"

text \<open>
  Two states of the operator data in which every sample is projected alike: they agree on
  the fields that \<open>stroke_elem_project\<close> and \<open>stroke_elem_radius\<close> read.
\<close>

definition same_projection :: "CurveDrawData \<Rightarrow> CurveDrawData \<Rightarrow> bool" where
  "same_projection c c' =
     (project_use_plane c' = project_use_plane c \<and> project_plane c' = project_plane c \<and>
      depths c' = depths c \<and>
      project_use_surface_offset_absolute c' = project_use_surface_offset_absolute c \<and>
      project_use_offset c' = project_use_offset c \<and> project_offset c' = project_offset c \<and>
      project_surface_offset c' = project_surface_offset c \<and>
      radius_range c' = radius_range c \<and> radius_min c' = radius_min c)"



section \<open>Example inputs\<close>

text \<open>
  An object scaled by 2, a curve with bevel radius 2, a viewport whose depth buffer is
  8 by 8 pixels with the valid depth range from 0 to 1, and a stroke of two samples.
\<close>

definition ex_vc :: ViewContext where
  "ex_vc =
     \<lparr>bevel_radius = 2,
      object_to_world = (\<lambda>(x, y, z). (2 * x, 2 * y, 2 * z)),
      world_to_object = (\<lambda>(x, y, z). (x / 2, y / 2, z / 2)),
      object_to_world_transposed = (\<lambda>(x, y, z). (2 * x, 2 * y, 2 * z)),
      win_to_3d_on_plane = (\<lambda>plane m. None),
      depth_unproject_v3 = (\<lambda>m depth. Some (real_of_int (sint (fst m)), real_of_int (sint (snd m)), depth)),
      win_to_3d = (\<lambda>d m. (fst m, snd m, snd (snd d))),
      normalize_v3 = (\<lambda>v. v),
      interpf = (\<lambda>a b t. t * a + (1 - t) * b)\<rparr>"

definition ex_depths :: ViewDepths where
  "ex_depths =
     \<lparr>depths_w = 8, depths_h = 8, depth_range = (0, 1),
      depth_read_cached = (\<lambda>m. if fst m = 2 then 1 / 2 else 1),
      depth_read_cached_normal = (\<lambda>m. Some (0, 0, 1))\<rparr>"

definition ex_cps :: CurvePaintSettings where
  "ex_cps =
     \<lparr>cps_curve_type = CU_POLY, cps_flag = {CURVE_PAINT_FLAG_PRESSURE_RADIUS},
      cps_fit_method = CURVE_PAINT_FIT_METHOD_REFIT, cps_error_threshold = 0,
      cps_corner_angle = 0, cps_radius_min = 0, cps_radius_max = 1,
      cps_radius_taper_start = 0, cps_radius_taper_end = 0, cps_surface_offset = 0\<rparr>"

definition ex_op :: wmOperator where
  "ex_op =
     \<lparr>op_fit_method = None, op_error_threshold = None, op_corner_angle = None,
      op_use_cyclic = None,
      op_stroke = [\<lparr>ose_mouse = (0, 0), ose_location = (0, 0, 0), ose_pressure = 1 / 2\<rparr>,
                   \<lparr>ose_mouse = (4, 0), ose_location = (4, 0, 0), ose_pressure = 1\<rparr>],
      customdata = None\<rparr>"

definition ex_cu :: Curve where
  "ex_cu = \<lparr>cu_is_3d = True, cu_resolu = 12, cu_resolv = 12, nurblist = [], actvert = - 1\<rparr>"

definition ex_ker :: curve_kernel where
  "ex_ker =
     \<lparr>ED_curve_deselect_all_multi = (\<lambda>l. l), BKE_nurb_handles_calc = (\<lambda>n. n),
      BKE_nurb_knot_calc_u = (\<lambda>n. n)\<rparr>"

text \<open>A fit library whose fit calls fail with status 1, and one whose fit calls succeed
  with four points and the corner indices 0, 2 and 3.\<close>

definition ex_fit_fail :: fit_output where
  "ex_fit_fail = \<lparr>fit_result = 1, cubic_spline = [], corners_index = None\<rparr>"

definition ex_lib_fail :: curve_fit_nd where
  "ex_lib_fail =
     \<lparr>curve_fit_corners_detect_fl = (\<lambda>co dims rmin rmax smax angle. None),
      curve_fit_cubic_to_points_fl = (\<lambda>co dims err fl corners. ex_fit_fail),
      curve_fit_cubic_to_points_refit_fl = (\<lambda>co dims err fl angle. ex_fit_fail)\<rparr>"

definition ex_knot :: "real \<Rightarrow> real list \<times> real list \<times> real list" where
  "ex_knot x = ([x - 1, 0, 0, 1], [x, 0, 0, 1], [x + 1, 0, 0, 1])"

definition ex_fit_ok :: fit_output where
  "ex_fit_ok =
     \<lparr>fit_result = 0, cubic_spline = [ex_knot 0, ex_knot 3, ex_knot 6, ex_knot 9],
      corners_index = Some [0, 2, 3]\<rparr>"

definition ex_lib_ok :: curve_fit_nd where
  "ex_lib_ok =
     \<lparr>curve_fit_corners_detect_fl = (\<lambda>co dims rmin rmax smax angle. None),
      curve_fit_cubic_to_points_fl = (\<lambda>co dims err fl corners. ex_fit_ok),
      curve_fit_cubic_to_points_refit_fl = (\<lambda>co dims err fl angle. ex_fit_ok)\<rparr>"

text \<open>The operator data that \<open>curve_draw_exec\<close> builds from \<open>ex_op\<close>.\<close>

definition ex_selem1 :: StrokeElem where
  "ex_selem1 = StrokeElem_calloc\<lparr>pressure := 1 / 2\<rparr>"

definition ex_selem2 :: StrokeElem where
  "ex_selem2 =
     StrokeElem_calloc\<lparr>mval := (4, 0), location_world := (4, 0, 0),
       location_local := (2, 0, 0), pressure := 1\<rparr>"

definition ex_cdd :: CurveDrawData where
  "ex_cdd =
     CurveDrawData_calloc
       \<lparr>radius_max := 1, radius_range := 1, stroke_elem_pool := [ex_selem1, ex_selem2]\<rparr>"

text \<open>
  The operator data in the middle of a stroke drawn with substeps on the depth buffer:
  the last sample is \<open>ex_selem2\<close> at the cursor position \<open>(4, 0)\<close>. Two events follow
  it, one 4 pixels and one 12 pixels to the right.
\<close>

definition ex_cdd_sub :: CurveDrawData where
  "ex_cdd_sub =
     ex_cdd\<lparr>cdd_curve_type := CU_BEZIER, project_use_depth := True, sample_use_substeps := True,
       prev_mval := (4, 0), prev_location_world := (4, 0, 0),
       prev_location_world_valid := (4, 0, 0), prev_selem := Some ex_selem2,
       depths := Some ex_depths\<rparr>"

definition ex_event_near :: wmEvent where
  "ex_event_near = \<lparr>event_mval = (8, 0), tablet_pressure = 1\<rparr>"

definition ex_event_far :: wmEvent where
  "ex_event_far = \<lparr>event_mval = (16, 0), tablet_pressure = 1\<rparr>"

text \<open>
  A third event, at \<open>(0, 8)\<close>: outside the depth buffer, with two intermediate samples of
  which the first lies on the column of pixels that has a valid depth.
\<close>

definition ex_event_up :: wmEvent where
  "ex_event_up = \<lparr>event_mval = (0, 8), tablet_pressure = 1\<rparr>"

text \<open>
  A sample on a surface with normal \<open>(0, 0, 1)\<close>, and operator data with a surface offset
  that follows the radius.
\<close>

definition ex_selem3 :: StrokeElem where
  "ex_selem3 =
     \<lparr>mval = (2, 0), location_world = (2, 0, 0), location_local = (1, 0, 0),
      normal_world = (0, 0, 1), normal_local = (0, 0, 1), pressure = 1\<rparr>"

definition ex_cdd_offset :: CurveDrawData where
  "ex_cdd_offset = ex_cdd_sub\<lparr>project_surface_offset := 1\<rparr>"

text \<open>
  A stroke of five samples one unit apart with full pressure, tapered over the first half
  and over the last half of its length.
\<close>

definition ex_taper_elem :: "real \<Rightarrow> StrokeElem" where
  "ex_taper_elem x =
     StrokeElem_calloc\<lparr>mval := (x, 0), location_world := (2 * x, 0, 0),
       location_local := (x, 0, 0), pressure := 1\<rparr>"

definition ex_cdd_taper :: CurveDrawData where
  "ex_cdd_taper =
     ex_cdd\<lparr>stroke_elem_pool :=
       [ex_taper_elem 0, ex_taper_elem 1, ex_taper_elem 2, ex_taper_elem 3, ex_taper_elem 4]\<rparr>"

definition ex_cps_taper :: CurvePaintSettings where
  "ex_cps_taper = ex_cps\<lparr>cps_radius_taper_start := 1 / 2, cps_radius_taper_end := 1 / 2\<rparr>"










section \<open>Facts about the example inputs\<close>

lemma ex_data: "curve_draw_exec_data ex_vc ex_cps ex_op = Some ex_cdd"
  by (simp add: curve_draw_exec_data_def ex_vc_def ex_cps_def ex_op_def curve_draw_init_def
      curve_draw_stroke_from_operator_def curve_draw_stroke_from_operator_elem_def
      CurveDrawData_calloc_def StrokeElem_calloc_def zero_v3_def ex_cdd_def
      ex_selem1_def ex_selem2_def)

lemma ex_data_bezier:
  "curve_draw_exec_data ex_vc (ex_cps\<lparr>cps_curve_type := CU_BEZIER\<rparr>) ex_op =
     Some (ex_cdd\<lparr>cdd_curve_type := CU_BEZIER\<rparr>)"
  by (simp add: curve_draw_exec_data_def ex_vc_def ex_cps_def ex_op_def curve_draw_init_def
      curve_draw_stroke_from_operator_def curve_draw_stroke_from_operator_elem_def
      CurveDrawData_calloc_def StrokeElem_calloc_def zero_v3_def ex_cdd_def
      ex_selem1_def ex_selem2_def)

lemma ex_fit_fails:
  "fit_result (snd (curve_draw_exec_fit ex_lib_fail ex_op (ex_cdd\<lparr>cdd_curve_type := CU_BEZIER\<rparr>)
      (use_pressure_radius (ex_cps\<lparr>cps_curve_type := CU_BEZIER\<rparr>)))) = 1"
  by (simp add: curve_draw_exec_fit_def Let_def ex_lib_fail_def ex_fit_fail_def)

section \<open>A failed fit\<close>

lemma exec_bezier_fail:
  assumes "curve_draw_exec_data vc cps op = Some cdd" "cdd_curve_type cdd = CU_BEZIER"
    "fit_result (snd (curve_draw_exec_fit lib op cdd (use_pressure_radius cps))) \<noteq> 0"
  shows "curve_draw_exec vc lib ker cps op cu =
    Some (OPERATOR_FINISHED,
      cu\<lparr>nurblist := ED_curve_deselect_all_multi ker (nurblist cu) @
             [BKE_nurb_handles_calc ker ((nu_init cu)\<lparr>nu_type := CU_BEZIER\<rparr>)],
         actvert := pntsu (BKE_nurb_handles_calc ker ((nu_init cu)\<lparr>nu_type := CU_BEZIER\<rparr>)) - 1\<rparr>)"
  using assms by (simp add: curve_draw_exec_def curve_draw_exec_bezier_def Let_def case_prod_beta)

text \<open>
  C1, as the claim states it, fails: the fit of the example stroke returns the status 1,
  the curve has no spline before the operator runs and one spline after it.
\<close>

theorem C1_counterexample:
  "fit_result (snd (curve_draw_exec_fit ex_lib_fail ex_op (ex_cdd\<lparr>cdd_curve_type := CU_BEZIER\<rparr>)
      (use_pressure_radius (ex_cps\<lparr>cps_curve_type := CU_BEZIER\<rparr>)))) \<noteq> 0 \<and>
   length (nurblist ex_cu) = 0 \<and>
   length (nurblist (snd (the (curve_draw_exec ex_vc ex_lib_fail ex_ker
      (ex_cps\<lparr>cps_curve_type := CU_BEZIER\<rparr>) ex_op ex_cu)))) = 1"
proof -
  have a: "fit_result (snd (curve_draw_exec_fit ex_lib_fail ex_op (ex_cdd\<lparr>cdd_curve_type := CU_BEZIER\<rparr>)
      (use_pressure_radius (ex_cps\<lparr>cps_curve_type := CU_BEZIER\<rparr>)))) \<noteq> 0"
    by (simp add: ex_fit_fails)
  have t: "cdd_curve_type (ex_cdd\<lparr>cdd_curve_type := CU_BEZIER\<rparr>) = CU_BEZIER" by simp
  have b: "length (nurblist ex_cu) = 0" by (simp add: ex_cu_def)
  have c: "length (nurblist (snd (the (curve_draw_exec ex_vc ex_lib_fail ex_ker
      (ex_cps\<lparr>cps_curve_type := CU_BEZIER\<rparr>) ex_op ex_cu)))) = 1"
    by (simp add: exec_bezier_fail [OF ex_data_bezier t a] ex_ker_def ex_cu_def)
  show ?thesis using a b c by simp
qed

text \<open>
  C1, amended: for every Bezier-mode stroke, if the fit call returns a non-zero status, no
  control point is built, and the operator still finishes and appends the new spline: the
  spline list after it is the existing splines, as the deselect step leaves them, followed
  by one Bezier spline with zero points, no point array and no cyclic flag (as
  \<open>BKE_nurb_handles_calc\<close> returns it), so the list grows by one.
\<close>

theorem C1_fit_failure_appends_empty_spline:
  assumes "curve_draw_exec_data vc cps op = Some cdd" and "cdd_curve_type cdd = CU_BEZIER"
    and "fit_result (snd (curve_draw_exec_fit lib op cdd (use_pressure_radius cps))) \<noteq> 0"
  shows "\<exists>nu. curve_draw_exec vc lib ker cps op cu =
      Some (OPERATOR_FINISHED,
        cu\<lparr>nurblist := ED_curve_deselect_all_multi ker (nurblist cu) @ [BKE_nurb_handles_calc ker nu],
           actvert := pntsu (BKE_nurb_handles_calc ker nu) - 1\<rparr>) \<and>
      nu_type nu = CU_BEZIER \<and> pntsu nu = 0 \<and> bezt nu = None \<and> bp nu = None \<and> flagu nu = {} \<and>
      length (nurblist (snd (the (curve_draw_exec vc lib ker cps op cu)))) =
        length (ED_curve_deselect_all_multi ker (nurblist cu)) + 1"
  apply (rule exI [of _ "(nu_init cu)\<lparr>nu_type := CU_BEZIER\<rparr>"])
  using exec_bezier_fail [OF assms, of ker cu]
  by (simp add: nu_init_def Nurb_calloc_def)

theorem C1_witness:
  "\<exists>nu. curve_draw_exec ex_vc ex_lib_fail ex_ker (ex_cps\<lparr>cps_curve_type := CU_BEZIER\<rparr>) ex_op ex_cu =
      Some (OPERATOR_FINISHED,
        ex_cu\<lparr>nurblist := ED_curve_deselect_all_multi ex_ker (nurblist ex_cu) @
                 [BKE_nurb_handles_calc ex_ker nu],
           actvert := pntsu (BKE_nurb_handles_calc ex_ker nu) - 1\<rparr>) \<and>
      nu_type nu = CU_BEZIER \<and> pntsu nu = 0 \<and> bezt nu = None \<and> bp nu = None \<and> flagu nu = {} \<and>
      length (nurblist (snd (the (curve_draw_exec ex_vc ex_lib_fail ex_ker
        (ex_cps\<lparr>cps_curve_type := CU_BEZIER\<rparr>) ex_op ex_cu)))) =
        length (ED_curve_deselect_all_multi ex_ker (nurblist ex_cu)) + 1"
proof -
  have a: "fit_result (snd (curve_draw_exec_fit ex_lib_fail ex_op (ex_cdd\<lparr>cdd_curve_type := CU_BEZIER\<rparr>)
      (use_pressure_radius (ex_cps\<lparr>cps_curve_type := CU_BEZIER\<rparr>)))) \<noteq> 0"
    by (simp add: ex_fit_fails)
  have t: "cdd_curve_type (ex_cdd\<lparr>cdd_curve_type := CU_BEZIER\<rparr>) = CU_BEZIER" by simp
  show ?thesis by (rule C1_fit_failure_appends_empty_spline [OF ex_data_bezier t a])
qed

section \<open>Poly mode\<close>

lemma exec_poly:
  assumes "curve_draw_exec_data vc cps op = Some cdd" "cdd_curve_type cdd \<noteq> CU_BEZIER"
  shows "curve_draw_exec vc lib ker cps op cu =
    Some (OPERATOR_FINISHED,
      cu\<lparr>nurblist := ED_curve_deselect_all_multi ker (nurblist cu) @
             [BKE_nurb_knot_calc_u ker
                (curve_draw_exec_poly cps cu cdd (use_pressure_radius cps) (nu_init cu))],
         actvert := pntsu (BKE_nurb_knot_calc_u ker
                (curve_draw_exec_poly cps cu cdd (use_pressure_radius cps) (nu_init cu))) - 1\<rparr>)"
  using assms by (simp add: curve_draw_exec_def Let_def)

lemma bp_radius_of_selem:
  "bp_radius (bp_of_selem cps is3 upr s) =
    (if upr then pressure s * (cps_radius_max cps - cps_radius_min cps) + cps_radius_min cps
     else cps_radius_max cps)"
  by (simp add: bp_of_selem_def split: prod.splits)

lemma bp_vec_of_selem:
  "bp_vec (bp_of_selem cps is3 upr s) =
    (fst (location_local s), fst (snd (location_local s)),
     if is3 then snd (snd (location_local s)) else 0, 1)"
  by (simp add: bp_of_selem_def split: prod.splits)

text \<open>
  C2, as the claim states it, fails: in poly mode the radii of the two points built from
  the example stroke are 1/2 and 1, while the radius resolver
  \<open>stroke_elem_radius_from_pressure\<close>, which multiplies by the bevel radius 2, gives 1 and 2
  for the same samples.
\<close>

theorem C2_counterexample:
  "map bp_radius (the (bp (last (nurblist (snd (the
       (curve_draw_exec ex_vc ex_lib_fail ex_ker ex_cps ex_op ex_cu))))))) = [1 / 2, 1] \<and>
   map (stroke_elem_radius ex_vc (the (curve_draw_exec_data ex_vc ex_cps ex_op)))
       (stroke_elem_pool (the (curve_draw_exec_data ex_vc ex_cps ex_op))) = [1, 2]"
proof -
  have a: "map bp_radius (the (bp (last (nurblist (snd (the
       (curve_draw_exec ex_vc ex_lib_fail ex_ker ex_cps ex_op ex_cu))))))) = [1 / 2, 1]"
    apply (simp add: curve_draw_exec_def ex_data)
    apply (simp add: curve_draw_exec_poly_def bp_of_selem_def
      CurveDrawData_calloc_def StrokeElem_calloc_def zero_v3_def ex_ker_def ex_cps_def ex_cu_def
      use_pressure_radius_def BPoint_calloc_def ex_cdd_def ex_selem1_def ex_selem2_def)
    done
  have b: "map (stroke_elem_radius ex_vc (the (curve_draw_exec_data ex_vc ex_cps ex_op)))
       (stroke_elem_pool (the (curve_draw_exec_data ex_vc ex_cps ex_op))) = [1, 2]"
    apply (simp add: ex_data)
    apply (simp add: stroke_elem_radius_def stroke_elem_radius_from_pressure_def ex_vc_def
       CurveDrawData_calloc_def StrokeElem_calloc_def ex_cdd_def ex_selem1_def ex_selem2_def)
    done
  show ?thesis using a b by simp
qed

text \<open>
  C2, amended: in poly mode the operator finishes and appends one poly spline with exactly
  one control point per raw sample, in input order. The radius of each point is
  \<open>pressure * (max - min) + min\<close> when the pressure radius is in use (the pressure flag
  is set or a taper fraction is not zero) and \<open>max\<close> otherwise; the bevel scale is not
  applied. The theorem ties point \<open>i\<close> to sample \<open>i\<close> by its coordinates as well: the
  first two are those of the sample's local position, the third is that of the local
  position for a 3D curve and 0 for a 2D curve, and the fourth is 1. The spline described
  is the one handed to \<open>BKE_nurb_knot_calc_u\<close>.
\<close>

theorem C2_poly_points:
  assumes "curve_draw_exec_data vc cps op = Some cdd" and "cdd_curve_type cdd = CU_POLY"
  shows "\<exists>nu bps.
     curve_draw_exec vc lib ker cps op cu =
       Some (OPERATOR_FINISHED,
         cu\<lparr>nurblist := ED_curve_deselect_all_multi ker (nurblist cu) @ [BKE_nurb_knot_calc_u ker nu],
            actvert := pntsu (BKE_nurb_knot_calc_u ker nu) - 1\<rparr>) \<and>
     nu_type nu = CU_POLY \<and> bezt nu = None \<and> bp nu = Some bps \<and>
     pntsu nu = int (length (stroke_elem_pool cdd)) \<and>
     length bps = length (stroke_elem_pool cdd) \<and>
     (\<forall>i < length (stroke_elem_pool cdd).
        bp_vec (bps ! i) =
          (fst (location_local (stroke_elem_pool cdd ! i)),
           fst (snd (location_local (stroke_elem_pool cdd ! i))),
           if cu_is_3d cu then snd (snd (location_local (stroke_elem_pool cdd ! i))) else 0, 1) \<and>
        bp_radius (bps ! i) =
          (if use_pressure_radius cps
           then pressure (stroke_elem_pool cdd ! i) * (cps_radius_max cps - cps_radius_min cps) +
                cps_radius_min cps
           else cps_radius_max cps))"
proof -
  let ?nu = "curve_draw_exec_poly cps cu cdd (use_pressure_radius cps) (nu_init cu)"
  let ?bps = "map (bp_of_selem cps (cu_is_3d cu) (use_pressure_radius cps)) (stroke_elem_pool cdd)"
  have e: "curve_draw_exec vc lib ker cps op cu =
       Some (OPERATOR_FINISHED,
         cu\<lparr>nurblist := ED_curve_deselect_all_multi ker (nurblist cu) @ [BKE_nurb_knot_calc_u ker ?nu],
            actvert := pntsu (BKE_nurb_knot_calc_u ker ?nu) - 1\<rparr>)"
    using assms by (simp add: exec_poly)
  have f: "nu_type ?nu = CU_POLY" "bezt ?nu = None" "bp ?nu = Some ?bps"
      "pntsu ?nu = int (length (stroke_elem_pool cdd))"
    by (simp_all add: curve_draw_exec_poly_def nu_init_def Nurb_calloc_def)
  have g: "\<forall>i < length (stroke_elem_pool cdd).
        bp_vec (?bps ! i) =
          (fst (location_local (stroke_elem_pool cdd ! i)),
           fst (snd (location_local (stroke_elem_pool cdd ! i))),
           if cu_is_3d cu then snd (snd (location_local (stroke_elem_pool cdd ! i))) else 0, 1) \<and>
        bp_radius (?bps ! i) =
          (if use_pressure_radius cps
           then pressure (stroke_elem_pool cdd ! i) * (cps_radius_max cps - cps_radius_min cps) +
                cps_radius_min cps
           else cps_radius_max cps)"
    by (simp add: bp_radius_of_selem bp_vec_of_selem)
  show ?thesis
    apply (rule exI [of _ ?nu])
    apply (rule exI [of _ ?bps])
    using e f g by simp
qed

theorem C2_witness:
  "\<exists>nu bps.
     curve_draw_exec ex_vc ex_lib_fail ex_ker ex_cps ex_op ex_cu =
       Some (OPERATOR_FINISHED,
         ex_cu\<lparr>nurblist := ED_curve_deselect_all_multi ex_ker (nurblist ex_cu) @
                  [BKE_nurb_knot_calc_u ex_ker nu],
            actvert := pntsu (BKE_nurb_knot_calc_u ex_ker nu) - 1\<rparr>) \<and>
     nu_type nu = CU_POLY \<and> bp nu = Some bps \<and> pntsu nu = 2 \<and> length bps = 2 \<and>
     bp_vec (bps ! 0) = (0, 0, 0, 1) \<and> bp_radius (bps ! 0) = 1 / 2 \<and>
     bp_vec (bps ! 1) = (2, 0, 0, 1) \<and> bp_radius (bps ! 1) = 1"
proof -
  have t: "cdd_curve_type ex_cdd = CU_POLY"
    by (simp add: ex_cdd_def CurveDrawData_calloc_def)
  have l: "length (stroke_elem_pool ex_cdd) = 2" by (simp add: ex_cdd_def)
  have u: "use_pressure_radius ex_cps" by (simp add: use_pressure_radius_def ex_cps_def)
  have p: "stroke_elem_pool ex_cdd ! 0 = StrokeElem_calloc\<lparr>pressure := 1 / 2\<rparr>"
    "stroke_elem_pool ex_cdd ! 1 = StrokeElem_calloc\<lparr>mval := (4, 0), location_world := (4, 0, 0),
             location_local := (2, 0, 0), pressure := 1\<rparr>"
    by (simp_all add: ex_cdd_def ex_selem1_def ex_selem2_def)
  from C2_poly_points [OF ex_data t, of ex_lib_fail ex_ker ex_cu]
  obtain nu bps where h:
    "curve_draw_exec ex_vc ex_lib_fail ex_ker ex_cps ex_op ex_cu =
       Some (OPERATOR_FINISHED,
         ex_cu\<lparr>nurblist := ED_curve_deselect_all_multi ex_ker (nurblist ex_cu) @
                  [BKE_nurb_knot_calc_u ex_ker nu],
            actvert := pntsu (BKE_nurb_knot_calc_u ex_ker nu) - 1\<rparr>)"
    "nu_type nu = CU_POLY" "bp nu = Some bps" "pntsu nu = int (length (stroke_elem_pool ex_cdd))"
    "length bps = length (stroke_elem_pool ex_cdd)"
    "\<forall>i < length (stroke_elem_pool ex_cdd).
        bp_vec (bps ! i) =
          (fst (location_local (stroke_elem_pool ex_cdd ! i)),
           fst (snd (location_local (stroke_elem_pool ex_cdd ! i))),
           if cu_is_3d ex_cu then snd (snd (location_local (stroke_elem_pool ex_cdd ! i))) else 0, 1) \<and>
        bp_radius (bps ! i) =
          (if use_pressure_radius ex_cps
           then pressure (stroke_elem_pool ex_cdd ! i) * (cps_radius_max ex_cps - cps_radius_min ex_cps) +
                cps_radius_min ex_cps
           else cps_radius_max ex_cps)"
    by blast
  have i0: "bp_vec (bps ! 0) = (0, 0, 0, 1) \<and> bp_radius (bps ! 0) = 1 / 2"
    using h(6) [rule_format, of 0] l u p
    by (simp add: StrokeElem_calloc_def zero_v3_def ex_cps_def ex_cu_def)
  have i1: "bp_vec (bps ! 1) = (2, 0, 0, 1) \<and> bp_radius (bps ! 1) = 1"
    using h(6) [rule_format, of 1] l u p
    by (simp add: StrokeElem_calloc_def zero_v3_def ex_cps_def ex_cu_def)
  show ?thesis
    apply (rule exI [of _ nu])
    apply (rule exI [of _ bps])
    using h(1,2,3,4,5) l i0 i1 by simp
qed

section \<open>Handle types after a successful fit\<close>

lemma set_free_spec:
  "\<forall>c \<in> set cs. c < length bs \<Longrightarrow>
   \<exists>bs'. set_free cs bs = Some bs' \<and> length bs' = length bs \<and>
     (\<forall>j < length bs.
        h1 (bs' ! j) = (if j \<in> set cs then HD_FREE else h1 (bs ! j)) \<and>
        h2 (bs' ! j) = (if j \<in> set cs then HD_FREE else h2 (bs ! j)))"
proof (induction cs arbitrary: bs)
  case Nil
  then show ?case by simp
next
  case (Cons c cs)
  let ?bs1 = "bs[c := (bs ! c)\<lparr>h1 := HD_FREE, h2 := HD_FREE\<rparr>]"
  have c: "c < length bs" using Cons.prems by simp
  have "\<forall>c \<in> set cs. c < length ?bs1" using Cons.prems by simp
  from Cons.IH [OF this] obtain bs' where
    h: "set_free cs ?bs1 = Some bs'" "length bs' = length ?bs1"
       "\<forall>j < length ?bs1.
          h1 (bs' ! j) = (if j \<in> set cs then HD_FREE else h1 (?bs1 ! j)) \<and>
          h2 (bs' ! j) = (if j \<in> set cs then HD_FREE else h2 (?bs1 ! j))"
    by blast
  have "set_free (c # cs) bs = Some bs'" using c h(1) by simp
  moreover have "length bs' = length bs" using h(2) by simp
  moreover have "\<forall>j < length bs.
        h1 (bs' ! j) = (if j \<in> set (c # cs) then HD_FREE else h1 (bs ! j)) \<and>
        h2 (bs' ! j) = (if j \<in> set (c # cs) then HD_FREE else h2 (bs ! j))"
  proof (intro allI impI)
    fix j assume j: "j < length bs"
    show "h1 (bs' ! j) = (if j \<in> set (c # cs) then HD_FREE else h1 (bs ! j)) \<and>
        h2 (bs' ! j) = (if j \<in> set (c # cs) then HD_FREE else h2 (bs ! j))"
      using h(3) [rule_format, of j] j c by (cases "j = c") simp_all
  qed
  ultimately show ?case by blast
qed

lemma corners_range_eq:
  "corners_range calc_flag ci =
     (if length ci \<ge> 2 \<and> CURVE_FIT_CALC_CYCLIC \<notin> calc_flag then butlast (tl ci) else ci)"
  by (simp add: corners_range_def butlast_conv_take drop_Suc)

lemma exec_fit_cyclic:
  "(CURVE_FIT_CALC_CYCLIC \<in> fst (curve_draw_exec_fit lib op cdd upr)) =
     (2 < length (coords_fill upr (stroke_elem_pool cdd) []) \<and> RNA_use_cyclic op)"
  by (simp add: curve_draw_exec_fit_def Let_def)

lemma h_bezt_of_cubic:
  "h1 (bezt_of_cubic cdd r upr k) = HD_ALIGN" "h2 (bezt_of_cubic cdd r upr k) = HD_ALIGN"
  by (simp_all add: bezt_of_cubic_def split: prod.splits)


lemma exec_bezier_ok:
  assumes "curve_draw_exec_fit lib op cdd upr = (calc_flag, out)" and "fit_result out = 0"
    and "\<forall>c \<in> set (free_corners calc_flag (corners_index out)). c < length (cubic_spline out)"
  shows "\<exists>bezts. curve_draw_exec_bezier lib cps op cdd upr nu0 =
       Some (nu0\<lparr>nu_type := CU_BEZIER, pntsu := int (length (cubic_spline out)), bezt := Some bezts,
               flagu := (if CURVE_FIT_CALC_CYCLIC \<in> calc_flag
                         then flagu nu0 \<union> {CU_NURB_CYCLIC} else flagu nu0)\<rparr>) \<and>
     length bezts = length (cubic_spline out) \<and>
     (\<forall>j < length bezts.
        h1 (bezts ! j) = (if j \<in> set (free_corners calc_flag (corners_index out)) then HD_FREE else HD_ALIGN) \<and>
        h2 (bezts ! j) = (if j \<in> set (free_corners calc_flag (corners_index out)) then HD_FREE else HD_ALIGN))"
proof -
  let ?bs = "map (bezt_of_cubic cdd (cps_radius_max cps) upr) (cubic_spline out)"
  let ?fc = "free_corners calc_flag (corners_index out)"
  have "\<exists>bezts. (case corners_index out of None \<Rightarrow> Some ?bs
                   | Some ci \<Rightarrow> set_free (corners_range calc_flag ci) ?bs) = Some bezts \<and>
          length bezts = length ?bs \<and>
          (\<forall>j < length ?bs.
             h1 (bezts ! j) = (if j \<in> set ?fc then HD_FREE else h1 (?bs ! j)) \<and>
             h2 (bezts ! j) = (if j \<in> set ?fc then HD_FREE else h2 (?bs ! j)))"
  proof (cases "corners_index out")
    case None
    then show ?thesis by (simp add: free_corners_def)
  next
    case (Some ci)
    have fc: "?fc = corners_range calc_flag ci"
      using Some by (auto simp add: free_corners_def corners_range_eq)
    have "\<forall>c \<in> set (corners_range calc_flag ci). c < length ?bs"
      using assms(3) fc by simp
    from set_free_spec [OF this] show ?thesis using Some fc by simp
  qed
  then obtain bezts where
    b: "(case corners_index out of None \<Rightarrow> Some ?bs
         | Some ci \<Rightarrow> set_free (corners_range calc_flag ci) ?bs) = Some bezts"
       "length bezts = length ?bs"
       "\<forall>j < length ?bs.
             h1 (bezts ! j) = (if j \<in> set ?fc then HD_FREE else h1 (?bs ! j)) \<and>
             h2 (bezts ! j) = (if j \<in> set ?fc then HD_FREE else h2 (?bs ! j))"
    by blast
  have e: "curve_draw_exec_bezier lib cps op cdd upr nu0 =
       Some (nu0\<lparr>nu_type := CU_BEZIER, pntsu := int (length (cubic_spline out)), bezt := Some bezts,
               flagu := (if CURVE_FIT_CALC_CYCLIC \<in> calc_flag
                         then flagu nu0 \<union> {CU_NURB_CYCLIC} else flagu nu0)\<rparr>)"
    using assms(1,2) b(1) by (simp add: curve_draw_exec_bezier_def Let_def)
  have l: "length bezts = length (cubic_spline out)" using b(2) by simp
  have h: "\<forall>j < length bezts.
        h1 (bezts ! j) = (if j \<in> set ?fc then HD_FREE else HD_ALIGN) \<and>
        h2 (bezts ! j) = (if j \<in> set ?fc then HD_FREE else HD_ALIGN)"
    using b(3) l by (simp add: h_bezt_of_cubic)
  show ?thesis using e l h by blast
qed

lemma ex_fit_ok_call:
  "curve_draw_exec_fit ex_lib_ok ex_op (ex_cdd\<lparr>cdd_curve_type := CU_BEZIER\<rparr>)
      (use_pressure_radius (ex_cps\<lparr>cps_curve_type := CU_BEZIER\<rparr>)) =
     ({CURVE_FIT_CALC_HIGH_QUALIY}, ex_fit_ok)"
  by (simp add: curve_draw_exec_fit_def Let_def ex_lib_ok_def ex_cdd_def ex_op_def
      RNA_fit_method_def RNA_use_cyclic_def use_pressure_radius_def ex_cps_def
      coords_entry_def ex_selem1_def ex_selem2_def StrokeElem_calloc_def zero_v3_def)

lemma ex_free_corners:
  "free_corners {CURVE_FIT_CALC_HIGH_QUALIY} (corners_index ex_fit_ok) = [2]"
  by (simp add: free_corners_def ex_fit_ok_def)

text \<open>
  C4: after a successful Bezier fit (status 0, every corner index that is used lying inside
  the fitted points), the operator finishes and appends a Bezier spline with one point per
  fitted point, and both handle types of every point are \<open>HD_ALIGN\<close>, except at the
  indices of \<open>free_corners\<close>, where both are \<open>HD_FREE\<close>: all the returned corner indices,
  less the first and the last exactly when the fit was not cyclic and returned at least
  two. The fit is cyclic exactly when more than two entries are left in \<open>coords\<close> and
  \<open>use_cyclic\<close> is set. The spline described is the one handed to
  \<open>BKE_nurb_handles_calc\<close>.
\<close>

theorem C4_handle_types:
  assumes "curve_draw_exec_data vc cps op = Some cdd" and "cdd_curve_type cdd = CU_BEZIER"
    and "curve_draw_exec_fit lib op cdd (use_pressure_radius cps) = (calc_flag, out)"
    and "fit_result out = 0"
    and "\<forall>c \<in> set (free_corners calc_flag (corners_index out)). c < length (cubic_spline out)"
  shows "\<exists>nu bezts.
     curve_draw_exec vc lib ker cps op cu =
       Some (OPERATOR_FINISHED,
         cu\<lparr>nurblist := ED_curve_deselect_all_multi ker (nurblist cu) @ [BKE_nurb_handles_calc ker nu],
            actvert := pntsu (BKE_nurb_handles_calc ker nu) - 1\<rparr>) \<and>
     nu_type nu = CU_BEZIER \<and> bezt nu = Some bezts \<and>
     pntsu nu = int (length (cubic_spline out)) \<and> length bezts = length (cubic_spline out) \<and>
     (\<forall>j < length bezts.
        h1 (bezts ! j) =
          (if j \<in> set (free_corners calc_flag (corners_index out)) then HD_FREE else HD_ALIGN) \<and>
        h2 (bezts ! j) =
          (if j \<in> set (free_corners calc_flag (corners_index out)) then HD_FREE else HD_ALIGN)) \<and>
     (CURVE_FIT_CALC_CYCLIC \<in> calc_flag) =
       (2 < length (coords_fill (use_pressure_radius cps) (stroke_elem_pool cdd) []) \<and>
        RNA_use_cyclic op)"
proof -
  from exec_bezier_ok [OF assms(3,4,5), of cps "nu_init cu"]
  obtain bezts where
    b: "curve_draw_exec_bezier lib cps op cdd (use_pressure_radius cps) (nu_init cu) =
       Some ((nu_init cu)\<lparr>nu_type := CU_BEZIER, pntsu := int (length (cubic_spline out)), bezt := Some bezts,
               flagu := (if CURVE_FIT_CALC_CYCLIC \<in> calc_flag
                         then flagu (nu_init cu) \<union> {CU_NURB_CYCLIC} else flagu (nu_init cu))\<rparr>)"
     "length bezts = length (cubic_spline out)"
     "\<forall>j < length bezts.
        h1 (bezts ! j) = (if j \<in> set (free_corners calc_flag (corners_index out)) then HD_FREE else HD_ALIGN) \<and>
        h2 (bezts ! j) = (if j \<in> set (free_corners calc_flag (corners_index out)) then HD_FREE else HD_ALIGN)"
    by blast
  let ?nu = "(nu_init cu)\<lparr>nu_type := CU_BEZIER, pntsu := int (length (cubic_spline out)), bezt := Some bezts,
               flagu := (if CURVE_FIT_CALC_CYCLIC \<in> calc_flag
                         then flagu (nu_init cu) \<union> {CU_NURB_CYCLIC} else flagu (nu_init cu))\<rparr>"
  have e: "curve_draw_exec vc lib ker cps op cu =
       Some (OPERATOR_FINISHED,
         cu\<lparr>nurblist := ED_curve_deselect_all_multi ker (nurblist cu) @ [BKE_nurb_handles_calc ker ?nu],
            actvert := pntsu (BKE_nurb_handles_calc ker ?nu) - 1\<rparr>)"
    using assms(1,2) b(1) by (simp add: curve_draw_exec_def Let_def)
  have f: "nu_type ?nu = CU_BEZIER" "bezt ?nu = Some bezts" "pntsu ?nu = int (length (cubic_spline out))"
    by simp_all
  have c: "(CURVE_FIT_CALC_CYCLIC \<in> calc_flag) =
       (2 < length (coords_fill (use_pressure_radius cps) (stroke_elem_pool cdd) []) \<and>
        RNA_use_cyclic op)"
    using exec_fit_cyclic [of lib op cdd "use_pressure_radius cps"] assms(3) by simp
  show ?thesis
    apply (rule exI [of _ ?nu])
    apply (rule exI [of _ bezts])
    using e f b(2,3) c by simp
qed

theorem C4_witness:
  "\<exists>nu bezts.
     curve_draw_exec ex_vc ex_lib_ok ex_ker (ex_cps\<lparr>cps_curve_type := CU_BEZIER\<rparr>) ex_op ex_cu =
       Some (OPERATOR_FINISHED,
         ex_cu\<lparr>nurblist := ED_curve_deselect_all_multi ex_ker (nurblist ex_cu) @
                  [BKE_nurb_handles_calc ex_ker nu],
            actvert := pntsu (BKE_nurb_handles_calc ex_ker nu) - 1\<rparr>) \<and>
     bezt nu = Some bezts \<and> length bezts = 4 \<and>
     h1 (bezts ! 0) = HD_ALIGN \<and> h2 (bezts ! 0) = HD_ALIGN \<and>
     h1 (bezts ! 1) = HD_ALIGN \<and> h2 (bezts ! 1) = HD_ALIGN \<and>
     h1 (bezts ! 2) = HD_FREE \<and> h2 (bezts ! 2) = HD_FREE \<and>
     h1 (bezts ! 3) = HD_ALIGN \<and> h2 (bezts ! 3) = HD_ALIGN"
proof -
  have t: "cdd_curve_type (ex_cdd\<lparr>cdd_curve_type := CU_BEZIER\<rparr>) = CU_BEZIER" by simp
  have ok: "fit_result ex_fit_ok = 0" by (simp add: ex_fit_ok_def)
  have l: "length (cubic_spline ex_fit_ok) = 4" by (simp add: ex_fit_ok_def)
  have r: "\<forall>c \<in> set (free_corners {CURVE_FIT_CALC_HIGH_QUALIY} (corners_index ex_fit_ok)).
             c < length (cubic_spline ex_fit_ok)"
    by (simp add: ex_free_corners l)
  from C4_handle_types [OF ex_data_bezier t ex_fit_ok_call ok r, of ex_ker ex_cu]
  obtain nu bezts where h:
    "curve_draw_exec ex_vc ex_lib_ok ex_ker (ex_cps\<lparr>cps_curve_type := CU_BEZIER\<rparr>) ex_op ex_cu =
       Some (OPERATOR_FINISHED,
         ex_cu\<lparr>nurblist := ED_curve_deselect_all_multi ex_ker (nurblist ex_cu) @
                  [BKE_nurb_handles_calc ex_ker nu],
            actvert := pntsu (BKE_nurb_handles_calc ex_ker nu) - 1\<rparr>)"
    "bezt nu = Some bezts" "length bezts = length (cubic_spline ex_fit_ok)"
    "\<forall>j < length bezts.
        h1 (bezts ! j) =
          (if j \<in> set (free_corners {CURVE_FIT_CALC_HIGH_QUALIY} (corners_index ex_fit_ok))
           then HD_FREE else HD_ALIGN) \<and>
        h2 (bezts ! j) =
          (if j \<in> set (free_corners {CURVE_FIT_CALC_HIGH_QUALIY} (corners_index ex_fit_ok))
           then HD_FREE else HD_ALIGN)"
    by blast
  have n: "length bezts = 4" using h(3) l by simp
  have j0: "h1 (bezts ! 0) = HD_ALIGN \<and> h2 (bezts ! 0) = HD_ALIGN"
    using h(4) [rule_format, of 0] n by (simp add: ex_free_corners)
  have j1: "h1 (bezts ! 1) = HD_ALIGN \<and> h2 (bezts ! 1) = HD_ALIGN"
    using h(4) [rule_format, of 1] n by (simp add: ex_free_corners)
  have j2: "h1 (bezts ! 2) = HD_FREE \<and> h2 (bezts ! 2) = HD_FREE"
    using h(4) [rule_format, of 2] n by (simp add: ex_free_corners)
  have j3: "h1 (bezts ! 3) = HD_ALIGN \<and> h2 (bezts ! 3) = HD_ALIGN"
    using h(4) [rule_format, of 3] n by (simp add: ex_free_corners)
  show ?thesis
    apply (rule exI [of _ nu])
    apply (rule exI [of _ bezts])
    using h(1,2) n j0 j1 j2 j3 by simp
qed

section \<open>Coalescing duplicate samples\<close>

lemma coords_fill_remdups_adj_gen:
  "co \<noteq> [] \<Longrightarrow>
   coords_fill upr pool co = butlast co @ remdups_adj (last co # map (coords_entry upr) pool)"
proof (induction pool arbitrary: co)
  case Nil
  then show ?case by simp
next
  case (Cons s pool)
  show ?case
  proof (cases "coords_entry upr s = last co")
    case True
    with Cons show ?thesis by (simp add: Let_def)
  next
    case False
    have "coords_fill upr (s # pool) co = coords_fill upr pool (co @ [coords_entry upr s])"
      using False by (simp add: Let_def)
    also have "\<dots> = co @ remdups_adj (coords_entry upr s # map (coords_entry upr) pool)"
      using Cons.IH [of "co @ [coords_entry upr s]"] by simp
    also have "\<dots> = (butlast co @ [last co]) @ remdups_adj (coords_entry upr s # map (coords_entry upr) pool)"
      using Cons.prems by simp
    also have "\<dots> = butlast co @ remdups_adj (last co # map (coords_entry upr) (s # pool))"
      using False by simp
    finally show ?thesis .
  qed
qed

lemma coords_fill_remdups_adj:
  "coords_fill upr pool [] = remdups_adj (map (coords_entry upr) pool)"
proof (cases pool)
  case Nil
  then show ?thesis by simp
next
  case (Cons s rest)
  then show ?thesis
    using coords_fill_remdups_adj_gen [of "[coords_entry upr s]" upr rest]
    by (simp add: Let_def)
qed

lemma remdups_adj_twice:
  "remdups_adj (xs @ x # x # ys) = remdups_adj (xs @ x # ys)"
  using remdups_adj_append [of xs x "x # ys"] remdups_adj_append [of xs x ys] by simp

lemma coords_fill_duplicate:
  assumes "coords_entry upr s' = coords_entry upr s"
  shows "coords_fill upr (xs @ s # s' # ys) [] = coords_fill upr (xs @ s # ys) []"
proof -
  have "map (coords_entry upr) (xs @ s # s' # ys) =
        map (coords_entry upr) xs @ coords_entry upr s # coords_entry upr s # map (coords_entry upr) ys"
    using assms by simp
  moreover have "map (coords_entry upr) (xs @ s # ys) =
        map (coords_entry upr) xs @ coords_entry upr s # map (coords_entry upr) ys"
    by simp
  ultimately show ?thesis
    unfolding coords_fill_remdups_adj by (simp only: remdups_adj_twice)
qed

lemma exec_data_customdata:
  "pool \<noteq> [] \<Longrightarrow>
   curve_draw_exec_data vc cps (op\<lparr>customdata := Some (cdd\<lparr>stroke_elem_pool := pool\<rparr>)\<rparr>) =
     Some (cdd\<lparr>stroke_elem_pool := pool\<rparr>)"
  by (simp add: curve_draw_exec_data_def)

lemma exec_fit_pool:
  "coords_fill upr p1 [] = coords_fill upr p2 [] \<Longrightarrow>
   curve_draw_exec_fit lib (op\<lparr>customdata := c1\<rparr>) (cdd\<lparr>stroke_elem_pool := p1\<rparr>) upr =
   curve_draw_exec_fit lib (op\<lparr>customdata := c2\<rparr>) (cdd\<lparr>stroke_elem_pool := p2\<rparr>) upr"
  by (simp add: curve_draw_exec_fit_def RNA_fit_method_def RNA_error_threshold_def
      RNA_corner_angle_def RNA_use_cyclic_def)

lemma bezt_of_cubic_pool:
  "bezt_of_cubic (cdd\<lparr>stroke_elem_pool := p\<rparr>) r upr = bezt_of_cubic cdd r upr"
  by (rule ext) (simp add: bezt_of_cubic_def split: prod.splits)

lemma exec_bezier_pool:
  assumes "coords_fill upr p1 [] = coords_fill upr p2 []"
  shows "curve_draw_exec_bezier lib cps (op\<lparr>customdata := c1\<rparr>) (cdd\<lparr>stroke_elem_pool := p1\<rparr>) upr nu =
   curve_draw_exec_bezier lib cps (op\<lparr>customdata := c2\<rparr>) (cdd\<lparr>stroke_elem_pool := p2\<rparr>) upr nu"
  unfolding curve_draw_exec_bezier_def bezt_of_cubic_pool
  using exec_fit_pool [OF assms, where lib = lib and op = op and ?c1.0 = c1 and cdd = cdd and ?c2.0 = c2]
  by simp

lemma coords_entry_feature_vector:
  "coords_entry upr = feature_vector upr"
  by (rule ext) (simp add: coords_entry_def feature_vector_def case_prod_beta)

lemma coords_fill_coalesced:
  "coords_fill upr pool [] = coalesced upr pool"
  unfolding coalesced_def coords_fill_remdups_adj
  by (simp add: coords_entry_feature_vector)

lemma exec_fit_coalesced:
  "fst (curve_draw_exec_fit lib op cdd upr) =
     {CURVE_FIT_CALC_HIGH_QUALIY} \<union>
       (if 2 < length (coalesced upr (stroke_elem_pool cdd)) \<and> RNA_use_cyclic op
        then {CURVE_FIT_CALC_CYCLIC} else {}) \<and>
   snd (curve_draw_exec_fit lib op cdd upr) =
     (if RNA_fit_method op = CURVE_PAINT_FIT_METHOD_REFIT
      then curve_fit_cubic_to_points_refit_fl lib (coalesced upr (stroke_elem_pool cdd))
             (if upr then 4 else 3) (RNA_error_threshold op)
             (fst (curve_draw_exec_fit lib op cdd upr)) (RNA_corner_angle op)
      else curve_fit_cubic_to_points_fl lib (coalesced upr (stroke_elem_pool cdd))
             (if upr then 4 else 3) (RNA_error_threshold op)
             (fst (curve_draw_exec_fit lib op cdd upr))
             (if RNA_fit_method op = CURVE_PAINT_FIT_METHOD_SPLIT \<and> RNA_corner_angle op < pi
              then curve_fit_corners_detect_fl lib (coalesced upr (stroke_elem_pool cdd))
                     (if upr then 4 else 3) (RNA_error_threshold op / 8)
                     (RNA_error_threshold op * 2) 16 (RNA_corner_angle op)
              else None))"
  unfolding curve_draw_exec_fit_def Let_def coords_fill_coalesced fst_conv snd_conv
  by simp

lemma feature_vector_eq:
  "feature_vector upr s' = feature_vector upr s \<longleftrightarrow>
     location_local s' = location_local s \<and> (upr \<longrightarrow> pressure s' = pressure s)"
  by (auto simp add: feature_vector_def prod_eq_iff)

text \<open>
  C6: the array \<open>coords\<close> is the list of the samples' feature vectors (position, and
  pressure when that channel is in use) with every run of equal adjacent vectors coalesced
  into one, so no two adjacent entries of it are equal; and it is this array, with its
  length deciding the cyclic flag, that the corner detection and the fit call receive.
  Consequently a Bezier-mode stroke with a sample \<open>s'\<close> that has the position (and, with
  the pressure channel, the pressure) of the sample \<open>s\<close> before it gives the same array,
  the same fit call and result, and the same outcome of \<open>curve_draw_exec\<close> as the stroke
  without \<open>s'\<close>.
\<close>

theorem C6_dedup:
  assumes "cdd_curve_type cdd = CU_BEZIER"
    and "location_local s' = location_local s"
    and "use_pressure_radius cps \<longrightarrow> pressure s' = pressure s"
  shows "coords_fill upr pool [] = coalesced upr pool \<and>
    (\<forall>i. Suc i < length (coalesced upr pool) \<longrightarrow>
         coalesced upr pool ! i \<noteq> coalesced upr pool ! Suc i) \<and>
    fst (curve_draw_exec_fit lib op0 cdd0 upr) =
      {CURVE_FIT_CALC_HIGH_QUALIY} \<union>
        (if 2 < length (coalesced upr (stroke_elem_pool cdd0)) \<and> RNA_use_cyclic op0
         then {CURVE_FIT_CALC_CYCLIC} else {}) \<and>
    snd (curve_draw_exec_fit lib op0 cdd0 upr) =
      (if RNA_fit_method op0 = CURVE_PAINT_FIT_METHOD_REFIT
       then curve_fit_cubic_to_points_refit_fl lib (coalesced upr (stroke_elem_pool cdd0))
              (if upr then 4 else 3) (RNA_error_threshold op0)
              (fst (curve_draw_exec_fit lib op0 cdd0 upr)) (RNA_corner_angle op0)
       else curve_fit_cubic_to_points_fl lib (coalesced upr (stroke_elem_pool cdd0))
              (if upr then 4 else 3) (RNA_error_threshold op0)
              (fst (curve_draw_exec_fit lib op0 cdd0 upr))
              (if RNA_fit_method op0 = CURVE_PAINT_FIT_METHOD_SPLIT \<and> RNA_corner_angle op0 < pi
               then curve_fit_corners_detect_fl lib (coalesced upr (stroke_elem_pool cdd0))
                      (if upr then 4 else 3) (RNA_error_threshold op0 / 8)
                      (RNA_error_threshold op0 * 2) 16 (RNA_corner_angle op0)
               else None)) \<and>
    coalesced (use_pressure_radius cps) (xs @ s # s' # ys) =
      coalesced (use_pressure_radius cps) (xs @ s # ys) \<and>
    curve_draw_exec_fit lib (op\<lparr>customdata := Some (cdd\<lparr>stroke_elem_pool := xs @ s # s' # ys\<rparr>)\<rparr>)
        (cdd\<lparr>stroke_elem_pool := xs @ s # s' # ys\<rparr>) (use_pressure_radius cps) =
      curve_draw_exec_fit lib (op\<lparr>customdata := Some (cdd\<lparr>stroke_elem_pool := xs @ s # ys\<rparr>)\<rparr>)
        (cdd\<lparr>stroke_elem_pool := xs @ s # ys\<rparr>) (use_pressure_radius cps) \<and>
    curve_draw_exec vc lib ker cps
        (op\<lparr>customdata := Some (cdd\<lparr>stroke_elem_pool := xs @ s # s' # ys\<rparr>)\<rparr>) cu =
      curve_draw_exec vc lib ker cps
        (op\<lparr>customdata := Some (cdd\<lparr>stroke_elem_pool := xs @ s # ys\<rparr>)\<rparr>) cu"
proof -
  have a: "coords_fill upr pool [] = coalesced upr pool"
    by (rule coords_fill_coalesced)
  have b: "\<forall>i. Suc i < length (coalesced upr pool) \<longrightarrow>
         coalesced upr pool ! i \<noteq> coalesced upr pool ! Suc i"
    unfolding coalesced_def using distinct_adj_nth [OF distinct_adj_remdups_adj] by blast
  have fv: "feature_vector (use_pressure_radius cps) s' = feature_vector (use_pressure_radius cps) s"
    using assms(2,3) by (simp add: feature_vector_eq)
  have ce: "coords_entry (use_pressure_radius cps) s' = coords_entry (use_pressure_radius cps) s"
    using fv by (simp add: coords_entry_feature_vector)
  have c: "coords_fill (use_pressure_radius cps) (xs @ s # s' # ys) [] =
      coords_fill (use_pressure_radius cps) (xs @ s # ys) []"
    by (rule coords_fill_duplicate [OF ce])
  have c': "coalesced (use_pressure_radius cps) (xs @ s # s' # ys) =
      coalesced (use_pressure_radius cps) (xs @ s # ys)"
    using c unfolding coords_fill_coalesced .
  have d: "curve_draw_exec_fit lib (op\<lparr>customdata := Some (cdd\<lparr>stroke_elem_pool := xs @ s # s' # ys\<rparr>)\<rparr>)
        (cdd\<lparr>stroke_elem_pool := xs @ s # s' # ys\<rparr>) (use_pressure_radius cps) =
      curve_draw_exec_fit lib (op\<lparr>customdata := Some (cdd\<lparr>stroke_elem_pool := xs @ s # ys\<rparr>)\<rparr>)
        (cdd\<lparr>stroke_elem_pool := xs @ s # ys\<rparr>) (use_pressure_radius cps)"
    by (rule exec_fit_pool [OF c])
  have e: "curve_draw_exec vc lib ker cps
        (op\<lparr>customdata := Some (cdd\<lparr>stroke_elem_pool := xs @ s # s' # ys\<rparr>)\<rparr>) cu =
      curve_draw_exec vc lib ker cps
        (op\<lparr>customdata := Some (cdd\<lparr>stroke_elem_pool := xs @ s # ys\<rparr>)\<rparr>) cu"
  proof -
    have eb: "curve_draw_exec_bezier lib cps
          (op\<lparr>customdata := Some (cdd\<lparr>stroke_elem_pool := xs @ s # s' # ys\<rparr>)\<rparr>)
          (cdd\<lparr>stroke_elem_pool := xs @ s # s' # ys\<rparr>) (use_pressure_radius cps) (nu_init cu) =
        curve_draw_exec_bezier lib cps
          (op\<lparr>customdata := Some (cdd\<lparr>stroke_elem_pool := xs @ s # ys\<rparr>)\<rparr>)
          (cdd\<lparr>stroke_elem_pool := xs @ s # ys\<rparr>) (use_pressure_radius cps) (nu_init cu)"
      by (rule exec_bezier_pool [OF c])
    show ?thesis
      unfolding curve_draw_exec_def using assms(1)
      by (simp add: exec_data_customdata eb)
  qed
  note f = exec_fit_coalesced [of lib op0 cdd0 upr]
  show ?thesis
    apply (intro conjI)
          apply (rule a)
         apply (rule b)
        apply (rule f [THEN conjunct1])
       apply (rule f [THEN conjunct2])
      apply (rule c')
     apply (rule d)
    apply (rule e)
    done
qed

lemma ex_fit_args:
  "RNA_fit_method (ex_op\<lparr>customdata := c\<rparr>) = CURVE_PAINT_FIT_METHOD_REFIT"
  "RNA_error_threshold (ex_op\<lparr>customdata := c\<rparr>) = 0"
  "RNA_corner_angle (ex_op\<lparr>customdata := c\<rparr>) = 70 * pi / 180"
  "RNA_use_cyclic (ex_op\<lparr>customdata := c\<rparr>)"
  by (simp_all add: RNA_fit_method_def RNA_error_threshold_def RNA_corner_angle_def
      RNA_use_cyclic_def ex_op_def)

theorem C6_witness:
  "coords_fill True [ex_selem1, ex_selem1, ex_selem2] [] = [[0, 0, 0, 1 / 2], [2, 0, 0, 1]] \<and>
   coords_fill True [ex_selem1, ex_selem1, ex_selem2] [] ! 0 \<noteq>
     coords_fill True [ex_selem1, ex_selem1, ex_selem2] [] ! 1 \<and>
   curve_draw_exec_fit ex_lib_ok
      (ex_op\<lparr>customdata := Some (ex_cdd\<lparr>cdd_curve_type := CU_BEZIER,
                 stroke_elem_pool := [ex_selem1, ex_selem1, ex_selem2]\<rparr>)\<rparr>)
      (ex_cdd\<lparr>cdd_curve_type := CU_BEZIER,
                 stroke_elem_pool := [ex_selem1, ex_selem1, ex_selem2]\<rparr>) True =
     ({CURVE_FIT_CALC_HIGH_QUALIY},
      curve_fit_cubic_to_points_refit_fl ex_lib_ok [[0, 0, 0, 1 / 2], [2, 0, 0, 1]] 4 0
        {CURVE_FIT_CALC_HIGH_QUALIY} (70 * pi / 180)) \<and>
   curve_draw_exec ex_vc ex_lib_ok ex_ker (ex_cps\<lparr>cps_curve_type := CU_BEZIER\<rparr>)
      (ex_op\<lparr>customdata := Some (ex_cdd\<lparr>cdd_curve_type := CU_BEZIER,
                 stroke_elem_pool := [ex_selem1, ex_selem1, ex_selem2]\<rparr>)\<rparr>) ex_cu =
   curve_draw_exec ex_vc ex_lib_ok ex_ker (ex_cps\<lparr>cps_curve_type := CU_BEZIER\<rparr>)
      (ex_op\<lparr>customdata := Some (ex_cdd\<lparr>cdd_curve_type := CU_BEZIER,
                 stroke_elem_pool := [ex_selem1, ex_selem2]\<rparr>)\<rparr>) ex_cu"
proof -
  let ?pool = "[ex_selem1, ex_selem1, ex_selem2]"
  let ?cdd = "ex_cdd\<lparr>cdd_curve_type := CU_BEZIER, stroke_elem_pool := ?pool\<rparr>"
  let ?op = "ex_op\<lparr>customdata := Some ?cdd\<rparr>"
  have t: "cdd_curve_type (ex_cdd\<lparr>cdd_curve_type := CU_BEZIER\<rparr>) = CU_BEZIER" by simp
  have d1: "location_local ex_selem1 = location_local ex_selem1" by simp
  have d2: "use_pressure_radius (ex_cps\<lparr>cps_curve_type := CU_BEZIER\<rparr>) \<longrightarrow>
      pressure ex_selem1 = pressure ex_selem1" by simp
  have v: "coalesced True ?pool = [[0, 0, 0, 1 / 2], [2, 0, 0, 1]]"
    by (simp add: coalesced_def feature_vector_def ex_selem1_def ex_selem2_def
        StrokeElem_calloc_def zero_v3_def)
  note c = C6_dedup [OF t d1 d2, where upr = True and pool = ?pool
      and xs = "[]" and ys = "[ex_selem2]" and lib = ex_lib_ok and op = ex_op and vc = ex_vc
      and ker = ex_ker and cu = ex_cu and ?op0.0 = ?op and ?cdd0.0 = ?cdd]
  note h1 = c [THEN conjunct1]
  note h2 = c [THEN conjunct2, THEN conjunct1]
  note h3 = c [THEN conjunct2, THEN conjunct2, THEN conjunct1]
  note h4 = c [THEN conjunct2, THEN conjunct2, THEN conjunct2, THEN conjunct1]
  note h7 = c [THEN conjunct2, THEN conjunct2, THEN conjunct2, THEN conjunct2, THEN conjunct2,
      THEN conjunct2]
  have a: "coords_fill True ?pool [] = [[0, 0, 0, 1 / 2], [2, 0, 0, 1]]"
    using h1 v by simp
  have b: "coords_fill True ?pool [] ! 0 \<noteq> coords_fill True ?pool [] ! 1"
    using h2 [rule_format, of 0] v unfolding a by simp
  have pl: "stroke_elem_pool ?cdd = ?pool" by simp
  have f1: "fst (curve_draw_exec_fit ex_lib_ok ?op ?cdd True) = {CURVE_FIT_CALC_HIGH_QUALIY}"
    unfolding h3 pl v by simp
  have f2: "snd (curve_draw_exec_fit ex_lib_ok ?op ?cdd True) =
      curve_fit_cubic_to_points_refit_fl ex_lib_ok [[0, 0, 0, 1 / 2], [2, 0, 0, 1]] 4 0
        {CURVE_FIT_CALC_HIGH_QUALIY} (70 * pi / 180)"
    unfolding h4 f1 pl v ex_fit_args by simp
  have f: "curve_draw_exec_fit ex_lib_ok ?op ?cdd True =
     ({CURVE_FIT_CALC_HIGH_QUALIY},
      curve_fit_cubic_to_points_refit_fl ex_lib_ok [[0, 0, 0, 1 / 2], [2, 0, 0, 1]] 4 0
        {CURVE_FIT_CALC_HIGH_QUALIY} (70 * pi / 180))"
    using f1 f2 by (simp add: prod_eq_iff)
  have g: "curve_draw_exec ex_vc ex_lib_ok ex_ker (ex_cps\<lparr>cps_curve_type := CU_BEZIER\<rparr>)
      (ex_op\<lparr>customdata := Some (ex_cdd\<lparr>cdd_curve_type := CU_BEZIER,
                 stroke_elem_pool := [ex_selem1, ex_selem1, ex_selem2]\<rparr>)\<rparr>) ex_cu =
     curve_draw_exec ex_vc ex_lib_ok ex_ker (ex_cps\<lparr>cps_curve_type := CU_BEZIER\<rparr>)
      (ex_op\<lparr>customdata := Some (ex_cdd\<lparr>cdd_curve_type := CU_BEZIER,
                 stroke_elem_pool := [ex_selem1, ex_selem2]\<rparr>)\<rparr>) ex_cu"
    using h7 by simp
  show ?thesis using a b f g by simp
qed

section \<open>Samples of an input event\<close>

lemma sint_of_small:
  fixes x :: "32 word"
  assumes "unat x < w" and "int w \<le> 2 ^ 31"
  shows "0 \<le> sint x \<and> sint x < int w"
proof -
  have "int (unat x) < int w" using assms(1) by (rule of_nat_less_iff [THEN iffD2])
  then have a: "uint x < int w" by simp
  then have b: "uint x < 2 ^ 31" using assms(2) by (rule less_le_trans)
  have "sint x = signed_take_bit 31 (uint x)" by (simp add: sint_uint)
  also have "\<dots> = uint x"
  proof (rule signed_take_bit_int_eq_self)
    have "- (2 ^ 31) \<le> (0::int)" by simp
    also have "0 \<le> uint x" by simp
    finally show "- (2 ^ 31) \<le> uint x" .
    show "uint x < 2 ^ 31" by (rule b)
  qed
  finally have s: "sint x = uint x" .
  have "0 \<le> uint x" by simp
  then show ?thesis using a s by simp
qed

lemma sqrt16: "sqrt 16 = 4"
  by (rule real_sqrt_unique) simp_all

lemma sqrt144: "sqrt 144 = 12"
  by (rule real_sqrt_unique) simp_all

lemma fallback_elem_mval [simp]:
  "mval (snd (stroke_elem_project_fallback_elem vc cdd fb s)) = mval s"
  by (simp add: stroke_elem_project_fallback_elem_def Let_def case_prod_beta)

lemma fallback_elem_pressure [simp]:
  "pressure (snd (stroke_elem_project_fallback_elem vc cdd fb s)) = pressure s"
  by (simp add: stroke_elem_project_fallback_elem_def Let_def case_prod_beta)

lemma fallback_local:
  "fst (snd (snd (stroke_elem_project_fallback vc cdd mi mf so r fb nw))) =
     world_to_object vc (fst (snd (stroke_elem_project_fallback vc cdd mi mf so r fb nw)))"
  by (simp add: stroke_elem_project_fallback_def Let_def case_prod_beta split: option.splits)

lemma fallback_elem_local:
  "location_local (snd (stroke_elem_project_fallback_elem vc cdd fb s)) =
     world_to_object vc (location_world (snd (stroke_elem_project_fallback_elem vc cdd fb s)))"
  using fallback_local
  by (simp add: stroke_elem_project_fallback_elem_def Let_def case_prod_beta)

lemma substep_fst:
  "\<exists>v. fst (substep vc f prev target n i (c, s, acc)) = c\<lparr>prev_location_world_valid := v\<rparr>"
proof (cases "f = False \<and> fst (stroke_elem_project_fallback_elem vc c (prev_location_world_valid c)
          (stroke_elem_interp vc s prev target (real i / real n)))")
  case True
  then have "fst (substep vc f prev target n i (c, s, acc)) =
      c\<lparr>prev_location_world_valid := location_world (snd (stroke_elem_project_fallback_elem vc c
          (prev_location_world_valid c) (stroke_elem_interp vc s prev target (real i / real n))))\<rparr>"
    by (simp add: substep_def Let_def case_prod_beta)
  then show ?thesis by (rule exI)
next
  case False
  have "fst (substep vc f prev target n i (c, s, acc)) = c"
    using False by (auto simp add: substep_def Let_def case_prod_beta)
  then have "fst (substep vc f prev target n i (c, s, acc)) =
      c\<lparr>prev_location_world_valid := prev_location_world_valid c\<rparr>" by simp
  then show ?thesis by blast
qed

lemma substep_snd:
  "snd (substep vc f prev target n i (c, s, acc)) =
     (StrokeElem_calloc,
      acc @ [snd (stroke_elem_project_fallback_elem vc c (prev_location_world_valid c)
                    (stroke_elem_interp vc s prev target (real i / real n)))])"
  by (simp add: substep_def Let_def case_prod_beta)

lemma substeps_fold:
  "\<exists>v s' new.
     fold (substep vc f prev target n) [a..<b] (c, s, acc) =
       (c\<lparr>prev_location_world_valid := v\<rparr>, s', acc @ new) \<and>
     length new = b - a \<and>
     (\<forall>k < b - a. is_substep vc prev target (real (a + k) / real n) (new ! k))"
proof (induction "b - a" arbitrary: a c s acc)
  case 0
  then have "[a..<b] = []" by simp
  then have "fold (substep vc f prev target n) [a..<b] (c, s, acc) =
       (c\<lparr>prev_location_world_valid := prev_location_world_valid c\<rparr>, s, acc @ []) \<and>
     length ([] :: StrokeElem list) = b - a \<and>
     (\<forall>k < b - a. is_substep vc prev target (real (a + k) / real n) ([] ! k))"
    using 0 by simp
  then show ?case by blast
next
  case (Suc d)
  then have ab: "a < b" and d: "d = b - Suc a" by simp_all
  have up: "[a..<b] = a # [Suc a..<b]" using ab by (simp add: upt_conv_Cons)
  obtain v1 where v1: "fst (substep vc f prev target n a (c, s, acc)) = c\<lparr>prev_location_world_valid := v1\<rparr>"
    using substep_fst by blast
  let ?x = "snd (stroke_elem_project_fallback_elem vc c (prev_location_world_valid c)
                    (stroke_elem_interp vc s prev target (real a / real n)))"
  have st: "substep vc f prev target n a (c, s, acc) =
      (c\<lparr>prev_location_world_valid := v1\<rparr>, StrokeElem_calloc, acc @ [?x])"
    using v1 substep_snd [of vc f prev target n a c s acc] by (simp add: prod_eq_iff)
  from Suc.hyps(1) [OF d, of "c\<lparr>prev_location_world_valid := v1\<rparr>" StrokeElem_calloc "acc @ [?x]"]
  obtain v s' new where
    h: "fold (substep vc f prev target n) [Suc a..<b]
          (c\<lparr>prev_location_world_valid := v1\<rparr>, StrokeElem_calloc, acc @ [?x]) =
        (c\<lparr>prev_location_world_valid := v1, prev_location_world_valid := v\<rparr>, s', (acc @ [?x]) @ new)"
       "length new = b - Suc a"
       "\<forall>k < b - Suc a. is_substep vc prev target (real (Suc a + k) / real n) (new ! k)"
    by blast
  have e: "fold (substep vc f prev target n) [a..<b] (c, s, acc) =
       (c\<lparr>prev_location_world_valid := v\<rparr>, s', acc @ (?x # new))"
    using up st h(1) by simp
  have l: "length (?x # new) = b - a" using h(2) ab by simp
  have x: "is_substep vc prev target (real a / real n) ?x"
    unfolding is_substep_def by blast
  have p: "\<forall>k < b - a. is_substep vc prev target (real (a + k) / real n) ((?x # new) ! k)"
  proof (intro allI impI)
    fix k assume k: "k < b - a"
    show "is_substep vc prev target (real (a + k) / real n) ((?x # new) ! k)"
    proof (cases k)
      case 0
      then show ?thesis using x by simp
    next
      case (Suc k')
      then have "k' < b - Suc a" using k by simp
      from h(3) [rule_format, OF this] show ?thesis using Suc by simp
    qed
  qed
  show ?case using e l p by blast
qed


lemma event_add_substeps:
  assumes "sample_use_substeps cdd" and "prev_selem cdd = Some p"
  shows "\<exists>substeps target.
    target = snd (stroke_elem_project_fallback_elem vc cdd (prev_location_world_valid cdd)
               (StrokeElem_calloc\<lparr>mval := (real_of_int (fst (event_mval ev)), real_of_int (snd (event_mval ev))),
                                  pressure := tablet_pressure ev\<rparr>)) \<and>
    stroke_elem_pool (curve_draw_event_add vc cdd ev) = stroke_elem_pool cdd @ substeps @ [target] \<and>
    prev_selem (curve_draw_event_add vc cdd ev) = Some target \<and>
    prev_mval (curve_draw_event_add vc cdd ev) = mval target \<and>
    length substeps =
      (if 9 \<le> len_squared_v2v2 (prev_mval cdd) (mval target)
       then nat \<lceil>sqrt (len_squared_v2v2 (prev_mval cdd) (mval target))\<rceil> div 3 - 1 else 0) \<and>
    (\<forall>k < length substeps.
       is_substep vc p target
         (real (1 + k) / real (nat \<lceil>sqrt (len_squared_v2v2 (prev_mval cdd) (mval target))\<rceil> div 3))
         (substeps ! k))"
proof -
  define selem0 where "selem0 = StrokeElem_calloc\<lparr>mval := (real_of_int (fst (event_mval ev)), real_of_int (snd (event_mval ev))),
                                  pressure := tablet_pressure ev\<rparr>"
  define r where "r = stroke_elem_project_fallback_elem vc cdd (prev_location_world_valid cdd) selem0"
  define selem where "selem = snd r"
  define cdd3 where "cdd3 = (if fst r then cdd\<lparr>prev_location_world_valid := location_world selem\<rparr> else cdd)
      \<lparr>prev_location_world := location_world selem, prev_mval := mval selem\<rparr>"
  define len_sq where "len_sq = len_squared_v2v2 (prev_mval cdd) (mval selem)"
  define n where "n = nat \<lceil>sqrt len_sq\<rceil> div 3"
  define st where "st = (if len_sq \<ge> 9 then fold (substep vc (fst r) p selem n) [1..<n] (cdd3, selem, [])
                         else (cdd3, selem, []))"
  have c3: "prev_selem cdd3 = Some p" "sample_use_substeps cdd3"
      "stroke_elem_pool cdd3 = stroke_elem_pool cdd" "prev_mval cdd3 = mval selem"
    using assms by (simp_all add: cdd3_def)
  have ea: "curve_draw_event_add vc cdd ev =
      (fst st)\<lparr>stroke_elem_pool := stroke_elem_pool (fst st) @ snd (snd st) @ [selem],
                prev_selem := Some selem\<rparr>"
    unfolding curve_draw_event_add_def st_def n_def len_sq_def cdd3_def selem_def r_def selem0_def
    using assms
    by (simp add: Let_def case_prod_beta square_f_def STROKE_SAMPLE_DIST_MAX_PX_def)
  have "\<exists>v s' new. st = (cdd3\<lparr>prev_location_world_valid := v\<rparr>, s', new) \<and>
      length new = (if 9 \<le> len_sq then n - 1 else 0) \<and>
      (\<forall>k < length new. is_substep vc p selem (real (1 + k) / real n) (new ! k))"
  proof (cases "9 \<le> len_sq")
    case True
    from substeps_fold [of vc "fst r" p selem n 1 n cdd3 selem "[]"]
    obtain v s' new where
      h: "fold (substep vc (fst r) p selem n) [1..<n] (cdd3, selem, []) =
            (cdd3\<lparr>prev_location_world_valid := v\<rparr>, s', [] @ new)"
         "length new = n - 1"
         "\<forall>k < n - 1. is_substep vc p selem (real (1 + k) / real n) (new ! k)"
      by blast
    have "st = (cdd3\<lparr>prev_location_world_valid := v\<rparr>, s', new) \<and>
      length new = (if 9 \<le> len_sq then n - 1 else 0) \<and>
      (\<forall>k < length new. is_substep vc p selem (real (1 + k) / real n) (new ! k))"
      using True h by (simp add: st_def)
    then show ?thesis by blast
  next
    case False
    then have "st = (cdd3\<lparr>prev_location_world_valid := prev_location_world_valid cdd3\<rparr>, selem, []) \<and>
      length ([] :: StrokeElem list) = (if 9 \<le> len_sq then n - 1 else 0) \<and>
      (\<forall>k < length ([] :: StrokeElem list). is_substep vc p selem (real (1 + k) / real n) ([] ! k))"
      by (simp add: st_def)
    then show ?thesis by blast
  qed
  then obtain v s' new where
    h: "st = (cdd3\<lparr>prev_location_world_valid := v\<rparr>, s', new)"
       "length new = (if 9 \<le> len_sq then n - 1 else 0)"
       "\<forall>k < length new. is_substep vc p selem (real (1 + k) / real n) (new ! k)"
    by blast
  have pool: "stroke_elem_pool (curve_draw_event_add vc cdd ev) = stroke_elem_pool cdd @ new @ [selem]"
    using ea h(1) c3 by simp
  have ps: "prev_selem (curve_draw_event_add vc cdd ev) = Some selem"
    using ea by simp
  have pm: "prev_mval (curve_draw_event_add vc cdd ev) = mval selem"
    using ea h(1) c3 by simp
  show ?thesis
    apply (rule exI [of _ new])
    apply (rule exI [of _ selem])
    using pool ps pm h(2,3)
    by (simp add: selem_def r_def selem0_def len_sq_def n_def)
qed




lemma is_substep_mval:
  "is_substep vc p target t x \<Longrightarrow> mval x = interp_v2_v2v2 (mval p) (mval target) t"
  by (auto simp add: is_substep_def stroke_elem_interp_def)

text \<open>
  C3, amended: with substeps in use and a previous sample \<open>p\<close>, an event at squared
  screen distance \<open>d2\<close> from the previous cursor position appends to the pool the
  intermediate samples followed by the raw sample. Below the threshold
  (\<open>d2 < 3 * 3\<close>) there is no intermediate sample; from the threshold on there are
  \<open>n - 1\<close> of them, where \<open>n\<close> is the integer quotient of \<open>ceil (sqrt d2)\<close> by 3 (rounded
  down, not up). The intermediate sample \<open>i\<close> (counted from 0) has the screen position
  interpolated between \<open>p\<close> and the raw sample at \<open>t = (i + 1) / n\<close>, which lies strictly
  between 0 and 1 and increases strictly with \<open>i\<close>. Afterwards the raw sample is the
  previous sample and its position the previous cursor position.
\<close>

theorem C3_substeps:
  assumes "sample_use_substeps cdd" and "prev_selem cdd = Some p"
    and "d2 = len_squared_v2v2 (prev_mval cdd)
                (real_of_int (fst (event_mval ev)), real_of_int (snd (event_mval ev)))"
    and "n = nat \<lceil>sqrt d2\<rceil> div STROKE_SAMPLE_DIST_MAX_PX"
  shows "\<exists>substeps target.
    stroke_elem_pool (curve_draw_event_add vc cdd ev) = stroke_elem_pool cdd @ substeps @ [target] \<and>
    mval target = (real_of_int (fst (event_mval ev)), real_of_int (snd (event_mval ev))) \<and>
    prev_selem (curve_draw_event_add vc cdd ev) = Some target \<and>
    prev_mval (curve_draw_event_add vc cdd ev) = mval target \<and>
    length substeps = (if square_f (real STROKE_SAMPLE_DIST_MAX_PX) \<le> d2 then n - 1 else 0) \<and>
    (\<forall>i < length substeps.
       mval (substeps ! i) = interp_v2_v2v2 (mval p) (mval target) (real (i + 1) / real n) \<and>
       0 < real (i + 1) / real n \<and> real (i + 1) / real n < 1 \<and>
       (\<forall>j < length substeps. i < j \<longrightarrow> real (i + 1) / real n < real (j + 1) / real n))"
proof -
  from event_add_substeps [OF assms(1,2), of vc ev]
  obtain substeps target where
    h: "target = snd (stroke_elem_project_fallback_elem vc cdd (prev_location_world_valid cdd)
               (StrokeElem_calloc\<lparr>mval := (real_of_int (fst (event_mval ev)), real_of_int (snd (event_mval ev))),
                                  pressure := tablet_pressure ev\<rparr>))"
    "stroke_elem_pool (curve_draw_event_add vc cdd ev) = stroke_elem_pool cdd @ substeps @ [target]"
    "prev_selem (curve_draw_event_add vc cdd ev) = Some target"
    "prev_mval (curve_draw_event_add vc cdd ev) = mval target"
    "length substeps =
      (if 9 \<le> len_squared_v2v2 (prev_mval cdd) (mval target)
       then nat \<lceil>sqrt (len_squared_v2v2 (prev_mval cdd) (mval target))\<rceil> div 3 - 1 else 0)"
    "\<forall>k < length substeps.
       is_substep vc p target
         (real (1 + k) / real (nat \<lceil>sqrt (len_squared_v2v2 (prev_mval cdd) (mval target))\<rceil> div 3))
         (substeps ! k)"
    by blast
  have m: "mval target = (real_of_int (fst (event_mval ev)), real_of_int (snd (event_mval ev)))"
    using h(1) by simp
  have d: "len_squared_v2v2 (prev_mval cdd) (mval target) = d2" using m assms(3) by simp
  have n: "nat \<lceil>sqrt (len_squared_v2v2 (prev_mval cdd) (mval target))\<rceil> div 3 = n"
    using d assms(4) by (simp add: STROKE_SAMPLE_DIST_MAX_PX_def)
  have l: "length substeps = (if square_f (real STROKE_SAMPLE_DIST_MAX_PX) \<le> d2 then n - 1 else 0)"
    using h(5) d n by (simp add: square_f_def STROKE_SAMPLE_DIST_MAX_PX_def)
  have ln: "length substeps \<le> n - 1" using l by simp
  have p: "\<forall>i < length substeps.
       mval (substeps ! i) = interp_v2_v2v2 (mval p) (mval target) (real (i + 1) / real n) \<and>
       0 < real (i + 1) / real n \<and> real (i + 1) / real n < 1 \<and>
       (\<forall>j < length substeps. i < j \<longrightarrow> real (i + 1) / real n < real (j + 1) / real n)"
  proof (intro allI impI)
    fix i assume i: "i < length substeps"
    then have in1: "i + 1 < n" using ln by linarith
    then have npos: "0 < real n" by simp
    have a: "mval (substeps ! i) = interp_v2_v2v2 (mval p) (mval target) (real (i + 1) / real n)"
      using is_substep_mval [OF h(6) [rule_format, OF i]] n by (simp add: add.commute)
    have b: "0 < real (i + 1) / real n" using npos by simp
    have c: "real (i + 1) / real n < 1" using in1 npos by simp
    have e: "\<forall>j < length substeps. i < j \<longrightarrow> real (i + 1) / real n < real (j + 1) / real n"
      using npos by (simp add: divide_strict_right_mono)
    show "mval (substeps ! i) = interp_v2_v2v2 (mval p) (mval target) (real (i + 1) / real n) \<and>
       0 < real (i + 1) / real n \<and> real (i + 1) / real n < 1 \<and>
       (\<forall>j < length substeps. i < j \<longrightarrow> real (i + 1) / real n < real (j + 1) / real n)"
      using a b c e by blast
  qed
  show ?thesis
    apply (rule exI [of _ substeps])
    apply (rule exI [of _ target])
    using h(2,3,4) m l p by blast
qed

lemma ex_sub_facts:
  "sample_use_substeps ex_cdd_sub" "prev_selem ex_cdd_sub = Some ex_selem2"
  "prev_mval ex_cdd_sub = (4, 0)" "mval ex_selem2 = (4, 0)"
  "length (stroke_elem_pool ex_cdd_sub) = 2"
  by (simp_all add: ex_cdd_sub_def ex_cdd_def ex_selem2_def)

text \<open>
  C3, as the claim states it, fails: with substeps in use and the previous sample at
  \<open>(4, 0)\<close>, the event at \<open>(8, 0)\<close> is at the squared distance 16, not below the threshold
  9; the pool grows by the raw sample and no intermediate sample, while
  \<open>ceil (ceil (sqrt 16) / 3) - 1\<close> is 1.
\<close>

theorem C3_counterexample:
  "sample_use_substeps ex_cdd_sub \<and> prev_selem ex_cdd_sub = Some ex_selem2 \<and>
   len_squared_v2v2 (mval ex_selem2)
     (real_of_int (fst (event_mval ex_event_near)), real_of_int (snd (event_mval ex_event_near))) = 16 \<and>
   square_f (real STROKE_SAMPLE_DIST_MAX_PX) \<le> 16 \<and>
   length (stroke_elem_pool (curve_draw_event_add ex_vc ex_cdd_sub ex_event_near)) =
     length (stroke_elem_pool ex_cdd_sub) + 0 + 1 \<and>
   nat \<lceil>real_of_int \<lceil>sqrt 16\<rceil> / real STROKE_SAMPLE_DIST_MAX_PX\<rceil> - 1 = 1"
proof -
  from event_add_substeps [OF ex_sub_facts(1,2), of ex_vc ex_event_near]
  obtain substeps target where
    h: "target = snd (stroke_elem_project_fallback_elem ex_vc ex_cdd_sub (prev_location_world_valid ex_cdd_sub)
               (StrokeElem_calloc\<lparr>mval := (real_of_int (fst (event_mval ex_event_near)),
                                           real_of_int (snd (event_mval ex_event_near))),
                                  pressure := tablet_pressure ex_event_near\<rparr>))"
    "stroke_elem_pool (curve_draw_event_add ex_vc ex_cdd_sub ex_event_near) =
       stroke_elem_pool ex_cdd_sub @ substeps @ [target]"
    "length substeps =
      (if 9 \<le> len_squared_v2v2 (prev_mval ex_cdd_sub) (mval target)
       then nat \<lceil>sqrt (len_squared_v2v2 (prev_mval ex_cdd_sub) (mval target))\<rceil> div 3 - 1 else 0)"
    by blast
  have m: "mval target = (8, 0)" using h(1) by (simp add: ex_event_near_def)
  have d: "len_squared_v2v2 (prev_mval ex_cdd_sub) (mval target) = 16"
    using m by (simp add: ex_sub_facts len_squared_v2v2_def)
  have "length substeps = 0" using h(3) d by (simp add: sqrt16)
  then have a: "length (stroke_elem_pool (curve_draw_event_add ex_vc ex_cdd_sub ex_event_near)) =
     length (stroke_elem_pool ex_cdd_sub) + 0 + 1"
    using h(2) by simp
  have b: "len_squared_v2v2 (mval ex_selem2)
     (real_of_int (fst (event_mval ex_event_near)), real_of_int (snd (event_mval ex_event_near))) = 16"
    by (simp add: ex_sub_facts len_squared_v2v2_def ex_event_near_def)
  have c: "square_f (real STROKE_SAMPLE_DIST_MAX_PX) \<le> 16"
    by (simp add: square_f_def STROKE_SAMPLE_DIST_MAX_PX_def)
  have "\<lceil>(4::real) / 3\<rceil> = 2" by (simp add: ceiling_eq_iff)
  then have e: "nat \<lceil>real_of_int \<lceil>sqrt 16\<rceil> / real STROKE_SAMPLE_DIST_MAX_PX\<rceil> - 1 = 1"
    by (simp add: sqrt16 STROKE_SAMPLE_DIST_MAX_PX_def)
  show ?thesis using ex_sub_facts(1,2) a b c e by simp
qed

theorem C3_witness:
  "\<exists>substeps target.
    stroke_elem_pool (curve_draw_event_add ex_vc ex_cdd_sub ex_event_far) =
      stroke_elem_pool ex_cdd_sub @ substeps @ [target] \<and>
    mval target = (16, 0) \<and> length substeps = 3 \<and>
    mval (substeps ! 0) = (7, 0) \<and> mval (substeps ! 1) = (10, 0) \<and> mval (substeps ! 2) = (13, 0)"
proof -
  have d: "(144::real) = len_squared_v2v2 (prev_mval ex_cdd_sub)
                (real_of_int (fst (event_mval ex_event_far)), real_of_int (snd (event_mval ex_event_far)))"
    by (simp add: ex_sub_facts len_squared_v2v2_def ex_event_far_def)
  have n: "(4::nat) = nat \<lceil>sqrt 144\<rceil> div STROKE_SAMPLE_DIST_MAX_PX"
    by (simp add: sqrt144 STROKE_SAMPLE_DIST_MAX_PX_def)
  from C3_substeps [OF ex_sub_facts(1,2) d n, of ex_vc]
  obtain substeps target where
    h: "stroke_elem_pool (curve_draw_event_add ex_vc ex_cdd_sub ex_event_far) =
          stroke_elem_pool ex_cdd_sub @ substeps @ [target]"
       "mval target = (real_of_int (fst (event_mval ex_event_far)), real_of_int (snd (event_mval ex_event_far)))"
       "length substeps = (if square_f (real STROKE_SAMPLE_DIST_MAX_PX) \<le> 144 then 4 - 1 else 0)"
       "\<forall>i < length substeps.
          mval (substeps ! i) = interp_v2_v2v2 (mval ex_selem2) (mval target) (real (i + 1) / real 4)"
    by blast
  have m: "mval target = (16, 0)" using h(2) by (simp add: ex_event_far_def)
  have l: "length substeps = 3" using h(3) by (simp add: square_f_def STROKE_SAMPLE_DIST_MAX_PX_def)
  have s0: "mval (substeps ! 0) = (7, 0)"
    using h(4) [rule_format, of 0] l m by (simp add: interp_v2_v2v2_def ex_sub_facts)
  have s1: "mval (substeps ! 1) = (10, 0)"
    using h(4) [rule_format, of 1] l m by (simp add: interp_v2_v2v2_def ex_sub_facts)
  have s2: "mval (substeps ! 2) = (13, 0)"
    using h(4) [rule_format, of 2] l m by (simp add: interp_v2_v2v2_def ex_sub_facts)
  show ?thesis
    apply (rule exI [of _ substeps])
    apply (rule exI [of _ target])
    using h(1) m l s0 s1 s2 by simp
qed

section \<open>Projection and fallback\<close>

lemma project_depth_success:
  assumes "\<not> project_use_plane cdd" and "stroke_elem_project vc cdd mi mf so r \<noteq> None"
  shows "\<exists>d. depths cdd = Some d \<and> unat (fst mi) < depths_w d \<and> unat (snd mi) < depths_h d \<and>
     fst (depth_range d) < depth_read_cached d mi \<and> depth_read_cached d mi < snd (depth_range d)"
proof (cases "depths cdd")
  case None
  then show ?thesis using assms by (simp add: stroke_elem_project_def)
next
  case (Some d)
  have "unat (fst mi) < depths_w d \<and> unat (snd mi) < depths_h d"
    using assms Some by (auto simp add: stroke_elem_project_def split: if_splits)
  moreover have "fst (depth_range d) < depth_read_cached d mi \<and> depth_read_cached d mi < snd (depth_range d)"
    using assms Some by (auto simp add: stroke_elem_project_def Let_def split: if_splits)
  ultimately show ?thesis using Some by simp
qed

lemma fallback_on_failure:
  assumes "stroke_elem_project vc cdd mi mf so r = None"
  shows "stroke_elem_project_fallback vc cdd mi mf so r fb nw =
        (False, win_to_3d vc fb mf, world_to_object vc (win_to_3d vc fb mf), nw,
         if \<not> is_zero_v3 nw then normalize_v3 vc (object_to_world_transposed vc nw) else zero_v3)"
  using assms by (simp add: stroke_elem_project_fallback_def)

lemma fallback_elem_world:
  "location_world (snd (stroke_elem_project_fallback_elem vc cdd fb s)) =
     (case stroke_elem_project vc cdd (int_of_float (fst (mval s)), int_of_float (snd (mval s)))
             (mval s) (project_surface_offset cdd) (stroke_elem_radius vc cdd s) of
        Some (loc, no) \<Rightarrow> loc
      | None \<Rightarrow> win_to_3d vc fb (mval s))"
  by (simp add: stroke_elem_project_fallback_elem_def stroke_elem_project_fallback_def Let_def
      split: option.splits prod.splits)

lemma fallback_elem_found:
  "fst (stroke_elem_project_fallback_elem vc cdd fb s) =
     (stroke_elem_project vc cdd (int_of_float (fst (mval s)), int_of_float (snd (mval s)))
             (mval s) (project_surface_offset cdd) (stroke_elem_radius vc cdd s) \<noteq> None)"
  by (simp add: stroke_elem_project_fallback_elem_def stroke_elem_project_fallback_def Let_def
      split: option.splits prod.splits)

lemma event_add_plain:
  assumes "\<not> sample_use_substeps cdd \<or> prev_selem cdd = None"
  shows "stroke_elem_pool (curve_draw_event_add vc cdd ev) =
     stroke_elem_pool cdd @ [] @
       [snd (stroke_elem_project_fallback_elem vc cdd (prev_location_world_valid cdd)
               (StrokeElem_calloc\<lparr>mval := (real_of_int (fst (event_mval ev)), real_of_int (snd (event_mval ev))),
                                  pressure := tablet_pressure ev\<rparr>))]"
proof (cases "prev_selem cdd")
  case None
  then show ?thesis by (simp add: curve_draw_event_add_def Let_def case_prod_beta)
next
  case (Some p)
  then have "\<not> sample_use_substeps cdd" using assms by simp
  then show ?thesis using Some by (simp add: curve_draw_event_add_def Let_def case_prod_beta)
qed

lemma event_add_pool:
  "\<exists>substeps.
     stroke_elem_pool (curve_draw_event_add vc cdd ev) =
       stroke_elem_pool cdd @ substeps @
         [snd (stroke_elem_project_fallback_elem vc cdd (prev_location_world_valid cdd)
               (StrokeElem_calloc\<lparr>mval := (real_of_int (fst (event_mval ev)), real_of_int (snd (event_mval ev))),
                                  pressure := tablet_pressure ev\<rparr>))] \<and>
     (\<forall>x \<in> set substeps. \<exists>c fb s. x = snd (stroke_elem_project_fallback_elem vc c fb s))"
proof (cases "\<not> sample_use_substeps cdd \<or> prev_selem cdd = None")
  case True
  from event_add_plain [OF True, of vc ev] show ?thesis
    by (intro exI [of _ "[]"]) simp
next
  case False
  then obtain p where p: "sample_use_substeps cdd" "prev_selem cdd = Some p" by auto
  from event_add_substeps [OF p, of vc ev]
  obtain substeps target where
    h: "target = snd (stroke_elem_project_fallback_elem vc cdd (prev_location_world_valid cdd)
               (StrokeElem_calloc\<lparr>mval := (real_of_int (fst (event_mval ev)), real_of_int (snd (event_mval ev))),
                                  pressure := tablet_pressure ev\<rparr>))"
    "stroke_elem_pool (curve_draw_event_add vc cdd ev) = stroke_elem_pool cdd @ substeps @ [target]"
    "\<forall>k < length substeps.
       is_substep vc p target
         (real (1 + k) / real (nat \<lceil>sqrt (len_squared_v2v2 (prev_mval cdd) (mval target))\<rceil> div 3))
         (substeps ! k)"
    by blast
  have "\<forall>x \<in> set substeps. \<exists>c fb s. x = snd (stroke_elem_project_fallback_elem vc c fb s)"
  proof
    fix x assume "x \<in> set substeps"
    then obtain k where k: "k < length substeps" "x = substeps ! k" by (auto simp add: in_set_conv_nth)
    from h(3) [rule_format, OF k(1)] show "\<exists>c fb s. x = snd (stroke_elem_project_fallback_elem vc c fb s)"
      unfolding is_substep_def k(2) by blast
  qed
  then show ?thesis using h(1,2) by blast
qed

lemma sample_projection_cong:
  assumes "same_projection c c'"
  shows "sample_projection vc c' s = sample_projection vc c s"
proof -
  have e: "project_use_plane c' = project_use_plane c" "project_plane c' = project_plane c"
      "depths c' = depths c"
      "project_use_surface_offset_absolute c' = project_use_surface_offset_absolute c"
      "project_use_offset c' = project_use_offset c" "project_offset c' = project_offset c"
      "project_surface_offset c' = project_surface_offset c"
      "radius_range c' = radius_range c" "radius_min c' = radius_min c"
    using assms by (simp_all add: same_projection_def)
  show ?thesis
    unfolding sample_projection_def stroke_elem_project_def stroke_elem_radius_def
      stroke_elem_radius_from_pressure_def e ..
qed

lemma depth_found_cong:
  "same_projection c c' \<Longrightarrow> depth_found vc c' s = depth_found vc c s"
  by (simp add: depth_found_def sample_projection_cong)

lemma last_valid_cong:
  "same_projection c c' \<Longrightarrow> last_valid vc c' v xs = last_valid vc c v xs"
  by (induction xs arbitrary: v) (simp_all add: sample_projection_cong depth_found_cong)

lemma resolved_cong:
  "same_projection c c' \<Longrightarrow>
   resolved_at_last_valid vc c' track v xs = resolved_at_last_valid vc c track v xs"
  by (induction xs arbitrary: v) (simp_all add: sample_projection_cong depth_found_cong)

lemma same_projection_valid:
  "same_projection c (c\<lparr>prev_location_world_valid := w\<rparr>)"
  by (simp add: same_projection_def)

lemma last_valid_append:
  "last_valid vc c v (xs @ ys) = last_valid vc c (last_valid vc c v xs) ys"
  by (induction xs arbitrary: v) simp_all

lemma fallback_elem_projection:
  "sample_projection vc c (snd (stroke_elem_project_fallback_elem vc c fb s)) =
     sample_projection vc c s"
  by (simp add: sample_projection_def stroke_elem_radius_def)

lemma fallback_elem_found_sample:
  "fst (stroke_elem_project_fallback_elem vc c fb s) =
     depth_found vc c (snd (stroke_elem_project_fallback_elem vc c fb s))"
  unfolding depth_found_def fallback_elem_projection
  by (simp add: fallback_elem_found sample_projection_def)

lemma fallback_elem_world_sample:
  "location_world (snd (stroke_elem_project_fallback_elem vc c fb s)) =
     (case sample_projection vc c (snd (stroke_elem_project_fallback_elem vc c fb s)) of
        Some (loc, no) \<Rightarrow> loc
      | None \<Rightarrow> win_to_3d vc fb (mval (snd (stroke_elem_project_fallback_elem vc c fb s))))"
  apply (unfold fallback_elem_projection fallback_elem_mval)
  apply (unfold sample_projection_def)
  apply (rule fallback_elem_world)
  done

lemma substep_exact:
  "substep vc f prev target n i (c, s, acc) =
     (let x = snd (stroke_elem_project_fallback_elem vc c (prev_location_world_valid c)
                     (stroke_elem_interp vc s prev target (real i / real n)))
      in (if \<not> f \<and> depth_found vc c x
          then c\<lparr>prev_location_world_valid := location_world x\<rparr> else c,
          StrokeElem_calloc, acc @ [x]))"
  using fallback_elem_found_sample [of vc c "prev_location_world_valid c"
      "stroke_elem_interp vc s prev target (real i / real n)"]
  by (simp add: substep_def Let_def case_prod_beta)

lemma substeps_fold_valid:
  "\<exists>s' new.
     fold (substep vc f prev target n) [a..<b] (c, s, acc) =
       (c\<lparr>prev_location_world_valid :=
            (if f then prev_location_world_valid c
             else last_valid vc c (prev_location_world_valid c) new)\<rparr>, s', acc @ new) \<and>
     length new = b - a \<and>
     resolved_at_last_valid vc c (\<not> f) (prev_location_world_valid c) new"
proof (induction "b - a" arbitrary: a c s acc)
  case 0
  then have "[a..<b] = []" by simp
  then have "fold (substep vc f prev target n) [a..<b] (c, s, acc) =
       (c\<lparr>prev_location_world_valid :=
            (if f then prev_location_world_valid c
             else last_valid vc c (prev_location_world_valid c) [])\<rparr>, s, acc @ []) \<and>
     length ([] :: StrokeElem list) = b - a \<and>
     resolved_at_last_valid vc c (\<not> f) (prev_location_world_valid c) []"
    using 0 by simp
  then show ?case by blast
next
  case (Suc d)
  then have ab: "a < b" and d: "d = b - Suc a" by simp_all
  have up: "[a..<b] = a # [Suc a..<b]" using ab by (simp add: upt_conv_Cons)
  define x where "x = snd (stroke_elem_project_fallback_elem vc c (prev_location_world_valid c)
                    (stroke_elem_interp vc s prev target (real a / real n)))"
  define c1 where "c1 = (if \<not> f \<and> depth_found vc c x
          then c\<lparr>prev_location_world_valid := location_world x\<rparr> else c)"
  have st: "substep vc f prev target n a (c, s, acc) = (c1, StrokeElem_calloc, acc @ [x])"
    by (simp add: substep_exact c1_def x_def Let_def)
  have sp: "same_projection c c1"
    by (simp add: c1_def same_projection_def)
  have v1: "prev_location_world_valid c1 =
      (if \<not> f \<and> depth_found vc c x then location_world x
       else prev_location_world_valid c)"
    by (simp add: c1_def)
  have cu: "c1\<lparr>prev_location_world_valid := w\<rparr> = c\<lparr>prev_location_world_valid := w\<rparr>" for w
    by (simp add: c1_def)
  from Suc.hyps(1) [OF d, of c1 StrokeElem_calloc "acc @ [x]"]
  obtain s' new where
    h: "fold (substep vc f prev target n) [Suc a..<b] (c1, StrokeElem_calloc, acc @ [x]) =
        (c1\<lparr>prev_location_world_valid :=
            (if f then prev_location_world_valid c1
             else last_valid vc c1 (prev_location_world_valid c1) new)\<rparr>, s', (acc @ [x]) @ new)"
       "length new = b - Suc a"
       "resolved_at_last_valid vc c1 (\<not> f) (prev_location_world_valid c1) new"
    by blast
  have vv: "(if f then prev_location_world_valid c1
             else last_valid vc c1 (prev_location_world_valid c1) new) =
        (if f then prev_location_world_valid c
             else last_valid vc c (prev_location_world_valid c) (x # new))"
    unfolding last_valid_cong [OF sp] v1 by simp
  have e: "fold (substep vc f prev target n) [a..<b] (c, s, acc) =
       (c\<lparr>prev_location_world_valid :=
            (if f then prev_location_world_valid c
             else last_valid vc c (prev_location_world_valid c) (x # new))\<rparr>, s', acc @ (x # new))"
    using up st h(1) unfolding vv cu by simp
  have l: "length (x # new) = b - a" using h(2) ab by simp
  have xw: "location_world x =
        (case sample_projection vc c x of
           Some (loc, no) \<Rightarrow> loc
         | None \<Rightarrow> win_to_3d vc (prev_location_world_valid c) (mval x))"
    unfolding x_def by (rule fallback_elem_world_sample)
  have xl: "location_local x = world_to_object vc (location_world x)"
    unfolding x_def by (rule fallback_elem_local)
  have r: "resolved_at_last_valid vc c (\<not> f) (prev_location_world_valid c) (x # new)"
    using h(3) xw xl unfolding resolved_cong [OF sp] v1 by simp
  show ?case using e l r by blast
qed

lemma last_valid_snoc:
  "last_valid vc c v (xs @ [t]) =
     (if depth_found vc c t then location_world t else last_valid vc c v xs)"
  by (simp add: last_valid_append)

lemma event_add_valid:
  "\<exists>substeps target.
    target = snd (stroke_elem_project_fallback_elem vc cdd (prev_location_world_valid cdd)
               (StrokeElem_calloc\<lparr>mval := (real_of_int (fst (event_mval ev)), real_of_int (snd (event_mval ev))),
                                  pressure := tablet_pressure ev\<rparr>)) \<and>
    stroke_elem_pool (curve_draw_event_add vc cdd ev) = stroke_elem_pool cdd @ substeps @ [target] \<and>
    resolved_at_last_valid vc cdd (\<not> depth_found vc cdd target)
      (if depth_found vc cdd target then location_world target
       else prev_location_world_valid cdd) substeps \<and>
    prev_location_world_valid (curve_draw_event_add vc cdd ev) =
      last_valid vc cdd (prev_location_world_valid cdd) (substeps @ [target]) \<and>
    same_projection cdd (curve_draw_event_add vc cdd ev)"
proof -
  define selem0 where "selem0 = StrokeElem_calloc\<lparr>mval := (real_of_int (fst (event_mval ev)), real_of_int (snd (event_mval ev))),
                                  pressure := tablet_pressure ev\<rparr>"
  define target where "target = snd (stroke_elem_project_fallback_elem vc cdd (prev_location_world_valid cdd) selem0)"
  have tdef: "target = snd (stroke_elem_project_fallback_elem vc cdd (prev_location_world_valid cdd)
               (StrokeElem_calloc\<lparr>mval := (real_of_int (fst (event_mval ev)), real_of_int (snd (event_mval ev))),
                                  pressure := tablet_pressure ev\<rparr>))"
    by (simp add: target_def selem0_def)
  define r where "r = stroke_elem_project_fallback_elem vc cdd (prev_location_world_valid cdd) selem0"
  have selem: "target = snd r" by (simp add: target_def r_def)
  have found: "fst r = depth_found vc cdd target"
    unfolding r_def target_def by (rule fallback_elem_found_sample)
  define cdd3 where "cdd3 = (if fst r then cdd\<lparr>prev_location_world_valid := location_world target\<rparr> else cdd)
      \<lparr>prev_location_world := location_world target, prev_mval := mval target\<rparr>"
  have sp3: "same_projection cdd cdd3" by (simp add: cdd3_def same_projection_def)
  have v3: "prev_location_world_valid cdd3 =
      (if fst r then location_world target else prev_location_world_valid cdd)"
    by (simp add: cdd3_def)
  have p3: "stroke_elem_pool cdd3 = stroke_elem_pool cdd" by (simp add: cdd3_def)
  show ?thesis
  proof (cases "sample_use_substeps cdd \<and> prev_selem cdd \<noteq> None")
    case False
    have ea: "curve_draw_event_add vc cdd ev =
        cdd3\<lparr>stroke_elem_pool := stroke_elem_pool cdd3 @ [target], prev_selem := Some target\<rparr>"
      using False unfolding curve_draw_event_add_def cdd3_def selem r_def selem0_def
      by (cases "prev_selem cdd") (simp_all add: Let_def case_prod_beta)
    have a: "stroke_elem_pool (curve_draw_event_add vc cdd ev) = stroke_elem_pool cdd @ [] @ [target]"
      by (simp add: ea p3)
    have b: "prev_location_world_valid (curve_draw_event_add vc cdd ev) =
      last_valid vc cdd (prev_location_world_valid cdd) ([] @ [target])"
      by (simp add: ea v3 found)
    have c: "same_projection cdd (curve_draw_event_add vc cdd ev)"
      using sp3 by (simp add: ea same_projection_def)
    have d: "resolved_at_last_valid vc cdd (\<not> depth_found vc cdd target)
      (if depth_found vc cdd target then location_world target
       else prev_location_world_valid cdd) []" by simp
    show ?thesis using tdef a b c d by blast
  next
    case True
    then obtain p where p: "sample_use_substeps cdd" "prev_selem cdd = Some p" by auto
    define len_sq where "len_sq = len_squared_v2v2 (prev_mval cdd) (mval target)"
    define n where "n = nat \<lceil>sqrt len_sq\<rceil> div 3"
    define st where "st = (if len_sq \<ge> 9 then fold (substep vc (fst r) p target n) [1..<n] (cdd3, target, [])
                         else (cdd3, target, []))"
    have ea: "curve_draw_event_add vc cdd ev =
      (fst st)\<lparr>stroke_elem_pool := stroke_elem_pool (fst st) @ snd (snd st) @ [target],
                prev_selem := Some target\<rparr>"
      unfolding curve_draw_event_add_def st_def n_def len_sq_def cdd3_def selem r_def selem0_def
      using p
      by (simp add: Let_def case_prod_beta square_f_def STROKE_SAMPLE_DIST_MAX_PX_def)
    have "\<exists>s' new. st = (cdd3\<lparr>prev_location_world_valid :=
            (if fst r then prev_location_world_valid cdd3
             else last_valid vc cdd3 (prev_location_world_valid cdd3) new)\<rparr>, s', new) \<and>
        resolved_at_last_valid vc cdd3 (\<not> fst r) (prev_location_world_valid cdd3) new"
    proof (cases "9 \<le> len_sq")
      case True
      from substeps_fold_valid [of vc "fst r" p target n 1 n cdd3 target "[]"]
      obtain s' new where
        hh: "fold (substep vc (fst r) p target n) [1..<n] (cdd3, target, []) =
              (cdd3\<lparr>prev_location_world_valid :=
                 (if fst r then prev_location_world_valid cdd3
                  else last_valid vc cdd3 (prev_location_world_valid cdd3) new)\<rparr>, s', [] @ new)"
            "resolved_at_last_valid vc cdd3 (\<not> fst r) (prev_location_world_valid cdd3) new"
        by blast
      have "st = (cdd3\<lparr>prev_location_world_valid :=
            (if fst r then prev_location_world_valid cdd3
             else last_valid vc cdd3 (prev_location_world_valid cdd3) new)\<rparr>, s', new) \<and>
        resolved_at_last_valid vc cdd3 (\<not> fst r) (prev_location_world_valid cdd3) new"
        using True hh by (simp add: st_def)
      then show ?thesis by blast
    next
      case False
      then have "st = (cdd3\<lparr>prev_location_world_valid :=
            (if fst r then prev_location_world_valid cdd3
             else last_valid vc cdd3 (prev_location_world_valid cdd3) [])\<rparr>, target, []) \<and>
        resolved_at_last_valid vc cdd3 (\<not> fst r) (prev_location_world_valid cdd3) []"
        by (simp add: st_def)
      then show ?thesis by blast
    qed
    then obtain s' new where
      h: "st = (cdd3\<lparr>prev_location_world_valid :=
            (if fst r then prev_location_world_valid cdd3
             else last_valid vc cdd3 (prev_location_world_valid cdd3) new)\<rparr>, s', new)"
         "resolved_at_last_valid vc cdd3 (\<not> fst r) (prev_location_world_valid cdd3) new"
      by blast
    have a: "stroke_elem_pool (curve_draw_event_add vc cdd ev) = stroke_elem_pool cdd @ new @ [target]"
      using ea h(1) p3 by simp
    have b: "prev_location_world_valid (curve_draw_event_add vc cdd ev) =
      last_valid vc cdd (prev_location_world_valid cdd) (new @ [target])"
      unfolding last_valid_snoc using ea h(1) v3 found last_valid_cong [OF sp3]
      by simp
    have c: "same_projection cdd (curve_draw_event_add vc cdd ev)"
      using sp3 ea h(1) by (simp add: same_projection_def)
    have d: "resolved_at_last_valid vc cdd (\<not> depth_found vc cdd target)
      (if depth_found vc cdd target then location_world target
       else prev_location_world_valid cdd) new"
      using h(2) unfolding resolved_cong [OF sp3] v3 found .
    show ?thesis using tdef a b c d by blast
  qed
qed


text \<open>
  C7: in depth-buffer mode (no plane) \<open>stroke_elem_project\<close> succeeds only if there is a
  depth buffer, both pixel coordinates read as unsigned are below its width and height
  (so, for a buffer no larger than \<open>2^31\<close>, they are at least 0 and below the width and
  height as the signed integers they are), and the cached depth lies strictly between the
  two bounds of the depth range. Whenever the projection fails,
  \<open>stroke_elem_project_fallback\<close> returns false with the world position
  \<open>ED_view3d_win_to_3d\<close> of the 2D point at the fallback location and the local position
  obtained from it. So the sample that \<open>stroke_elem_project_fallback_elem\<close> returns always
  has a world position, the projected one or the fallback one, and the local position
  obtained from it.

  The fallback location is the last known valid one. \<open>curve_draw_event_add\<close> appends the
  intermediate samples and then the raw sample of the event. The raw sample falls back at
  \<open>prev.location_world_valid\<close> as it stands on entry. When the raw sample found a depth,
  every intermediate sample falls back at the raw sample's world position; otherwise each
  intermediate sample falls back at the world position of the last intermediate sample
  before it that found a depth, and at \<open>prev.location_world_valid\<close> on entry when there
  is none. On return \<open>prev.location_world_valid\<close> is the world position of the last of
  the appended samples that found a depth, and unchanged when none did. Hence, if it was
  the world position of the last sample of the pool that found a depth (\<open>v0\<close> when there
  was none) before the event, it is so again after it.
\<close>

theorem C7_projection_fallback:
  "(\<not> project_use_plane cdd \<and> stroke_elem_project vc cdd mval_i mval_fl so radius \<noteq> None \<longrightarrow>
      (\<exists>d. depths cdd = Some d \<and>
           unat (fst mval_i) < depths_w d \<and> unat (snd mval_i) < depths_h d \<and>
           (int (depths_w d) \<le> 2 ^ 31 \<longrightarrow> 0 \<le> sint (fst mval_i) \<and> sint (fst mval_i) < int (depths_w d)) \<and>
           (int (depths_h d) \<le> 2 ^ 31 \<longrightarrow> 0 \<le> sint (snd mval_i) \<and> sint (snd mval_i) < int (depths_h d)) \<and>
           fst (depth_range d) < depth_read_cached d mval_i \<and>
           depth_read_cached d mval_i < snd (depth_range d))) \<and>
   (stroke_elem_project vc cdd mval_i mval_fl so radius = None \<longrightarrow>
      stroke_elem_project_fallback vc cdd mval_i mval_fl so radius fb nw =
        (False, win_to_3d vc fb mval_fl, world_to_object vc (win_to_3d vc fb mval_fl), nw,
         if \<not> is_zero_v3 nw then normalize_v3 vc (object_to_world_transposed vc nw) else zero_v3)) \<and>
   location_world (snd (stroke_elem_project_fallback_elem vc cdd fb selem)) =
     (case stroke_elem_project vc cdd (int_of_float (fst (mval selem)), int_of_float (snd (mval selem)))
             (mval selem) (project_surface_offset cdd) (stroke_elem_radius vc cdd selem) of
        Some (loc, no) \<Rightarrow> loc
      | None \<Rightarrow> win_to_3d vc fb (mval selem)) \<and>
   location_local (snd (stroke_elem_project_fallback_elem vc cdd fb selem)) =
     world_to_object vc (location_world (snd (stroke_elem_project_fallback_elem vc cdd fb selem))) \<and>
   (\<exists>substeps target.
      target = snd (stroke_elem_project_fallback_elem vc cdd (prev_location_world_valid cdd)
             (StrokeElem_calloc\<lparr>mval := (real_of_int (fst (event_mval ev)), real_of_int (snd (event_mval ev))),
                                pressure := tablet_pressure ev\<rparr>)) \<and>
      stroke_elem_pool (curve_draw_event_add vc cdd ev) = stroke_elem_pool cdd @ substeps @ [target] \<and>
      location_world target =
        (case sample_projection vc cdd target of
           Some (loc, no) \<Rightarrow> loc
         | None \<Rightarrow> win_to_3d vc (prev_location_world_valid cdd) (mval target)) \<and>
      resolved_at_last_valid vc cdd (\<not> depth_found vc cdd target)
        (if depth_found vc cdd target then location_world target
         else prev_location_world_valid cdd) substeps \<and>
      prev_location_world_valid (curve_draw_event_add vc cdd ev) =
        last_valid vc cdd (prev_location_world_valid cdd) (substeps @ [target]) \<and>
      (\<forall>v0. prev_location_world_valid cdd = last_valid vc cdd v0 (stroke_elem_pool cdd) \<longrightarrow>
         prev_location_world_valid (curve_draw_event_add vc cdd ev) =
           last_valid vc (curve_draw_event_add vc cdd ev) v0
             (stroke_elem_pool (curve_draw_event_add vc cdd ev))))"
proof -
  have a: "\<not> project_use_plane cdd \<and> stroke_elem_project vc cdd mval_i mval_fl so radius \<noteq> None \<longrightarrow>
      (\<exists>d. depths cdd = Some d \<and>
           unat (fst mval_i) < depths_w d \<and> unat (snd mval_i) < depths_h d \<and>
           (int (depths_w d) \<le> 2 ^ 31 \<longrightarrow> 0 \<le> sint (fst mval_i) \<and> sint (fst mval_i) < int (depths_w d)) \<and>
           (int (depths_h d) \<le> 2 ^ 31 \<longrightarrow> 0 \<le> sint (snd mval_i) \<and> sint (snd mval_i) < int (depths_h d)) \<and>
           fst (depth_range d) < depth_read_cached d mval_i \<and>
           depth_read_cached d mval_i < snd (depth_range d))"
  proof
    assume h: "\<not> project_use_plane cdd \<and> stroke_elem_project vc cdd mval_i mval_fl so radius \<noteq> None"
    from project_depth_success [of cdd vc mval_i mval_fl so radius] h
    obtain d where d: "depths cdd = Some d" "unat (fst mval_i) < depths_w d"
      "unat (snd mval_i) < depths_h d" "fst (depth_range d) < depth_read_cached d mval_i"
      "depth_read_cached d mval_i < snd (depth_range d)"
      by blast
    have "int (depths_w d) \<le> 2 ^ 31 \<longrightarrow> 0 \<le> sint (fst mval_i) \<and> sint (fst mval_i) < int (depths_w d)"
      using sint_of_small [OF d(2)] by blast
    moreover have "int (depths_h d) \<le> 2 ^ 31 \<longrightarrow> 0 \<le> sint (snd mval_i) \<and> sint (snd mval_i) < int (depths_h d)"
      using sint_of_small [OF d(3)] by blast
    ultimately show "\<exists>d. depths cdd = Some d \<and>
           unat (fst mval_i) < depths_w d \<and> unat (snd mval_i) < depths_h d \<and>
           (int (depths_w d) \<le> 2 ^ 31 \<longrightarrow> 0 \<le> sint (fst mval_i) \<and> sint (fst mval_i) < int (depths_w d)) \<and>
           (int (depths_h d) \<le> 2 ^ 31 \<longrightarrow> 0 \<le> sint (snd mval_i) \<and> sint (snd mval_i) < int (depths_h d)) \<and>
           fst (depth_range d) < depth_read_cached d mval_i \<and>
           depth_read_cached d mval_i < snd (depth_range d)"
      using d by blast
  qed
  have b: "stroke_elem_project vc cdd mval_i mval_fl so radius = None \<longrightarrow>
      stroke_elem_project_fallback vc cdd mval_i mval_fl so radius fb nw =
        (False, win_to_3d vc fb mval_fl, world_to_object vc (win_to_3d vc fb mval_fl), nw,
         if \<not> is_zero_v3 nw then normalize_v3 vc (object_to_world_transposed vc nw) else zero_v3)"
    using fallback_on_failure by blast
  from event_add_valid [of vc cdd ev]
  obtain substeps target where
    h: "target = snd (stroke_elem_project_fallback_elem vc cdd (prev_location_world_valid cdd)
             (StrokeElem_calloc\<lparr>mval := (real_of_int (fst (event_mval ev)), real_of_int (snd (event_mval ev))),
                                pressure := tablet_pressure ev\<rparr>))"
       "stroke_elem_pool (curve_draw_event_add vc cdd ev) = stroke_elem_pool cdd @ substeps @ [target]"
       "resolved_at_last_valid vc cdd (\<not> depth_found vc cdd target)
        (if depth_found vc cdd target then location_world target
         else prev_location_world_valid cdd) substeps"
       "prev_location_world_valid (curve_draw_event_add vc cdd ev) =
        last_valid vc cdd (prev_location_world_valid cdd) (substeps @ [target])"
       "same_projection cdd (curve_draw_event_add vc cdd ev)"
    by blast
  have tw: "location_world target =
        (case sample_projection vc cdd target of
           Some (loc, no) \<Rightarrow> loc
         | None \<Rightarrow> win_to_3d vc (prev_location_world_valid cdd) (mval target))"
    unfolding h(1) by (rule fallback_elem_world_sample)
  have i: "\<forall>v0. prev_location_world_valid cdd = last_valid vc cdd v0 (stroke_elem_pool cdd) \<longrightarrow>
         prev_location_world_valid (curve_draw_event_add vc cdd ev) =
           last_valid vc (curve_draw_event_add vc cdd ev) v0
             (stroke_elem_pool (curve_draw_event_add vc cdd ev))"
  proof (intro allI impI)
    fix v0 assume v: "prev_location_world_valid cdd = last_valid vc cdd v0 (stroke_elem_pool cdd)"
    have "last_valid vc (curve_draw_event_add vc cdd ev) v0
             (stroke_elem_pool (curve_draw_event_add vc cdd ev)) =
          last_valid vc cdd v0 (stroke_elem_pool cdd @ (substeps @ [target]))"
      unfolding last_valid_cong [OF h(5)] h(2) ..
    also have "\<dots> = last_valid vc cdd (prev_location_world_valid cdd) (substeps @ [target])"
      unfolding last_valid_append [of vc cdd v0 "stroke_elem_pool cdd"] v ..
    finally show "prev_location_world_valid (curve_draw_event_add vc cdd ev) =
           last_valid vc (curve_draw_event_add vc cdd ev) v0
             (stroke_elem_pool (curve_draw_event_add vc cdd ev))"
      using h(4) by simp
  qed
  have e: "\<exists>substeps target.
      target = snd (stroke_elem_project_fallback_elem vc cdd (prev_location_world_valid cdd)
             (StrokeElem_calloc\<lparr>mval := (real_of_int (fst (event_mval ev)), real_of_int (snd (event_mval ev))),
                                pressure := tablet_pressure ev\<rparr>)) \<and>
      stroke_elem_pool (curve_draw_event_add vc cdd ev) = stroke_elem_pool cdd @ substeps @ [target] \<and>
      location_world target =
        (case sample_projection vc cdd target of
           Some (loc, no) \<Rightarrow> loc
         | None \<Rightarrow> win_to_3d vc (prev_location_world_valid cdd) (mval target)) \<and>
      resolved_at_last_valid vc cdd (\<not> depth_found vc cdd target)
        (if depth_found vc cdd target then location_world target
         else prev_location_world_valid cdd) substeps \<and>
      prev_location_world_valid (curve_draw_event_add vc cdd ev) =
        last_valid vc cdd (prev_location_world_valid cdd) (substeps @ [target]) \<and>
      (\<forall>v0. prev_location_world_valid cdd = last_valid vc cdd v0 (stroke_elem_pool cdd) \<longrightarrow>
         prev_location_world_valid (curve_draw_event_add vc cdd ev) =
           last_valid vc (curve_draw_event_add vc cdd ev) v0
             (stroke_elem_pool (curve_draw_event_add vc cdd ev)))"
    using h(1,2,3,4) tw i by blast
  show ?thesis
    using a b fallback_elem_world [of vc cdd fb selem] fallback_elem_local [of vc cdd fb selem] e
    by blast
qed

lemma ex_project_hit:
  "stroke_elem_project ex_vc ex_cdd_sub (2, 3) (2, 3) 0 1 = Some ((2, 3, 1 / 2), zero_v3)"
  by (simp add: stroke_elem_project_def ex_cdd_sub_def ex_cdd_def CurveDrawData_calloc_def
      ex_depths_def ex_vc_def Let_def)

lemma ex_project_miss:
  "stroke_elem_project ex_vc ex_cdd_sub (5, 3) (5, 3) 0 1 = None"
  by (simp add: stroke_elem_project_def ex_cdd_sub_def ex_cdd_def CurveDrawData_calloc_def
      ex_depths_def ex_vc_def Let_def)

lemma ex_sub_depths:
  "\<not> project_use_plane ex_cdd_sub" "depths ex_cdd_sub = Some ex_depths"
  "int (depths_w ex_depths) \<le> 2 ^ 31" "int (depths_h ex_depths) \<le> 2 ^ 31"
  by (simp_all add: ex_cdd_sub_def ex_cdd_def CurveDrawData_calloc_def ex_depths_def)

lemma ceiling_sqrt80: "\<lceil>sqrt 80\<rceil> = 9"
proof (rule ceiling_unique)
  have "(8::real) < sqrt 80" by (rule real_less_rsqrt) simp
  then show "real_of_int 9 - 1 < sqrt 80" by simp
  have "sqrt 80 \<le> (9::real)" by (rule real_le_lsqrt) simp_all
  then show "sqrt 80 \<le> real_of_int 9" by simp
qed

lemma ex_project_sub:
  "stroke_elem_project ex_vc ex_cdd_sub (2, 2) (8 / 3, 8 / 3) 0 r = Some ((2, 2, 1 / 2), zero_v3)"
  "stroke_elem_project ex_vc ex_cdd_sub (1, 5) (4 / 3, 16 / 3) 0 r = None"
  "stroke_elem_project ex_vc ex_cdd_sub (0, 8) (0, 8) 0 r = None"
  by (simp_all add: stroke_elem_project_def ex_cdd_sub_def ex_cdd_def CurveDrawData_calloc_def
      ex_depths_def ex_vc_def Let_def)

lemma ex_int_of_float:
  "int_of_float (8 / 3) = 2" "int_of_float (4 / 3) = 1" "int_of_float (16 / 3) = 5"
  "int_of_float 0 = 0" "int_of_float 8 = 8"
  by (simp_all add: int_of_float_def)

lemma ex_sub_more:
  "project_surface_offset ex_cdd_sub = 0" "prev_location_world_valid ex_cdd_sub = (4, 0, 0)"
  "stroke_elem_pool ex_cdd_sub = [ex_selem1, ex_selem2]"
  by (simp_all add: ex_cdd_sub_def ex_cdd_def CurveDrawData_calloc_def)

theorem C7_witness:
  "(stroke_elem_project ex_vc ex_cdd_sub (2, 3) (2, 3) 0 1 = Some ((2, 3, 1 / 2), zero_v3) \<and>
   0 \<le> sint (2 :: 32 word) \<and> sint (2 :: 32 word) < int (depths_w ex_depths) \<and>
   0 \<le> sint (3 :: 32 word) \<and> sint (3 :: 32 word) < int (depths_h ex_depths) \<and>
   fst (depth_range ex_depths) < depth_read_cached ex_depths (2, 3) \<and>
   depth_read_cached ex_depths (2, 3) < snd (depth_range ex_depths) \<and>
   stroke_elem_project ex_vc ex_cdd_sub (5, 3) (5, 3) 0 1 = None \<and>
   stroke_elem_project_fallback ex_vc ex_cdd_sub (5, 3) (5, 3) 0 1 (4, 0, 7) zero_v3 =
     (False, (5, 3, 7), (5 / 2, 3 / 2, 7 / 2), zero_v3, zero_v3)) \<and>
   prev_location_world_valid (curve_draw_event_add ex_vc ex_cdd_sub ex_event_up) = (2, 2, 1 / 2) \<and>
   map location_world (drop 2 (stroke_elem_pool (curve_draw_event_add ex_vc ex_cdd_sub ex_event_up))) =
     [(2, 2, 1 / 2), (4 / 3, 16 / 3, 1 / 2), (0, 8, 0)]"
proof -
  have depth: "stroke_elem_project ex_vc ex_cdd_sub (2, 3) (2, 3) 0 1 = Some ((2, 3, 1 / 2), zero_v3) \<and>
   0 \<le> sint (2 :: 32 word) \<and> sint (2 :: 32 word) < int (depths_w ex_depths) \<and>
   0 \<le> sint (3 :: 32 word) \<and> sint (3 :: 32 word) < int (depths_h ex_depths) \<and>
   fst (depth_range ex_depths) < depth_read_cached ex_depths (2, 3) \<and>
   depth_read_cached ex_depths (2, 3) < snd (depth_range ex_depths) \<and>
   stroke_elem_project ex_vc ex_cdd_sub (5, 3) (5, 3) 0 1 = None \<and>
   stroke_elem_project_fallback ex_vc ex_cdd_sub (5, 3) (5, 3) 0 1 (4, 0, 7) zero_v3 =
     (False, (5, 3, 7), (5 / 2, 3 / 2, 7 / 2), zero_v3, zero_v3)"
  proof -
    note t1 = C7_projection_fallback [where cdd = ex_cdd_sub and vc = ex_vc and mval_i = "(2, 3)"
        and mval_fl = "(2, 3)" and so = 0 and radius = 1, THEN conjunct1]
    have "\<not> project_use_plane ex_cdd_sub \<and>
          stroke_elem_project ex_vc ex_cdd_sub (2, 3) (2, 3) 0 1 \<noteq> None"
      using ex_sub_depths(1) ex_project_hit by simp
    with t1 obtain d where
      d: "depths ex_cdd_sub = Some d"
         "int (depths_w d) \<le> 2 ^ 31 \<longrightarrow> 0 \<le> sint (fst (2 :: 32 word, 3 :: 32 word)) \<and>
             sint (fst (2 :: 32 word, 3 :: 32 word)) < int (depths_w d)"
         "int (depths_h d) \<le> 2 ^ 31 \<longrightarrow> 0 \<le> sint (snd (2 :: 32 word, 3 :: 32 word)) \<and>
             sint (snd (2 :: 32 word, 3 :: 32 word)) < int (depths_h d)"
         "fst (depth_range d) < depth_read_cached d (2, 3)"
         "depth_read_cached d (2, 3) < snd (depth_range d)"
      by blast
    have de: "d = ex_depths" using d(1) ex_sub_depths(2) by simp
    have a: "0 \<le> sint (2 :: 32 word) \<and> sint (2 :: 32 word) < int (depths_w ex_depths)"
      using d(2) ex_sub_depths(3) unfolding de fst_conv by blast
    have b: "0 \<le> sint (3 :: 32 word) \<and> sint (3 :: 32 word) < int (depths_h ex_depths)"
      using d(3) ex_sub_depths(4) unfolding de snd_conv by blast
    note t2 = C7_projection_fallback [where cdd = ex_cdd_sub and vc = ex_vc and mval_i = "(5, 3)"
        and mval_fl = "(5, 3)" and so = 0 and radius = 1 and fb = "(4, 0, 7)" and nw = zero_v3,
        THEN conjunct2, THEN conjunct1, rule_format, OF ex_project_miss]
    have c: "stroke_elem_project_fallback ex_vc ex_cdd_sub (5, 3) (5, 3) 0 1 (4, 0, 7) zero_v3 =
       (False, (5, 3, 7), (5 / 2, 3 / 2, 7 / 2), zero_v3, zero_v3)"
      unfolding t2 by (simp add: ex_vc_def zero_v3_def is_zero_v3_def)
    show ?thesis
      using ex_project_hit a b d(4,5) ex_project_miss c unfolding de by blast
  qed
  have event: "prev_location_world_valid (curve_draw_event_add ex_vc ex_cdd_sub ex_event_up) = (2, 2, 1 / 2) \<and>
     map location_world (drop 2 (stroke_elem_pool (curve_draw_event_add ex_vc ex_cdd_sub ex_event_up))) =
       [(2, 2, 1 / 2), (4 / 3, 16 / 3, 1 / 2), (0, 8, 0)]"
  proof -
    note t5 = C7_projection_fallback [where cdd = ex_cdd_sub and vc = ex_vc and ev = ex_event_up,
        THEN conjunct2, THEN conjunct2, THEN conjunct2, THEN conjunct2]
    from t5 obtain substeps target where
      h: "target = snd (stroke_elem_project_fallback_elem ex_vc ex_cdd_sub (prev_location_world_valid ex_cdd_sub)
               (StrokeElem_calloc\<lparr>mval := (real_of_int (fst (event_mval ex_event_up)),
                                           real_of_int (snd (event_mval ex_event_up))),
                                  pressure := tablet_pressure ex_event_up\<rparr>))"
         "stroke_elem_pool (curve_draw_event_add ex_vc ex_cdd_sub ex_event_up) =
            stroke_elem_pool ex_cdd_sub @ substeps @ [target]"
         "resolved_at_last_valid ex_vc ex_cdd_sub (\<not> depth_found ex_vc ex_cdd_sub target)
          (if depth_found ex_vc ex_cdd_sub target then location_world target
           else prev_location_world_valid ex_cdd_sub) substeps"
         "prev_location_world_valid (curve_draw_event_add ex_vc ex_cdd_sub ex_event_up) =
          last_valid ex_vc ex_cdd_sub (prev_location_world_valid ex_cdd_sub) (substeps @ [target])"
         "location_world target =
          (case sample_projection ex_vc ex_cdd_sub target of
             Some (loc, no) \<Rightarrow> loc
           | None \<Rightarrow> win_to_3d ex_vc (prev_location_world_valid ex_cdd_sub) (mval target))"
      by blast
    from event_add_substeps [OF ex_sub_facts(1,2), of ex_vc ex_event_up]
    obtain substeps2 target2 where
      g: "stroke_elem_pool (curve_draw_event_add ex_vc ex_cdd_sub ex_event_up) =
            stroke_elem_pool ex_cdd_sub @ substeps2 @ [target2]"
         "length substeps2 =
           (if 9 \<le> len_squared_v2v2 (prev_mval ex_cdd_sub) (mval target2)
            then nat \<lceil>sqrt (len_squared_v2v2 (prev_mval ex_cdd_sub) (mval target2))\<rceil> div 3 - 1 else 0)"
         "\<forall>k < length substeps2.
            is_substep ex_vc ex_selem2 target2
              (real (1 + k) / real (nat \<lceil>sqrt (len_squared_v2v2 (prev_mval ex_cdd_sub) (mval target2))\<rceil> div 3))
              (substeps2 ! k)"
      by blast
    have same: "substeps2 = substeps" "target2 = target" using h(2) g(1) by simp_all
    have m: "mval target = (0, 8)" using h(1) by (simp add: ex_event_up_def)
    have d: "len_squared_v2v2 (prev_mval ex_cdd_sub) (mval target) = 80"
      using m by (simp add: ex_sub_facts len_squared_v2v2_def)
    have l: "length substeps = 2" using g(2) d unfolding same by (simp add: ceiling_sqrt80)
    have m0: "mval (substeps ! 0) = (8 / 3, 8 / 3)"
      using is_substep_mval [OF g(3) [rule_format, of 0]] l d m unfolding same
      by (simp add: ceiling_sqrt80 interp_v2_v2v2_def ex_sub_facts)
    have m1: "mval (substeps ! Suc 0) = (4 / 3, 16 / 3)"
      using is_substep_mval [OF g(3) [rule_format, of "Suc 0"]] l d m unfolding same
      by (simp add: ceiling_sqrt80 interp_v2_v2v2_def ex_sub_facts)
    have p0: "sample_projection ex_vc ex_cdd_sub (substeps ! 0) = Some ((2, 2, 1 / 2), zero_v3)"
      by (simp add: sample_projection_def m0 ex_int_of_float ex_sub_more ex_project_sub)
    have p1: "sample_projection ex_vc ex_cdd_sub (substeps ! Suc 0) = None"
      by (simp add: sample_projection_def m1 ex_int_of_float ex_sub_more ex_project_sub)
    have pt: "sample_projection ex_vc ex_cdd_sub target = None"
      by (simp add: sample_projection_def m ex_int_of_float ex_sub_more ex_project_sub)
    have f: "depth_found ex_vc ex_cdd_sub (substeps ! 0)" "\<not> depth_found ex_vc ex_cdd_sub (substeps ! Suc 0)"
        "\<not> depth_found ex_vc ex_cdd_sub target"
      by (simp_all add: depth_found_def p0 p1 pt)
    have sl: "substeps = [substeps ! 0, substeps ! Suc 0]"
      using l by (auto simp add: list_eq_iff_nth_eq less_Suc_eq numeral_2_eq_2)
    have r: "resolved_at_last_valid ex_vc ex_cdd_sub True (4, 0, 0) [substeps ! 0, substeps ! Suc 0]"
      using h(3) f(3) sl by (simp add: ex_sub_more)
    have w0: "location_world (substeps ! 0) = (2, 2, 1 / 2)"
      using r by (simp add: p0)
    have w1a: "location_world (substeps ! Suc 0) =
        win_to_3d ex_vc (2, 2, 1 / 2) (mval (substeps ! Suc 0))"
      using r w0 by (simp add: p0 p1 f)
    have w1: "location_world (substeps ! Suc 0) = (4 / 3, 16 / 3, 1 / 2)"
      unfolding w1a m1 by (simp add: ex_vc_def)
    have wt: "location_world target = (0, 8, 0)"
      unfolding h(5) pt m by (simp add: ex_sub_more ex_vc_def)
    have v: "prev_location_world_valid (curve_draw_event_add ex_vc ex_cdd_sub ex_event_up) = (2, 2, 1 / 2)"
      unfolding h(4) by (subst sl) (simp add: f w0 ex_sub_more)
    have pl: "map location_world (drop 2 (stroke_elem_pool (curve_draw_event_add ex_vc ex_cdd_sub ex_event_up))) =
       [(2, 2, 1 / 2), (4 / 3, 16 / 3, 1 / 2), (0, 8, 0)]"
      unfolding h(2) by (subst sl) (simp add: ex_sub_more w0 w1 wt)
    show ?thesis using v pl by simp
  qed
  show ?thesis using depth event by blast
qed


section \<open>World and local positions\<close>

lemma pressure_set_pressure [simp]:
  "pressure (stroke_elem_pressure_set vc cdd s p) = p"
  by (simp add: stroke_elem_pressure_set_def Let_def)

lemma pressure_set_consistent:
  "world_local_consistent vc s \<Longrightarrow> world_local_consistent vc (stroke_elem_pressure_set vc cdd s p)"
  by (simp add: stroke_elem_pressure_set_def Let_def world_local_consistent_def)

lemma fallback_elem_consistent:
  assumes "\<forall>w. object_to_world vc (world_to_object vc w) = w"
  shows "world_local_consistent vc (snd (stroke_elem_project_fallback_elem vc cdd fb s))"
  unfolding world_local_consistent_def fallback_elem_local [of vc cdd fb s]
  by (rule assms [rule_format, symmetric])

lemma from_operator_consistent:
  assumes "\<forall>w. object_to_world vc (world_to_object vc w) = w"
  shows "world_local_consistent vc (curve_draw_stroke_from_operator_elem vc item)"
proof -
  have "ose_location item = object_to_world vc (world_to_object vc (ose_location item))"
    by (rule assms [rule_format, symmetric])
  then show ?thesis
    by (simp add: world_local_consistent_def curve_draw_stroke_from_operator_elem_def)
qed

lemma event_add_consistent:
  assumes "\<forall>w. object_to_world vc (world_to_object vc w) = w"
    and "\<forall>s \<in> set (stroke_elem_pool cdd). world_local_consistent vc s"
  shows "\<forall>s \<in> set (stroke_elem_pool (curve_draw_event_add vc cdd ev)). world_local_consistent vc s"
proof -
  from event_add_pool [of vc cdd ev]
  obtain substeps where
    h: "stroke_elem_pool (curve_draw_event_add vc cdd ev) =
       stroke_elem_pool cdd @ substeps @
         [snd (stroke_elem_project_fallback_elem vc cdd (prev_location_world_valid cdd)
               (StrokeElem_calloc\<lparr>mval := (real_of_int (fst (event_mval ev)), real_of_int (snd (event_mval ev))),
                                  pressure := tablet_pressure ev\<rparr>))]"
     "\<forall>x \<in> set substeps. \<exists>c fb s. x = snd (stroke_elem_project_fallback_elem vc c fb s)"
    by blast
  have "\<forall>x \<in> set substeps. world_local_consistent vc x"
  proof
    fix x assume "x \<in> set substeps"
    with h(2) obtain c fb s where "x = snd (stroke_elem_project_fallback_elem vc c fb s)" by blast
    then show "world_local_consistent vc x"
      using fallback_elem_consistent [OF assms(1), of c fb s] by simp
  qed
  then show ?thesis
    unfolding h(1) using assms(2) fallback_elem_consistent [OF assms(1)] by auto
qed

lemma taper_start_loop_set:
  "\<forall>x \<in> set (map snd zs). P x \<Longrightarrow> (\<And>s p. P s \<Longrightarrow> P (stroke_elem_pressure_set vc cdd s p)) \<Longrightarrow>
   \<forall>x \<in> set (taper_start_loop vc cdd m zs). P x"
  by (induction zs) (auto simp add: Let_def split: if_splits)

lemma taper_end_loop_set:
  "\<forall>x \<in> set (map snd zs). P x \<Longrightarrow> (\<And>s p. P s \<Longrightarrow> P (stroke_elem_pressure_set vc cdd s p)) \<Longrightarrow>
   \<forall>x \<in> set (taper_end_loop vc cdd l mx mn zs). P x"
  by (induction zs) (auto simp add: Let_def split: if_splits)

lemma taper_start_loop_length [simp]:
  "length (taper_start_loop vc cdd m zs) = length zs"
  by (induction zs) (auto simp add: Let_def)

lemma taper_end_loop_length [simp]:
  "length (taper_end_loop vc cdd l mx mn zs) = length zs"
  by (induction zs) (auto simp add: Let_def)

lemma stroke_lengths_length [simp]:
  "length (stroke_lengths l p pool) = length pool"
  by (induction pool arbitrary: l p) (auto simp add: Let_def)

lemma precalc_taper_consistent:
  assumes "\<forall>s \<in> set (stroke_elem_pool cdd). world_local_consistent vc s"
    and "curve_draw_exec_precalc_taper vc cps cdd = Some cdd'"
  shows "\<forall>s \<in> set (stroke_elem_pool cdd'). world_local_consistent vc s"
proof (cases "cps_radius_taper_start cps \<noteq> 0 \<or> cps_radius_taper_end cps \<noteq> 0")
  case False
  then have "cdd' = cdd" using assms(2) by (simp add: curve_draw_exec_precalc_taper_def)
  then show ?thesis using assms(1) by simp
next
  case True
  then obtain a rest where pool: "stroke_elem_pool cdd = a # rest"
    using assms(2) by (cases "stroke_elem_pool cdd") (simp_all add: curve_draw_exec_precalc_taper_def)
  define lengths where "lengths = 0 # stroke_lengths 0 a rest"
  define len_3d where "len_3d = last lengths"
  define pool1 where "pool1 =
     (if cps_radius_taper_start cps \<noteq> 0 then
        taper_start_loop vc cdd (cps_radius_taper_start cps * len_3d) (zip lengths (stroke_elem_pool cdd))
      else stroke_elem_pool cdd)"
  define pool2 where "pool2 =
     (if cps_radius_taper_end cps \<noteq> 0 then
        hd pool1 # rev (taper_end_loop vc cdd len_3d (cps_radius_taper_end cps * len_3d)
           (len_3d - cps_radius_taper_end cps * len_3d) (rev (tl (zip lengths pool1))))
      else pool1)"
  have c': "cdd' = cdd\<lparr>stroke_elem_pool := pool2\<rparr>"
    using assms(2) True pool
    by (simp add: curve_draw_exec_precalc_taper_def Let_def pool2_def pool1_def len_3d_def lengths_def
        cong: if_cong)
  have ps: "\<And>s p. world_local_consistent vc s \<Longrightarrow>
      world_local_consistent vc (stroke_elem_pressure_set vc cdd s p)"
    by (rule pressure_set_consistent)
  have z0: "\<forall>x \<in> set (map snd (zip lengths (stroke_elem_pool cdd))). world_local_consistent vc x"
    using assms(1) by (auto dest: set_zip_rightD)
  have p1: "\<forall>x \<in> set pool1. world_local_consistent vc x"
    unfolding pool1_def using taper_start_loop_set [OF z0 ps] assms(1) by simp
  have l1: "length pool1 = length (stroke_elem_pool cdd)"
    unfolding pool1_def by (simp add: lengths_def pool)
  then have ne: "pool1 \<noteq> []" using pool by auto
  have z1: "\<forall>x \<in> set (map snd (rev (tl (zip lengths pool1)))). world_local_consistent vc x"
  proof
    fix x assume "x \<in> set (map snd (rev (tl (zip lengths pool1))))"
    then obtain l where "(l, x) \<in> set (tl (zip lengths pool1))" by auto
    then have "(l, x) \<in> set (zip lengths pool1)"
      by (cases "zip lengths pool1") simp_all
    then have "x \<in> set pool1" by (rule set_zip_rightD)
    then show "world_local_consistent vc x" using p1 by blast
  qed
  have p2: "\<forall>x \<in> set pool2. world_local_consistent vc x"
    unfolding pool2_def using taper_end_loop_set [OF z1 ps] p1 ne by (auto simp add: hd_in_set)
  show ?thesis using c' p2 by simp
qed

text \<open>
  C8: when \<open>world_to_object\<close> inverts \<open>object_to_world\<close> (the object matrix is
  invertible), the sample that the projection with fallback returns and the sample loaded
  from an operator stroke element are consistent (world position = object-to-world of the
  local position); \<open>stroke_elem_pressure_set\<close> keeps a consistent sample consistent; and
  if every sample of the pool is consistent, so is every sample of the pool after
  \<open>curve_draw_event_add\<close> and after the taper block of \<open>curve_draw_exec_precalc\<close>.
\<close>

theorem C8_world_local_consistency:
  assumes "\<forall>w. object_to_world vc (world_to_object vc w) = w"
  shows "world_local_consistent vc (snd (stroke_elem_project_fallback_elem vc cdd fb selem)) \<and>
    world_local_consistent vc (curve_draw_stroke_from_operator_elem vc item) \<and>
    (world_local_consistent vc selem \<longrightarrow>
       world_local_consistent vc (stroke_elem_pressure_set vc cdd selem p)) \<and>
    ((\<forall>s \<in> set (stroke_elem_pool cdd). world_local_consistent vc s) \<longrightarrow>
       (\<forall>s \<in> set (stroke_elem_pool (curve_draw_event_add vc cdd ev)). world_local_consistent vc s)) \<and>
    ((\<forall>s \<in> set (stroke_elem_pool cdd). world_local_consistent vc s) \<longrightarrow>
       (\<forall>cdd'. curve_draw_exec_precalc_taper vc cps cdd = Some cdd' \<longrightarrow>
          (\<forall>s \<in> set (stroke_elem_pool cdd'). world_local_consistent vc s)))"
  using fallback_elem_consistent [OF assms] from_operator_consistent [OF assms]
    pressure_set_consistent event_add_consistent [OF assms] precalc_taper_consistent
  by blast

lemma ex_vc_inverse: "\<forall>w. object_to_world ex_vc (world_to_object ex_vc w) = w"
  by (simp add: ex_vc_def)

lemma ex_selem3_consistent: "world_local_consistent ex_vc ex_selem3"
  by (simp add: world_local_consistent_def ex_vc_def ex_selem3_def)

theorem C8_witness:
  "world_local_consistent ex_vc
     (snd (stroke_elem_project_fallback_elem ex_vc ex_cdd_sub (4, 0, 0) ex_selem2)) \<and>
   world_local_consistent ex_vc ex_selem3 \<and>
   world_local_consistent ex_vc (stroke_elem_pressure_set ex_vc ex_cdd_offset ex_selem3 (1 / 2)) \<and>
   location_local (stroke_elem_pressure_set ex_vc ex_cdd_offset ex_selem3 (1 / 2)) = (1, 0, - 1) \<and>
   location_world (stroke_elem_pressure_set ex_vc ex_cdd_offset ex_selem3 (1 / 2)) = (2, 0, - 2)"
proof -
  note t = C8_world_local_consistency [OF ex_vc_inverse, where cdd = ex_cdd_sub and fb = "(4, 0, 0)"
      and selem = ex_selem2]
  note a = t [THEN conjunct1]
  note t' = C8_world_local_consistency [OF ex_vc_inverse, where cdd = ex_cdd_offset
      and selem = ex_selem3 and p = "1 / 2"]
  note b = t' [THEN conjunct2, THEN conjunct2, THEN conjunct1, rule_format, OF ex_selem3_consistent]
  have c: "location_local (stroke_elem_pressure_set ex_vc ex_cdd_offset ex_selem3 (1 / 2)) = (1, 0, - 1)"
    by (simp add: stroke_elem_pressure_set_def ex_cdd_offset_def ex_cdd_sub_def ex_cdd_def
        CurveDrawData_calloc_def ex_selem3_def is_zero_v3_def Let_def madd_v3_v3fl_def
        stroke_elem_radius_from_pressure_def ex_vc_def)
  have d: "location_world (stroke_elem_pressure_set ex_vc ex_cdd_offset ex_selem3 (1 / 2)) = (2, 0, - 2)"
    by (simp add: stroke_elem_pressure_set_def ex_cdd_offset_def ex_cdd_sub_def ex_cdd_def
        CurveDrawData_calloc_def ex_selem3_def is_zero_v3_def Let_def madd_v3_v3fl_def
        stroke_elem_radius_from_pressure_def ex_vc_def)
  show ?thesis using a ex_selem3_consistent b c d by blast
qed


section \<open>Taper\<close>

lemma len_v3v3_nonneg: "0 \<le> len_v3v3 a b"
  by (simp add: len_v3v3_def split: prod.splits)

lemma stroke_lengths_sorted: "sorted (l # stroke_lengths l p pool)"
proof (induction pool arbitrary: l p)
  case Nil
  then show ?case by simp
next
  case (Cons q rest)
  let ?l' = "l + len_v3v3 (location_local q) (location_local p)"
  have le: "l \<le> ?l'"
    using len_v3v3_nonneg [of "location_local q" "location_local p"] by simp
  have "sorted (?l' # stroke_lengths ?l' q rest)" by (rule Cons)
  then have "sorted (l # ?l' # stroke_lengths ?l' q rest)"
    using le by (simp only: sorted2 simp_thms)
  then show ?case by (simp add: Let_def)
qed

lemma arc_length_Cons:
  "arc_length (p # q # rest) (Suc j) =
     len_v3v3 (location_local q) (location_local p) + arc_length (q # rest) j"
  unfolding arc_length_def by (subst sum.lessThan_Suc_shift) simp

lemma stroke_lengths_nth:
  "i \<le> length pool \<Longrightarrow> (l # stroke_lengths l p pool) ! i = l + arc_length (p # pool) i"
proof (induction pool arbitrary: l p i)
  case Nil
  then show ?case by (simp add: arc_length_def)
next
  case (Cons q rest)
  show ?case
  proof (cases i)
    case 0
    then show ?thesis by (simp add: arc_length_def)
  next
    case (Suc j)
    then have j: "j \<le> length rest" using Cons.prems by simp
    show ?thesis
      using Cons.IH [OF j, of "l + len_v3v3 (location_local q) (location_local p)" q] Suc
      by (simp add: Let_def arc_length_Cons)
  qed
qed

text \<open>What the two taper loops do to one sample.\<close>

lemma taper_start_loop_map:
  "sorted (map fst zs) \<Longrightarrow>
   taper_start_loop vc cdd m zs =
     map (\<lambda>z. if fst z < m
               then stroke_elem_pressure_set vc cdd (snd z) (pressure (snd z) * (fst z / m))
               else snd z) zs"
proof (induction zs)
  case Nil
  then show ?case by simp
next
  case (Cons z rest)
  obtain l s where z: "z = (l, s)" by (cases z)
  have sr: "sorted (map fst rest)" using Cons.prems by simp
  show ?case
  proof (cases "l < m")
    case True
    then show ?thesis using Cons.IH [OF sr] z by (simp add: Let_def)
  next
    case False
    have "\<forall>y \<in> set rest. \<not> fst y < m"
      using Cons.prems False z by auto
    then have "map snd rest =
       map (\<lambda>z. if fst z < m
               then stroke_elem_pressure_set vc cdd (snd z) (pressure (snd z) * (fst z / m))
               else snd z) rest"
      by simp
    then show ?thesis using False z by simp
  qed
qed

lemma taper_end_loop_map:
  "sorted (map fst zs) \<Longrightarrow>
   rev (taper_end_loop vc cdd len_3d mx mn (rev zs)) =
     map (\<lambda>z. if fst z > mn
               then stroke_elem_pressure_set vc cdd (snd z) (pressure (snd z) * ((len_3d - fst z) / mx))
               else snd z) zs"
proof (induction zs rule: rev_induct)
  case Nil
  then show ?case by simp
next
  case (snoc z rest)
  obtain l s where z: "z = (l, s)" by (cases z)
  have sr: "sorted (map fst rest)" using snoc.prems by (simp add: sorted_append)
  show ?case
  proof (cases "l > mn")
    case True
    then show ?thesis using snoc.IH [OF sr] z by (simp add: Let_def)
  next
    case False
    have "\<forall>y \<in> set rest. \<not> fst y > mn"
      using snoc.prems False z by (auto simp add: sorted_append)
    then have "map snd rest =
       map (\<lambda>z. if fst z > mn
               then stroke_elem_pressure_set vc cdd (snd z) (pressure (snd z) * ((len_3d - fst z) / mx))
               else snd z) rest"
      by simp
    then show ?thesis using False z by (simp add: rev_map)
  qed
qed

lemma arc_length_nonneg: "0 \<le> arc_length pool i"
  unfolding arc_length_def by (rule sum_nonneg) (simp add: len_v3v3_nonneg)

text \<open>
  C5: for a non-empty stroke and a taper-end fraction \<open>e \<le> 1\<close>, with \<open>L i\<close> the
  cumulative arc length \<open>arc_length pool i\<close> of the samples as they are before the block
  and \<open>len_total\<close> that of the last sample, the taper block succeeds, keeps the number of
  samples, and leaves sample \<open>i\<close> with its pressure multiplied by
  \<open>L i / (s * len_total)\<close> if \<open>s \<noteq> 0\<close> and \<open>L i < s * len_total\<close>, and by
  \<open>(len_total - L i) / (e * len_total)\<close> if \<open>e \<noteq> 0\<close> and
  \<open>L i > len_total - e * len_total\<close>; a sample in neither zone keeps its pressure.
\<close>

theorem C5_taper:
  assumes "stroke_elem_pool cdd = pool" and "pool \<noteq> []"
    and "s = cps_radius_taper_start cps" and "e = cps_radius_taper_end cps" and "e \<le> 1"
    and "len_total = arc_length pool (length pool - 1)"
  shows "\<exists>cdd'. curve_draw_exec_precalc_taper vc cps cdd = Some cdd' \<and>
     length (stroke_elem_pool cdd') = length pool \<and>
     (\<forall>i < length pool.
        pressure (stroke_elem_pool cdd' ! i) =
          pressure (pool ! i) *
          (if s \<noteq> 0 \<and> arc_length pool i < s * len_total then arc_length pool i / (s * len_total) else 1) *
          (if e \<noteq> 0 \<and> arc_length pool i > len_total - e * len_total
           then (len_total - arc_length pool i) / (e * len_total) else 1))"
proof -
  obtain a rest where pool: "pool = a # rest" using assms(2) by (cases pool) simp_all
  define lengths where "lengths = 0 # stroke_lengths 0 a rest"
  define fS where "fS = (\<lambda>z. if fst z < s * len_total
               then stroke_elem_pressure_set vc cdd (snd z) (pressure (snd z) * (fst z / (s * len_total)))
               else snd z)"
  define fE where "fE = (\<lambda>z. if fst z > len_total - e * len_total
               then stroke_elem_pressure_set vc cdd (snd z) (pressure (snd z) * ((len_total - fst z) / (e * len_total)))
               else snd z)"
  define pool1 where "pool1 = (if s \<noteq> 0 then map fS (zip lengths pool) else pool)"
  define pool2 where "pool2 = (if e \<noteq> 0 then hd pool1 # map fE (tl (zip lengths pool1)) else pool1)"
  have ll: "length lengths = length pool" by (simp add: lengths_def pool)
  have ln: "\<And>i. i < length pool \<Longrightarrow> lengths ! i = arc_length pool i"
    using stroke_lengths_nth [of _ rest 0 a] by (simp add: lengths_def pool)
  have srt: "sorted lengths" unfolding lengths_def by (rule stroke_lengths_sorted)
  have "last lengths = lengths ! (length pool - 1)"
    using ll assms(2) by (metis last_conv_nth length_0_conv)
  then have tot: "last lengths = len_total" using ln [of "length pool - 1"] assms(2,6) by simp
  have tot_nonneg: "0 \<le> len_total" unfolding assms(6) by (rule arc_length_nonneg)
  have mf: "map fst (zip lengths pool) = lengths" using ll by (simp add: map_fst_zip)
  have l1: "length pool1 = length pool" by (simp add: pool1_def ll)
  have mf1: "map fst (zip lengths pool1) = lengths" using ll l1 by (simp add: map_fst_zip)
  have st: "taper_start_loop vc cdd (s * len_total) (zip lengths pool) = map fS (zip lengths pool)"
    unfolding fS_def by (rule taper_start_loop_map) (simp add: mf srt)
  have "sorted (map fst (tl (zip lengths pool1)))"
    using srt mf1 by (metis map_tl sorted_tl)
  then have en: "rev (taper_end_loop vc cdd len_total (e * len_total) (len_total - e * len_total)
                    (rev (tl (zip lengths pool1)))) = map fE (tl (zip lengths pool1))"
    unfolding fE_def by (rule taper_end_loop_map)
  define P1 where "P1 =
     (if s \<noteq> 0 then taper_start_loop vc cdd (s * last lengths) (zip lengths pool) else pool)"
  define P2 where "P2 =
     (if e \<noteq> 0 then
        hd P1 # rev (taper_end_loop vc cdd (last lengths) (e * last lengths)
                       (last lengths - e * last lengths) (rev (tl (zip lengths P1))))
      else P1)"
  have raw: "curve_draw_exec_precalc_taper vc cps cdd =
      (if s \<noteq> 0 \<or> e \<noteq> 0 then Some (cdd\<lparr>stroke_elem_pool := P2\<rparr>) else Some cdd)"
    unfolding curve_draw_exec_precalc_taper_def Let_def P2_def P1_def lengths_def
      assms(1) assms(3) assms(4) pool
    by simp
  have e1: "P1 = pool1"
    unfolding P1_def pool1_def tot st by simp
  have e2: "P2 = pool2"
    unfolding P2_def pool2_def e1 tot en by simp
  have run: "curve_draw_exec_precalc_taper vc cps cdd =
      (if s \<noteq> 0 \<or> e \<noteq> 0 then Some (cdd\<lparr>stroke_elem_pool := pool2\<rparr>) else Some cdd)"
    using raw e2 by simp
  have p2: "stroke_elem_pool (if s \<noteq> 0 \<or> e \<noteq> 0 then cdd\<lparr>stroke_elem_pool := pool2\<rparr> else cdd) = pool2"
    using assms(1) by (simp add: pool2_def pool1_def)
  have l2: "length pool2 = length pool"
    using l1 ll assms(2) by (simp add: pool2_def)
  have pr1: "\<And>i. i < length pool \<Longrightarrow>
      pressure (pool1 ! i) = pressure (pool ! i) *
          (if s \<noteq> 0 \<and> arc_length pool i < s * len_total then arc_length pool i / (s * len_total) else 1)"
    using ln ll by (simp add: pool1_def fS_def)
  have pr2: "\<And>i. i < length pool \<Longrightarrow>
      pressure (pool2 ! i) = pressure (pool1 ! i) *
          (if e \<noteq> 0 \<and> arc_length pool i > len_total - e * len_total
           then (len_total - arc_length pool i) / (e * len_total) else 1)"
  proof -
    fix i assume i: "i < length pool"
    show "pressure (pool2 ! i) = pressure (pool1 ! i) *
          (if e \<noteq> 0 \<and> arc_length pool i > len_total - e * len_total
           then (len_total - arc_length pool i) / (e * len_total) else 1)"
    proof (cases i)
      case 0
      have "e * len_total \<le> 1 * len_total" using assms(5) tot_nonneg by (rule mult_right_mono)
      then have "\<not> (arc_length pool 0 > len_total - e * len_total)"
        by (simp add: arc_length_def)
      moreover have "pool2 ! 0 = pool1 ! 0"
        using l1 assms(2) by (cases pool1) (simp_all add: pool2_def)
      ultimately show ?thesis using 0 by simp
    next
      case (Suc j)
      have z: "tl (zip lengths pool1) ! j = (lengths ! i, pool1 ! i)"
        using Suc i l1 ll by (simp add: nth_tl)
      have j: "j < length (tl (zip lengths pool1))" using Suc i l1 ll by simp
      show ?thesis
      proof (cases "e = 0")
        case True
        then show ?thesis by (simp add: pool2_def)
      next
        case False
        then have "pool2 ! i = fE (lengths ! i, pool1 ! i)"
          using Suc j z by (simp add: pool2_def)
        then show ?thesis using False ln [OF i] by (simp add: fE_def)
      qed
    qed
  qed
  have fin: "\<forall>i < length pool.
        pressure (pool2 ! i) =
          pressure (pool ! i) *
          (if s \<noteq> 0 \<and> arc_length pool i < s * len_total then arc_length pool i / (s * len_total) else 1) *
          (if e \<noteq> 0 \<and> arc_length pool i > len_total - e * len_total
           then (len_total - arc_length pool i) / (e * len_total) else 1)"
    using pr1 pr2 by simp
  show ?thesis
    apply (rule exI [of _ "if s \<noteq> 0 \<or> e \<noteq> 0 then cdd\<lparr>stroke_elem_pool := pool2\<rparr> else cdd"])
    unfolding p2 using run l2 fin by simp
qed

lemma ex_taper_pool:
  "stroke_elem_pool ex_cdd_taper =
     [ex_taper_elem 0, ex_taper_elem 1, ex_taper_elem 2, ex_taper_elem 3, ex_taper_elem 4]"
  by (simp add: ex_cdd_taper_def)

lemma ex_taper_seg:
  "len_v3v3 (location_local (ex_taper_elem (x + 1))) (location_local (ex_taper_elem x)) = 1"
  by (simp add: len_v3v3_def ex_taper_elem_def)

lemma ex_taper_arc:
  "arc_length [ex_taper_elem 0, ex_taper_elem 1, ex_taper_elem 2, ex_taper_elem 3, ex_taper_elem 4] 0 = 0"
  "arc_length [ex_taper_elem 0, ex_taper_elem 1, ex_taper_elem 2, ex_taper_elem 3, ex_taper_elem 4] (Suc 0) = 1"
  "arc_length [ex_taper_elem 0, ex_taper_elem 1, ex_taper_elem 2, ex_taper_elem 3, ex_taper_elem 4] 2 = 2"
  "arc_length [ex_taper_elem 0, ex_taper_elem 1, ex_taper_elem 2, ex_taper_elem 3, ex_taper_elem 4] 3 = 3"
  "arc_length [ex_taper_elem 0, ex_taper_elem 1, ex_taper_elem 2, ex_taper_elem 3, ex_taper_elem 4] 4 = 4"
  using ex_taper_seg [of 0] ex_taper_seg [of 1] ex_taper_seg [of 2] ex_taper_seg [of 3]
  by (simp_all add: arc_length_def eval_nat_numeral)

theorem C5_witness:
  "\<exists>cdd'. curve_draw_exec_precalc_taper ex_vc ex_cps_taper ex_cdd_taper = Some cdd' \<and>
     length (stroke_elem_pool cdd') = 5 \<and>
     pressure (stroke_elem_pool cdd' ! 0) = 0 \<and>
     pressure (stroke_elem_pool cdd' ! 1) = 1 / 2 \<and>
     pressure (stroke_elem_pool cdd' ! 2) = 1 \<and>
     pressure (stroke_elem_pool cdd' ! 3) = 1 / 2 \<and>
     pressure (stroke_elem_pool cdd' ! 4) = 0"
proof -
  let ?pool = "[ex_taper_elem 0, ex_taper_elem 1, ex_taper_elem 2, ex_taper_elem 3, ex_taper_elem 4]"
  have ne: "?pool \<noteq> []" by simp
  have s: "(1 / 2 :: real) = cps_radius_taper_start ex_cps_taper"
    and e: "(1 / 2 :: real) = cps_radius_taper_end ex_cps_taper"
    by (simp_all add: ex_cps_taper_def)
  have e1: "(1 / 2 :: real) \<le> 1" by simp
  have lp: "length ?pool - 1 = 4" by simp
  have t: "(4 :: real) = arc_length ?pool (length ?pool - 1)"
    unfolding lp by (rule ex_taper_arc(5) [symmetric])
  from C5_taper [OF ex_taper_pool ne s e e1 t, of ex_vc]
  obtain cdd' where
    h: "curve_draw_exec_precalc_taper ex_vc ex_cps_taper ex_cdd_taper = Some cdd'"
       "length (stroke_elem_pool cdd') = length ?pool"
       "\<forall>i < length ?pool.
        pressure (stroke_elem_pool cdd' ! i) =
          pressure (?pool ! i) *
          (if (1 / 2 :: real) \<noteq> 0 \<and> arc_length ?pool i < 1 / 2 * 4 then arc_length ?pool i / (1 / 2 * 4) else 1) *
          (if (1 / 2 :: real) \<noteq> 0 \<and> arc_length ?pool i > 4 - 1 / 2 * 4
           then (4 - arc_length ?pool i) / (1 / 2 * 4) else 1)"
    by blast
  have p: "\<And>x. pressure (ex_taper_elem x) = 1" by (simp add: ex_taper_elem_def)
  have l: "length (stroke_elem_pool cdd') = 5" using h(2) by simp
  have i0: "pressure (stroke_elem_pool cdd' ! 0) = 0"
    using h(3) [rule_format, of 0] by (simp add: ex_taper_arc p)
  have i1: "pressure (stroke_elem_pool cdd' ! 1) = 1 / 2"
    using h(3) [rule_format, of 1] by (simp add: ex_taper_arc p)
  have i2: "pressure (stroke_elem_pool cdd' ! 2) = 1"
    using h(3) [rule_format, of 2] by (simp add: ex_taper_arc p)
  have i3: "pressure (stroke_elem_pool cdd' ! 3) = 1 / 2"
    using h(3) [rule_format, of 3] by (simp add: ex_taper_arc p)
  have i4: "pressure (stroke_elem_pool cdd' ! 4) = 0"
    using h(3) [rule_format, of 4] by (simp add: ex_taper_arc p)
  show ?thesis using h(1) l i0 i1 i2 i3 i4 by blast
qed

section \<open>Volumes that are too small\<close>



























section \<open>Zero translation and identity transform\<close>

text \<open>
  C10: for every geometry set, \<open>translate_geometry\<close> with the zero vector returns the
  geometry set as it is, and \<open>transform_geometry\<close> with the identity matrix returns the
  geometry set as it is together with no error record.
\<close>

theorem C10_no_op:
  "translate_geometry ml vl gl geometry (0, 0, 0) = geometry \<and>
   transform_geometry ml vl gl geometry float4x4_identity = (geometry, None)"
  by (simp add: translate_geometry_def transform_geometry_def is_zero_def)

end
